theory Spec2Isabelle
  imports Complex_Main
begin

section \<open>Python values, exceptions and \<open>str.format\<close>\<close>

text \<open>
  The notebooks are straight-line Python: every cell is a short sequence of calls into
  mapsims, healpy, pixell and numpy, glued by string formatting, indexing and array
  arithmetic.  An exception is modelled as a value: a computation returns
  \<open>py_error + 'a\<close>, with \<open>Inl\<close> for the exception raised.

  \<open>Raised\<close> stands for any exception class raised inside an external library, by its
  name.  \<open>NonFinite\<close> and \<open>Unmodelled\<close> are not Python exceptions: the first marks a
  numpy division whose divisor is zero (numpy emits a RuntimeWarning and stores inf or
  nan, which are not real numbers), the second marks an input outside the fragment of
  Python that is modelled here.
\<close>

datatype py_error =
    ValueError string
  | KeyError string
  | IndexError string
  | TypeError string
  | AttributeError string
  | Raised string
  | NonFinite string
  | Unmodelled string

definition bind :: "py_error + 'a \<Rightarrow> ('a \<Rightarrow> py_error + 'b) \<Rightarrow> py_error + 'b" where
  "bind r f = (case r of Inl e \<Rightarrow> Inl e | Inr x \<Rightarrow> f x)"

text \<open>Python indexing \<open>xs[i]\<close>: a negative index counts from the end.\<close>

definition getitem :: "'a list \<Rightarrow> int \<Rightarrow> py_error + 'a" where
  "getitem xs i =
     (if 0 \<le> i \<and> i < int (length xs) then Inr (xs ! nat i)
      else if i < 0 \<and> - int (length xs) \<le> i then Inr (xs ! nat (int (length xs) + i))
      else Inl (IndexError ''index out of range''))"

subsection \<open>Decimal rendering of integers\<close>

datatype pyval = PyInt int | PyStr string

definition digit_char :: "nat \<Rightarrow> char" where
  "digit_char d = ''0123456789'' ! d"

fun dec_digits :: "nat \<Rightarrow> string" where
  "dec_digits n =
     (if n < 10 then [digit_char n] else dec_digits (n div 10) @ [digit_char (n mod 10)])"

declare dec_digits.simps [simp del]

definition py_str_int :: "int \<Rightarrow> string" where
  "py_str_int i = (if i < 0 then CHR ''-'' # dec_digits (nat (- i)) else dec_digits (nat i))"

text \<open>\<open>str(v)\<close>, which is also what an empty format specification produces.\<close>

fun py_str :: "pyval \<Rightarrow> string" where
  "py_str (PyInt i) = py_str_int i"
| "py_str (PyStr s) = s"

text \<open>
  \<open>format(i, '0Wd')\<close>: sign-aware zero padding, the sign counts towards the width and a
  number that needs more than \<open>W\<close> characters is not truncated.
\<close>

definition format_int_zero :: "nat \<Rightarrow> int \<Rightarrow> string" where
  "format_int_zero w i =
     (let sgn = (if i < 0 then ''-'' else '''');
          ds = dec_digits (nat \<bar>i\<bar>)
      in sgn @ replicate (w - length sgn - length ds) (CHR ''0'') @ ds)"

text \<open>
  The two format specifications the templates use: the empty one and \<open>04d\<close>.  \<open>d\<close> applied
  to a string raises ValueError.
\<close>

definition format_field :: "pyval \<Rightarrow> string \<Rightarrow> py_error + string" where
  "format_field v spec =
     (if spec = [] then Inr (py_str v)
      else if spec = ''04d'' then
        (case v of
           PyInt i \<Rightarrow> Inr (format_int_zero 4 i)
         | PyStr s \<Rightarrow> Inl (ValueError ''Unknown format code d for object of type str''))
      else Inl (Unmodelled spec))"

definition is_digit :: "char \<Rightarrow> bool" where
  "is_digit c = (c \<in> set ''0123456789'')"

text \<open>
  A replacement field is looked up among the keyword arguments; an empty or numeric
  field name refers to a positional argument, and the notebooks pass none.  Keyword
  arguments the template does not mention are ignored, as in Python.
\<close>

definition get_field :: "(string \<rightharpoonup> pyval) \<Rightarrow> string \<Rightarrow> string \<Rightarrow> py_error + string" where
  "get_field kwargs name spec =
     (if list_all is_digit name
      then Inl (IndexError ''Replacement index out of range for positional args tuple'')
      else case kwargs name of
             None \<Rightarrow> Inl (KeyError name)
           | Some v \<Rightarrow> format_field v spec)"

definition emit :: "string \<Rightarrow> py_error + string \<Rightarrow> py_error + string" where
  "emit s r = (case r of Inl e \<Rightarrow> Inl e | Inr t \<Rightarrow> Inr (s @ t))"

subsection \<open>The template scanner\<close>

text \<open>
  \<open>str.format\<close> scans the template once, left to right, and renders each replacement
  field when it meets it, so the first failing field decides the exception.  \<open>{{\<close> and
  \<open>}}\<close> are escapes.  Conversions (\<open>!r\<close>), attribute and index access in a field name and
  nested fields in a specification are outside the modelled fragment.
\<close>

datatype scan_state = Text | Name string | Spec string string

fun fmt :: "(string \<rightharpoonup> pyval) \<Rightarrow> scan_state \<Rightarrow> string \<Rightarrow> py_error + string" where
  "fmt kw Text [] = Inr []"
| "fmt kw (Name n) [] = Inl (ValueError ''expected } before end of string'')"
| "fmt kw (Spec n s) [] = Inl (ValueError ''expected } before end of string'')"
| "fmt kw Text (c # cs) =
     (if c = CHR ''{'' then
        (case cs of
           [] \<Rightarrow> Inl (ValueError ''Single { encountered in format string'')
         | d # ds \<Rightarrow> if d = CHR ''{'' then emit [c] (fmt kw Text ds) else fmt kw (Name []) cs)
      else if c = CHR ''}'' then
        (case cs of
           [] \<Rightarrow> Inl (ValueError ''Single } encountered in format string'')
         | d # ds \<Rightarrow> if d = CHR ''}'' then emit [c] (fmt kw Text ds)
                    else Inl (ValueError ''Single } encountered in format string''))
      else emit [c] (fmt kw Text cs))"
| "fmt kw (Name n) (c # cs) =
     (if c = CHR ''}'' then
        (case get_field kw n [] of Inl e \<Rightarrow> Inl e | Inr out \<Rightarrow> emit out (fmt kw Text cs))
      else if c = CHR '':'' then fmt kw (Spec n []) cs
      else if c \<in> set ''!.[{'' then Inl (Unmodelled (n @ [c]))
      else fmt kw (Name (n @ [c])) cs)"
| "fmt kw (Spec n s) (c # cs) =
     (if c = CHR ''}'' then
        (case get_field kw n s of Inl e \<Rightarrow> Inl e | Inr out \<Rightarrow> emit out (fmt kw Text cs))
      else if c = CHR ''{'' then Inl (Unmodelled (s @ [c]))
      else fmt kw (Spec n (s @ [c])) cs)"

definition py_format :: "string \<Rightarrow> (string \<rightharpoonup> pyval) \<Rightarrow> py_error + string" where
  "py_format template kwargs = fmt kwargs Text template"

subsection \<open>The release templates\<close>

text \<open>
  \<open>filename_template\<close> of notebooks 1, 2 and 3 (foreground and CMB releases) and of
  notebook 3 (noise release), as written in the cells.
\<close>

definition signal_template :: string where
  "signal_template =
     ''{nside}/{content}/{num:04d}/simonsobs_{content}_uKCMB_{telescope}{band}_nside{nside}_{num:04d}.fits''"

definition noise_template :: string where
  "noise_template =
     ''{content}/{num:04d}/simonsobs_{content}_uKCMB_{tube}_{band}_nside{nside}_{num:04d}_{split}_of_{nsplits}.fits''"

text \<open>
  The naming convention in the words of the specification, with the project name as a
  parameter; \<open>nnnn\<close> is the realization number written with four digits.
\<close>

type_synonym path_part = string

definition spec_signal_path ::
  "path_part \<Rightarrow> path_part \<Rightarrow> path_part \<Rightarrow> path_part \<Rightarrow> path_part \<Rightarrow> path_part
     \<Rightarrow> string" where
  "spec_signal_path project nside content telescope band nnnn =
     nside @ ''/'' @ content @ ''/'' @ nnnn @ ''/'' @ project @ ''_'' @ content @ ''_uKCMB_''
       @ telescope @ band @ ''_nside'' @ nside @ ''_'' @ nnnn @ ''.fits''"

definition spec_noise_path ::
  "path_part \<Rightarrow> path_part \<Rightarrow> path_part \<Rightarrow> path_part \<Rightarrow> path_part \<Rightarrow> path_part
     \<Rightarrow> path_part \<Rightarrow> path_part \<Rightarrow> string" where
  "spec_noise_path project nside content tube band nnnn split nsplits =
     content @ ''/'' @ nnnn @ ''/'' @ project @ ''_'' @ content @ ''_uKCMB_'' @ tube @ ''_''
       @ band @ ''_nside'' @ nside @ ''_'' @ nnnn @ ''_'' @ split @ ''_of_'' @ nsplits @ ''.fits''"

text \<open>The four decimal digits of a number below 10000, thousands first.\<close>

definition four_digits :: "nat \<Rightarrow> string" where
  "four_digits n =
     [digit_char (n div 1000), digit_char (n div 100 mod 10), digit_char (n div 10 mod 10),
      digit_char (n mod 10)]"

section \<open>numpy arrays\<close>

text \<open>
  A one-dimensional array is the list of its elements and a two-dimensional array the
  list of its rows; arrays are rectangular, and an array with no rows is taken to have
  no columns.  Pixel values are real numbers.  The formulas of the power-spectrum cells
  are stated in exact arithmetic; where a statement turns on whether a value is zero,
  which float64 underflow decides, the cell is evaluated in float64 arithmetic (the
  polarization amplitude, and the divisors of the sky-fraction correction).  Where numpy
  leaves the finite numbers (a division by zero, an overflow, the root of a negative
  number) it warns and stores inf or nan; the model stops there with \<open>NonFinite\<close>.
\<close>

definition UNSEEN :: real where
  "UNSEEN = - 16375 * 10 ^ 26"

fun mapM :: "('a \<Rightarrow> py_error + 'b) \<Rightarrow> 'a list \<Rightarrow> py_error + 'b list" where
  "mapM f [] = Inr []"
| "mapM f (x # xs) = bind (f x) (\<lambda>y. bind (mapM f xs) (\<lambda>ys. Inr (y # ys)))"

subsection \<open>Broadcasting\<close>

text \<open>
  Two axes are compatible when they are equal or one of them has length 1; the axis of
  length 1 is repeated.  Anything else raises ValueError.
\<close>

definition bdim :: "nat \<Rightarrow> nat \<Rightarrow> py_error + nat" where
  "bdim a b =
     (if a = b then Inr a else if a = 1 then Inr b else if b = 1 then Inr a
      else Inl (ValueError ''operands could not be broadcast together''))"

definition stretch :: "nat \<Rightarrow> 'a list \<Rightarrow> 'a list" where
  "stretch n xs = (if length xs = n then xs else replicate n (hd xs))"

definition broadcast1 :: "('a \<Rightarrow> 'b \<Rightarrow> 'c) \<Rightarrow> 'a list \<Rightarrow> 'b list \<Rightarrow> py_error + 'c list" where
  "broadcast1 f xs ys =
     bind (bdim (length xs) (length ys)) (\<lambda>n. Inr (map2 f (stretch n xs) (stretch n ys)))"

definition ncols :: "'a list list \<Rightarrow> nat" where
  "ncols a = (case a of [] \<Rightarrow> 0 | r # _ \<Rightarrow> length r)"

definition broadcast2 ::
  "('a \<Rightarrow> 'b \<Rightarrow> 'c) \<Rightarrow> 'a list list \<Rightarrow> 'b list list \<Rightarrow> py_error + 'c list list" where
  "broadcast2 f a b =
     bind (bdim (length a) (length b)) (\<lambda>r.
     bind (bdim (ncols a) (ncols b)) (\<lambda>c.
       Inr (map2 (\<lambda>x y. map2 f (stretch c x) (stretch c y)) (stretch r a) (stretch r b))))"

text \<open>An in-place operation broadcasts the other operand to the shape of the target.\<close>

definition bdim_to :: "nat \<Rightarrow> nat \<Rightarrow> py_error + nat" where
  "bdim_to target other =
     (if other = target \<or> other = 1 then Inr target
      else Inl (ValueError ''non-broadcastable output operand''))"

definition broadcast_to :: "nat \<Rightarrow> nat \<Rightarrow> 'a list list \<Rightarrow> py_error + 'a list list" where
  "broadcast_to r c b =
     bind (bdim_to r (length b)) (\<lambda>_.
     bind (bdim_to c (ncols b)) (\<lambda>_.
       Inr (map (stretch c) (stretch r b))))"

subsection \<open>Element-wise operations\<close>

text \<open>
  \<open>a ** 2\<close> in exact arithmetic, for the formulas of the power-spectrum cells.  In float64
  a square can underflow to zero; what depends on that is stated with \<open>f64_square\<close> below.
\<close>

definition np_square :: "real list \<Rightarrow> real list" where
  "np_square xs = map (\<lambda>x. x ^ 2) xs"

text \<open>\<open>a[idx] = v\<close> with a boolean index array, which must have the length of \<open>a\<close>.\<close>

definition setitem_bool :: "'a list \<Rightarrow> bool list \<Rightarrow> 'a \<Rightarrow> py_error + 'a list" where
  "setitem_bool a idx v =
     (if length idx = length a then Inr (map2 (\<lambda>x b. if b then v else x) a idx)
      else Inl (IndexError ''boolean index did not match indexed array''))"

text \<open>\<open>a[:, idx] = v\<close>: the boolean index selects columns, in every row.\<close>

definition setitem_cols :: "'a list list \<Rightarrow> bool list \<Rightarrow> 'a \<Rightarrow> py_error + 'a list list" where
  "setitem_cols a idx v =
     (if length idx = ncols a then Inr (map (\<lambda>row. map2 (\<lambda>x b. if b then v else x) row idx) a)
      else Inl (IndexError ''boolean index did not match indexed array''))"

text \<open>
  Division by a scalar.  numpy does not raise on a zero divisor: it warns and stores
  inf or nan.  The model stops there.
\<close>

definition scalar_divide :: "real \<Rightarrow> real \<Rightarrow> py_error + real" where
  "scalar_divide a d = (if d = 0 then Inl (NonFinite ''division by zero'') else Inr (a / d))"

definition divide1 :: "real list \<Rightarrow> real \<Rightarrow> py_error + real list" where
  "divide1 a d =
     (if d = 0 then Inl (NonFinite ''division by zero'') else Inr (map (\<lambda>x. x / d) a))"

definition divide2 :: "real list list \<Rightarrow> real \<Rightarrow> py_error + real list list" where
  "divide2 a d =
     (if d = 0 then Inl (NonFinite ''division by zero'') else Inr (map (map (\<lambda>x. x / d)) a))"

text \<open>\<open>np.mean\<close>; the mean of an empty array is nan, with a warning.\<close>

definition np_mean :: "real list \<Rightarrow> py_error + real" where
  "np_mean xs = scalar_divide (sum_list xs) (real (length xs))"

section \<open>float64 arithmetic\<close>

text \<open>
  The maps are float64 arrays, the default of \<open>hp.read_map\<close>.  With \<open>pow2 e\<close> for the power of
  two with the integer exponent \<open>e\<close>, a finite float64 value is \<open>m * pow2 e\<close> for integers \<open>m\<close>
  and \<open>e\<close> with \<open>\<bar>m\<bar> < 2 ^ 53\<close> and \<open>- 1074 \<le> e \<le> 971\<close>.  An operation returns the exact result
  rounded to the nearest such value, a tie going to the even \<open>m\<close>.  Around \<open>x\<close> these values
  are \<open>pow2 e\<close> apart, with \<open>e\<close> 52 below the binary exponent of \<open>x\<close> and never below \<open>- 1074\<close>;
  so a result of magnitude \<open>pow2 (- 1075)\<close> or less is zero (underflow).  A rounded result
  above the largest finite value is inf (overflow).  The sign of a zero is not modelled.
\<close>

definition pow2 :: "int \<Rightarrow> real" where
  "pow2 k = 2 powi k"

definition round_even :: "real \<Rightarrow> int" where
  "round_even x =
     (let n = \<lfloor>x\<rfloor>; d = x - of_int n
      in if d < 1 / 2 then n else if 1 / 2 < d then n + 1 else if even n then n else n + 1)"

definition ulp_exponent :: "real \<Rightarrow> int" where
  "ulp_exponent x = max (- 1074) (\<lfloor>log 2 \<bar>x\<bar>\<rfloor> - 52)"

definition round64 :: "real \<Rightarrow> real" where
  "round64 x =
     (if x = 0 then 0
      else of_int (round_even (x / pow2 (ulp_exponent x))) * pow2 (ulp_exponent x))"

definition f64_max :: real where
  "f64_max = (2 ^ 53 - 1) * pow2 971"

definition f64 :: "real \<Rightarrow> py_error + real" where
  "f64 x = (if f64_max < \<bar>round64 x\<bar> then Inl (NonFinite ''overflow'') else Inr (round64 x))"

definition f64_square :: "real \<Rightarrow> py_error + real" where
  "f64_square x = f64 (x * x)"

definition f64_add :: "real \<Rightarrow> real \<Rightarrow> py_error + real" where
  "f64_add a b = f64 (a + b)"

definition f64_multiply :: "real \<Rightarrow> real \<Rightarrow> py_error + real" where
  "f64_multiply a b = f64 (a * b)"

definition f64_divide :: "real \<Rightarrow> real \<Rightarrow> py_error + real" where
  "f64_divide a d = (if d = 0 then Inl (NonFinite ''division by zero'') else f64 (a / d))"

definition f64_sqrt :: "real \<Rightarrow> py_error + real" where
  "f64_sqrt x = (if x < 0 then Inl (NonFinite ''invalid value in sqrt'') else f64 (sqrt x))"

text \<open>The elements of an array of results, or the first failure among them.\<close>

definition all_finite :: "(py_error + 'a) list \<Rightarrow> py_error + 'a list" where
  "all_finite rs = mapM (\<lambda>r. r) rs"

section \<open>Notebook 1: polarization amplitude and masks\<close>

text \<open>
  \<open>m_P = np.sqrt(m[1]**2 + m[2]**2)\<close>, in float64: each square, each sum and each root
  is rounded.
\<close>

definition m_P :: "real list list \<Rightarrow> py_error + real list" where
  "m_P m =
     bind (getitem m 1) (\<lambda>q.
     bind (mapM f64_square q) (\<lambda>q2.
     bind (getitem m 2) (\<lambda>u.
     bind (mapM f64_square u) (\<lambda>u2.
     bind (broadcast1 f64_add q2 u2) (\<lambda>added.
     bind (all_finite added) (\<lambda>s.
       mapM f64_sqrt s))))))"

text \<open>
  The two masking cells, on values: the copy of \<open>m_P\<close> with \<open>UNSEEN\<close> assigned where the
  galactic mask is False, and where the first hitmap of the tube is zero.
  \<^verbatim>\<open>m_P_masked = m_P.copy(); m_P_masked[np.logical_not(mask)] = hp.UNSEEN\<close>
  \<^verbatim>\<open>m_P_survey = m_P.copy(); m_P_survey[hitmaps[0] == 0] = hp.UNSEEN\<close>
\<close>

definition m_P_masked :: "real list \<Rightarrow> bool list \<Rightarrow> py_error + real list" where
  "m_P_masked mp msk = setitem_bool mp (map Not msk) UNSEEN"

definition m_P_survey :: "real list \<Rightarrow> real list list \<Rightarrow> py_error + real list" where
  "m_P_survey mp hitmaps =
     bind (getitem hitmaps 0) (\<lambda>h0. setitem_bool mp (map (\<lambda>x. x = 0) h0) UNSEEN)"

subsection \<open>The same cells on a store of array objects\<close>

text \<open>
  Python variables hold references.  The store is the list of the array objects
  allocated so far and a reference is an index into it; \<open>copy\<close> allocates a new object,
  an indexed assignment updates the object its target refers to.  A variable always
  refers to an object of the store.  A cell returns the store it leaves behind together
  with its result or the exception.
\<close>

type_synonym ref = nat
type_synonym store = "real list list"

definition np_copy :: "ref \<Rightarrow> store \<Rightarrow> ref \<times> store" where
  "np_copy r h = (length h, h @ [h ! r])"

definition assign_bool :: "ref \<Rightarrow> bool list \<Rightarrow> real \<Rightarrow> store \<Rightarrow> store \<times> (py_error + unit)" where
  "assign_bool r idx v h =
     (case setitem_bool (h ! r) idx v of
        Inl e \<Rightarrow> (h, Inl e)
      | Inr a \<Rightarrow> (h[r := a], Inr ()))"

definition cell_m_P_masked :: "ref \<Rightarrow> bool list \<Rightarrow> store \<Rightarrow> store \<times> (py_error + ref)" where
  "cell_m_P_masked mp msk h =
     (case np_copy mp h of (masked, h1) \<Rightarrow>
        (case assign_bool masked (map Not msk) UNSEEN h1 of
           (h2, Inl e) \<Rightarrow> (h2, Inl e)
         | (h2, Inr _) \<Rightarrow> (h2, Inr masked)))"

definition cell_m_P_survey :: "ref \<Rightarrow> real list list \<Rightarrow> store \<Rightarrow> store \<times> (py_error + ref)" where
  "cell_m_P_survey mp hitmaps h =
     (case np_copy mp h of (survey, h1) \<Rightarrow>
        (case getitem hitmaps 0 of
           Inl e \<Rightarrow> (h1, Inl e)
         | Inr h0 \<Rightarrow>
             (case assign_bool survey (map (\<lambda>x. x = 0) h0) UNSEEN h1 of
                (h2, Inl e) \<Rightarrow> (h2, Inl e)
              | (h2, Inr _) \<Rightarrow> (h2, Inr survey))))"

text \<open>The assignment without the copy, for comparison: \<open>m_P[np.logical_not(mask)] = hp.UNSEEN\<close>.\<close>

definition assign_without_copy :: "ref \<Rightarrow> bool list \<Rightarrow> store \<Rightarrow> store \<times> (py_error + ref)" where
  "assign_without_copy mp msk h =
     (case assign_bool mp (map Not msk) UNSEEN h of
        (h2, Inl e) \<Rightarrow> (h2, Inl e)
      | (h2, Inr _) \<Rightarrow> (h2, Inr mp))"

section \<open>Masked arrays (notebooks 2 and 3)\<close>

text \<open>
  A \<open>numpy.ma\<close> masked array is a data array with a boolean mask of the same shape
  (\<open>nomask\<close> is the mask that is False everywhere).  \<open>hp.ma(m)\<close> is
  \<open>np.ma.masked_values(m, UNSEEN, rtol=1e-5, atol=1e-8)\<close>: it masks the elements close to
  the sentinel at the time of the call.
\<close>

record marray =
  mdata :: "real list list"
  mmask :: "bool list list"

definition mask_bad :: "real \<Rightarrow> bool" where
  "mask_bad x = (\<bar>x - UNSEEN\<bar> \<le> 1 / 10 ^ 8 + 1 / 10 ^ 5 * \<bar>UNSEEN\<bar>)"

definition hp_ma :: "real list list \<Rightarrow> marray" where
  "hp_ma m = \<lparr>mdata = m, mmask = map (map mask_bad) m\<rparr>"

text \<open>
  \<open>each[:, idx] = v\<close> on a masked array with the default soft mask: the data is set and,
  the value not being masked, the mask of the assigned elements is cleared.
\<close>

definition ma_setitem_cols :: "marray \<Rightarrow> bool list \<Rightarrow> real \<Rightarrow> py_error + marray" where
  "ma_setitem_cols a idx v =
     bind (setitem_cols (mdata a) idx v) (\<lambda>d.
     bind (setitem_cols (mmask a) idx False) (\<lambda>k.
       Inr \<lparr>mdata = d, mmask = k\<rparr>))"

text \<open>
  \<open>each += other\<close> with a plain array on the right: numpy adds
  \<open>np.where(mask, 0, other)\<close> to the data in place and leaves the mask as it is.
\<close>

definition ma_iadd :: "marray \<Rightarrow> real list list \<Rightarrow> py_error + marray" where
  "ma_iadd a other =
     bind (broadcast_to (length (mdata a)) (ncols (mdata a)) other) (\<lambda>b.
       Inr \<lparr>mdata = map2 (\<lambda>(xs, ks) os. map2 (\<lambda>(x, k) y. x + (if k then 0 else y)) (zip xs ks) os)
                       (zip (mdata a) (mmask a)) b,
            mmask = mmask a\<rparr>)"

text \<open>
  \<open>each + fg\<close> with a plain array on the left and a masked array on the right: the
  result is masked where \<open>fg\<close> is, and holds the data of \<open>each\<close> there.
\<close>

definition ma_radd :: "real list list \<Rightarrow> marray \<Rightarrow> py_error + marray" where
  "ma_radd each fg =
     bind (broadcast2 (\<lambda>x (y, k). (if k then x else x + y, k)) each
             (map2 zip (mdata fg) (mmask fg))) (\<lambda>r.
       Inr \<lparr>mdata = map (map fst) r, mmask = map (map snd) r\<rparr>)"

text \<open>
  Notebook 2: the scanning-strategy cut and the co-addition of the dust map.
  \<^verbatim>\<open>for each in maps: each[:, hitmaps[0] == 0] = hp.UNSEEN\<close>
  \<^verbatim>\<open>for each in maps: each += dust\<close>
\<close>

definition nb2_cut :: "marray list \<Rightarrow> real list list \<Rightarrow> py_error + marray list" where
  "nb2_cut maps hitmaps =
     mapM (\<lambda>each. bind (getitem hitmaps 0) (\<lambda>h0.
             ma_setitem_cols each (map (\<lambda>x. x = 0) h0) UNSEEN)) maps"

definition nb2_add_dust :: "marray list \<Rightarrow> real list list \<Rightarrow> py_error + marray list" where
  "nb2_add_dust maps dust = mapM (\<lambda>each. ma_iadd each dust) maps"

text \<open>
  The cut on one masked array in closed form: \<open>UNSEEN\<close> in the data and False in the
  mask at the columns without hits.
\<close>

definition cut_cols :: "real list \<Rightarrow> marray \<Rightarrow> marray" where
  "cut_cols h0 a =
     \<lparr>mdata = map (\<lambda>row. map2 (\<lambda>x b. if b then UNSEEN else x) row (map (\<lambda>x. x = 0) h0)) (mdata a),
      mmask = map (\<lambda>row. map2 (\<lambda>x b. if b then False else x) row (map (\<lambda>x. x = 0) h0)) (mmask a)\<rparr>"

text \<open>
  The two cells of notebook 2 in sequence, from the maps as read: \<open>hp.ma\<close>, the cut, the
  co-addition.
\<close>

definition nb2_cut_and_add ::
  "real list list list \<Rightarrow> real list list \<Rightarrow> real list list \<Rightarrow> py_error + marray list" where
  "nb2_cut_and_add ms hitmaps dust =
     bind (nb2_cut (map hp_ma ms) hitmaps) (\<lambda>maps. nb2_add_dust maps dust)"

text \<open>Notebook 3: \<open>maps = [each + foregrounds_cmb for each in maps]\<close>\<close>

definition nb3_add_foregrounds :: "real list list list \<Rightarrow> marray \<Rightarrow> py_error + marray list" where
  "nb3_add_foregrounds maps foregrounds_cmb = mapM (\<lambda>each. ma_radd each foregrounds_cmb) maps"

section \<open>Power spectra and the sky-fraction correction\<close>

text \<open>
  Notebook 3.  \<open>hp.anafast\<close> is the external transform, a parameter here: it takes the
  three components of a map and returns the spectra, or raises.
  \<^verbatim>\<open>sky_fraction = (hitmaps[0] > 0).sum() / len(hitmaps[0])\<close>
  \<^verbatim>\<open>cls = [hp.anafast(m * hitmaps[0], iter=0) / np.mean(hitmaps[0]**2) / sky_fraction for m in maps]\<close>
\<close>

type_synonym transform = "real list list \<Rightarrow> py_error + real list list"

definition sky_fraction :: "real list list \<Rightarrow> py_error + real" where
  "sky_fraction hitmaps =
     bind (getitem hitmaps 0) (\<lambda>h0.
       scalar_divide (real (length (filter (\<lambda>x. 0 < x) h0))) (real (length h0)))"

definition corrected_cl ::
  "transform \<Rightarrow> real list list \<Rightarrow> real \<Rightarrow> real list list \<Rightarrow> py_error + real list list" where
  "corrected_cl anafast hitmaps sf m =
     bind (getitem hitmaps 0) (\<lambda>h0.
     bind (broadcast2 (*) m [h0]) (\<lambda>weighted.
     bind (anafast weighted) (\<lambda>cl.
     bind (getitem hitmaps 0) (\<lambda>h0.
     bind (np_mean (np_square h0)) (\<lambda>mean_sq.
     bind (divide2 cl mean_sq) (\<lambda>cl1.
       divide2 cl1 sf))))))"

definition cls ::
  "transform \<Rightarrow> real list list list \<Rightarrow> real list list \<Rightarrow> py_error + real list list list" where
  "cls anafast maps hitmaps =
     bind (sky_fraction hitmaps) (\<lambda>sf. mapM (corrected_cl anafast hitmaps sf) maps)"

text \<open>\<open>np.mean(hitmaps[0]**2)\<close> in closed form.\<close>

definition mean_sq :: "real list \<Rightarrow> real" where
  "mean_sq h0 = sum_list (map (\<lambda>x. x ^ 2) h0) / real (length h0)"

text \<open>
  What the cell would compute if the library call were all there is to it: the spectra
  exactly as \<open>hp.anafast\<close> returns them.
\<close>

definition library_spectra ::
  "transform \<Rightarrow> real list list list \<Rightarrow> real list list \<Rightarrow> py_error + real list list list" where
  "library_spectra anafast maps hitmaps =
     mapM (\<lambda>m. bind (getitem hitmaps 0) (\<lambda>h0. bind (broadcast2 (*) m [h0]) anafast)) maps"

text \<open>A stand-in for the transform that returns the single value 1 whatever the map.\<close>

definition constant_transform :: transform where
  "constant_transform m = Inr [[1]]"

text \<open>
  Notebook 6, CAR maps.  \<open>cs.map2alm\<close> and \<open>hp.alm2cl\<close> are parameters; \<open>'alm\<close> is whatever
  the first hands to the second.
  \<^verbatim>\<open>alm = cs.map2alm(np.sqrt(ivar1/pmap)*tmap1,lmax=500)\<close>
  \<^verbatim>\<open>mask = ivar1*0 + 1\<close>
  \<^verbatim>\<open>mask[ivar1<=0] = 0\<close>
  \<^verbatim>\<open>w2 = np.sum((mask**2)*pmap) /np.pi / 4.\<close>
  \<^verbatim>\<open>cls = hp.alm2cl(alm) / w2\<close>
\<close>

definition setitem_bool2 :: "'a list list \<Rightarrow> bool list list \<Rightarrow> 'a \<Rightarrow> py_error + 'a list list" where
  "setitem_bool2 a idx v =
     (if length idx = length a \<and> ncols idx = ncols a
      then Inr (map2 (\<lambda>row irow. map2 (\<lambda>x b. if b then v else x) row irow) a idx)
      else Inl (IndexError ''boolean index did not match indexed array''))"

definition car_mask :: "real list list \<Rightarrow> py_error + real list list" where
  "car_mask ivar1 =
     setitem_bool2 (map (map (\<lambda>x. x * 0 + 1)) ivar1) (map (map (\<lambda>x. x \<le> 0)) ivar1) 0"

definition w2 :: "real list list \<Rightarrow> real list list \<Rightarrow> py_error + real" where
  "w2 ivar1 pmap =
     bind (car_mask ivar1) (\<lambda>msk.
     bind (broadcast2 (*) (map np_square msk) pmap) (\<lambda>a.
       Inr (sum_list (map sum_list a) / pi / 4)))"

text \<open>
  The standardized map \<open>np.sqrt(ivar1/pmap)*tmap1\<close>.  A zero pixel area or a negative
  quotient under the root gives inf or nan in numpy.
\<close>

definition standardized ::
  "real list list \<Rightarrow> real list list \<Rightarrow> real list list \<Rightarrow> py_error + real list list" where
  "standardized ivar1 pmap tmap1 =
     bind (broadcast2 (\<lambda>i p. (i, p)) ivar1 pmap) (\<lambda>pairs.
       if list_ex (list_ex (\<lambda>(i, p). p = 0 \<or> i / p < 0)) pairs
       then Inl (NonFinite ''invalid value in sqrt or divide'')
       else broadcast2 (*) (map (map (\<lambda>(i, p). sqrt (i / p))) pairs) tmap1)"

definition car_cls ::
  "(real list list \<Rightarrow> py_error + 'alm) \<Rightarrow> ('alm \<Rightarrow> py_error + real list) \<Rightarrow>
     real list list \<Rightarrow> real list list \<Rightarrow> real list list \<Rightarrow> py_error + real list" where
  "car_cls map2alm alm2cl ivar1 pmap tmap1 =
     bind (standardized ivar1 pmap tmap1) (\<lambda>smap.
     bind (map2alm smap) (\<lambda>alm.
     bind (w2 ivar1 pmap) (\<lambda>w.
     bind (alm2cl alm) (\<lambda>cl.
       divide1 cl w))))"

subsection \<open>The divisors of notebook 3 in float64\<close>

text \<open>
  Whether the cell of notebook 3 divides by zero is decided by float64 arithmetic, so
  here is the cell again with its operations rounded; the hitmaps are float64 arrays
  like the maps.  The count of hit pixels and the length are integers and their
  quotient is rounded.  \<open>np.mean\<close> adds the squares and divides by their number; numpy
  rounds the partial sums in an order of its own, which is not modelled: the sum is
  exact here and the quotient is rounded.  A sum of non-negative terms is not below its
  largest term in any order of addition, and this is all the theorems on the mean use
  of the sum.
\<close>

definition sky_fraction_f64 :: "real list list \<Rightarrow> py_error + real" where
  "sky_fraction_f64 hitmaps =
     bind (getitem hitmaps 0) (\<lambda>h0.
       f64_divide (real (length (filter (\<lambda>x. 0 < x) h0))) (real (length h0)))"

definition mean_square_f64 :: "real list \<Rightarrow> py_error + real" where
  "mean_square_f64 h0 =
     bind (mapM f64_square h0) (\<lambda>squares.
       f64_divide (sum_list squares) (real (length squares)))"

definition divide2_f64 :: "real list list \<Rightarrow> real \<Rightarrow> py_error + real list list" where
  "divide2_f64 a d =
     (if d = 0 then Inl (NonFinite ''division by zero'')
      else mapM (mapM (\<lambda>x. f64 (x / d))) a)"

text \<open>\<open>m * hitmaps[0]\<close>, the hitmap broadcast over the components of the map.\<close>

definition weighted_f64 :: "real list list \<Rightarrow> real list \<Rightarrow> py_error + real list list" where
  "weighted_f64 m h0 = bind (broadcast2 f64_multiply m [h0]) (mapM all_finite)"

definition corrected_cl_f64 ::
  "transform \<Rightarrow> real list list \<Rightarrow> real \<Rightarrow> real list list \<Rightarrow> py_error + real list list" where
  "corrected_cl_f64 anafast hitmaps sf m =
     bind (getitem hitmaps 0) (\<lambda>h0.
     bind (weighted_f64 m h0) (\<lambda>weighted.
     bind (anafast weighted) (\<lambda>cl.
     bind (getitem hitmaps 0) (\<lambda>h0.
     bind (mean_square_f64 h0) (\<lambda>mean_sq.
     bind (divide2_f64 cl mean_sq) (\<lambda>cl1.
       divide2_f64 cl1 sf))))))"

definition cls_f64 ::
  "transform \<Rightarrow> real list list list \<Rightarrow> real list list \<Rightarrow> py_error + real list list list" where
  "cls_f64 anafast maps hitmaps =
     bind (sky_fraction_f64 hitmaps) (\<lambda>sf. mapM (corrected_cl_f64 anafast hitmaps sf) maps)"


section \<open>The notebooks as sequences of library calls\<close>

subsection \<open>Python objects at the library boundary\<close>

text \<open>
  What the notebooks hand to the external libraries and get back: numbers, strings,
  sequences (lists, tuples and arrays alike), dictionaries with string keys, and
  library objects, which are known by their attributes; an array object that carries
  attributes keeps its elements under \<open>data\<close>.
\<close>

datatype pyobj =
    PNone
  | PInt int
  | PReal real
  | PBool bool
  | PStr string
  | PList "pyobj list"
  | PDict "(string \<times> pyobj) list"
  | PObj "(string \<times> pyobj) list"

definition py_getattr :: "pyobj \<Rightarrow> string \<Rightarrow> py_error + pyobj" where
  "py_getattr obj name =
     (case obj of
        PObj attrs \<Rightarrow> (case map_of attrs name of
                         None \<Rightarrow> Inl (AttributeError name)
                       | Some v \<Rightarrow> Inr v)
      | _ \<Rightarrow> Inl (AttributeError name))"

definition py_getitem :: "pyobj \<Rightarrow> int \<Rightarrow> py_error + pyobj" where
  "py_getitem obj i =
     (case obj of
        PList xs \<Rightarrow> getitem xs i
      | PStr s \<Rightarrow> bind (getitem s i) (\<lambda>c. Inr (PStr [c]))
      | PObj attrs \<Rightarrow> (case map_of attrs ''data'' of
                         Some (PList xs) \<Rightarrow> getitem xs i
                       | _ \<Rightarrow> Inl (TypeError ''object is not subscriptable''))
      | _ \<Rightarrow> Inl (TypeError ''object is not subscriptable''))"

text \<open>\<open>d[key]\<close> on a dictionary.\<close>

definition py_getkey :: "pyobj \<Rightarrow> string \<Rightarrow> py_error + pyobj" where
  "py_getkey obj key =
     (case obj of
        PDict entries \<Rightarrow> (case map_of entries key of
                           None \<Rightarrow> Inl (KeyError key)
                         | Some v \<Rightarrow> Inr v)
      | _ \<Rightarrow> Inl (Unmodelled ''subscript with a string''))"

text \<open>Iteration over a sequence, and \<open>+\<close> on two lists and on two strings.\<close>

definition py_iter :: "pyobj \<Rightarrow> py_error + pyobj list" where
  "py_iter obj =
     (case obj of
        PList xs \<Rightarrow> Inr xs
      | PStr s \<Rightarrow> Inr (map (\<lambda>c. PStr [c]) s)
      | PObj attrs \<Rightarrow> Inl (Unmodelled ''iteration over a library object'')
      | PDict entries \<Rightarrow> Inr (map (\<lambda>(k, v). PStr k) entries)
      | _ \<Rightarrow> Inl (TypeError ''object is not iterable''))"

definition py_add :: "pyobj \<Rightarrow> pyobj \<Rightarrow> py_error + pyobj" where
  "py_add a b =
     (case (a, b) of
        (PList xs, PList ys) \<Rightarrow> Inr (PList (xs @ ys))
      | (PStr s, PStr t) \<Rightarrow> Inr (PStr (s @ t))
      | (PStr s, _) \<Rightarrow> Inl (TypeError ''can only concatenate str to str'')
      | _ \<Rightarrow> Inl (Unmodelled ''operator + on these operands''))"

text \<open>
  Tuple unpacking \<open>a, b = obj\<close> and \<open>a, b, c = obj\<close>.  A sequence of another length raises
  ValueError.
\<close>

definition unpack2 :: "pyobj \<Rightarrow> py_error + pyobj \<times> pyobj" where
  "unpack2 obj =
     bind (py_iter obj) (\<lambda>xs.
       case xs of
         [a, b] \<Rightarrow> Inr (a, b)
       | _ \<Rightarrow> Inl (ValueError ''wrong number of values to unpack''))"

definition unpack3 :: "pyobj \<Rightarrow> py_error + pyobj \<times> pyobj \<times> pyobj" where
  "unpack3 obj =
     bind (py_iter obj) (\<lambda>xs.
       case xs of
         [a, b, c] \<Rightarrow> Inr (a, b, c)
       | _ \<Rightarrow> Inl (ValueError ''wrong number of values to unpack''))"

text \<open>
  Arrays cross the boundary as nested sequences of numbers.  The notebooks do arithmetic
  on what the libraries return; an object of another shape than the documented one is
  outside the model.
\<close>

definition as_real :: "pyobj \<Rightarrow> py_error + real" where
  "as_real obj =
     (case obj of
        PReal r \<Rightarrow> Inr r
      | PInt i \<Rightarrow> Inr (real_of_int i)
      | _ \<Rightarrow> Inl (Unmodelled ''expected a number''))"

definition as_reals :: "pyobj \<Rightarrow> py_error + real list" where
  "as_reals obj =
     (case obj of
        PList xs \<Rightarrow> mapM as_real xs
      | _ \<Rightarrow> Inl (Unmodelled ''expected an array''))"

definition as_rows :: "pyobj \<Rightarrow> py_error + real list list" where
  "as_rows obj =
     (case obj of
        PList xs \<Rightarrow> mapM as_reals xs
      | _ \<Rightarrow> Inl (Unmodelled ''expected an array of arrays''))"

definition as_bools :: "pyobj \<Rightarrow> py_error + bool list" where
  "as_bools obj =
     (case obj of
        PList xs \<Rightarrow> mapM (\<lambda>x. case x of PBool b \<Rightarrow> Inr b
                                 | _ \<Rightarrow> Inl (Unmodelled ''expected a boolean'')) xs
      | _ \<Rightarrow> Inl (Unmodelled ''expected an array''))"

definition of_reals :: "real list \<Rightarrow> pyobj" where
  "of_reals xs = PList (map PReal xs)"

definition of_rows :: "real list list \<Rightarrow> pyobj" where
  "of_rows a = PList (map of_reals a)"

definition of_bools :: "bool list \<Rightarrow> pyobj" where
  "of_bools bs = PList (map PBool bs)"

definition of_marray :: "marray \<Rightarrow> pyobj" where
  "of_marray a = PObj [(''data'', of_rows (mdata a)), (''mask'', PList (map of_bools (mmask a)))]"

text \<open>\<open>maps[0][1]\<close> of a list of masked arrays: one component, with its mask.\<close>

definition component :: "marray list \<Rightarrow> int \<Rightarrow> int \<Rightarrow> py_error + pyobj" where
  "component maps i c =
     bind (getitem maps i) (\<lambda>a.
     bind (getitem (mdata a) c) (\<lambda>d.
     bind (getitem (mmask a) c) (\<lambda>k.
       Inr (PObj [(''data'', of_reals d), (''mask'', of_bools k)]))))"

text \<open>A value as a format argument.\<close>

definition to_pyval :: "pyobj \<Rightarrow> py_error + pyval" where
  "to_pyval obj =
     (case obj of
        PInt i \<Rightarrow> Inr (PyInt i)
      | PStr s \<Rightarrow> Inr (PyStr s)
      | _ \<Rightarrow> Inl (Unmodelled ''format of this object''))"

text \<open>\<open>s.lower()\<close> on ASCII letters; an object that is not a string has no such method.\<close>

definition lower_char :: "char \<Rightarrow> char" where
  "lower_char c =
     (case map_of (zip ''ABCDEFGHIJKLMNOPQRSTUVWXYZ'' ''abcdefghijklmnopqrstuvwxyz'') c of
        None \<Rightarrow> c
      | Some l \<Rightarrow> l)"

definition py_lower :: "pyobj \<Rightarrow> py_error + pyobj" where
  "py_lower obj =
     (case obj of
        PStr s \<Rightarrow> Inr (PStr (map lower_char s))
      | _ \<Rightarrow> Inl (AttributeError ''lower''))"

subsection \<open>Paths\<close>

text \<open>
  \<open>Path(a) / b\<close> of \<open>pathlib\<close> on POSIX: an absolute right operand replaces the left one;
  empty segments, \<open>.\<close> segments and a trailing slash are dropped.  (A path that starts
  with exactly two slashes keeps them in \<open>pathlib\<close>; the folders here start with one.)
\<close>

fun split_slash :: "string \<Rightarrow> string \<Rightarrow> string list" where
  "split_slash seg [] = [seg]"
| "split_slash seg (c # cs) =
     (if c = CHR ''/'' then seg # split_slash [] cs else split_slash (seg @ [c]) cs)"

definition path_norm :: "string \<Rightarrow> string" where
  "path_norm p =
     (let segs = filter (\<lambda>s. s \<noteq> [] \<and> s \<noteq> ''.'') (split_slash [] p);
          body = concat (map (\<lambda>s. CHR ''/'' # s) segs)
      in if p \<noteq> [] \<and> hd p = CHR ''/'' then (if segs = [] then ''/'' else body)
         else (if segs = [] then ''.'' else tl body))"

definition path_join :: "string \<Rightarrow> string \<Rightarrow> string" where
  "path_join a b =
     (if b \<noteq> [] \<and> hd b = CHR ''/'' then path_norm b else path_norm (a @ ''/'' @ b))"

subsection \<open>Computations in a world\<close>

text \<open>
  A library call may do anything to the world outside the notebook (the disk, caches,
  the screen) and either returns an object or raises.  A notebook computation takes
  the world and returns the world it leaves behind with its result or the exception
  that ended it.  Sequencing stops at the first exception: the notebooks contain no
  \<open>try\<close> statement.

  \<open>call\<close> is the external code, by the dotted name of the function, with positional and
  keyword arguments.  \<open>shell\<close> is an IPython \<open>!\<close> escape: it runs a command, which may fail,
  but it never raises a Python exception.
\<close>

type_synonym ('w, 'a) nb = "'w \<Rightarrow> 'w \<times> (py_error + 'a)"

record 'w library =
  call :: "string \<Rightarrow> pyobj list \<Rightarrow> (string \<times> pyobj) list \<Rightarrow> ('w, pyobj) nb"
  shell :: "string \<Rightarrow> 'w \<Rightarrow> 'w"

definition nb_pure :: "py_error + 'a \<Rightarrow> ('w, 'a) nb" where
  "nb_pure r = (\<lambda>w. (w, r))"

definition nb_bind :: "('w, 'a) nb \<Rightarrow> ('a \<Rightarrow> ('w, 'b) nb) \<Rightarrow> ('w, 'b) nb" where
  "nb_bind m f = (\<lambda>w. case m w of (w', Inl e) \<Rightarrow> (w', Inl e) | (w', Inr x) \<Rightarrow> f x w')"

fun nb_mapM :: "('a \<Rightarrow> ('w, 'b) nb) \<Rightarrow> 'a list \<Rightarrow> ('w, 'b list) nb" where
  "nb_mapM f [] = nb_pure (Inr [])"
| "nb_mapM f (x # xs) =
     nb_bind (f x) (\<lambda>y. nb_bind (nb_mapM f xs) (\<lambda>ys. nb_pure (Inr (y # ys))))"

definition nb_shell :: "'w library \<Rightarrow> string \<Rightarrow> ('w, unit) nb" where
  "nb_shell lib cmd = (\<lambda>w. (shell lib cmd w, Inr ()))"

definition py_imports :: "'w library \<Rightarrow> string list \<Rightarrow> ('w, pyobj list) nb" where
  "py_imports lib names = nb_mapM (\<lambda>n. call lib ''import'' [PStr n] []) names"

subsection \<open>Cells shared by the notebooks\<close>

text \<open>
  \<^verbatim>\<open>Path(folder) / filename_template.format(nside=512, content=..., num=...,\<close>
  \<^verbatim>\<open>    telescope=channel.telescope.lower(), band=channel.band)\<close>
\<close>

definition signal_filename :: "string \<Rightarrow> string \<Rightarrow> int \<Rightarrow> pyobj \<Rightarrow> py_error + string" where
  "signal_filename folder content num channel =
     bind (py_getattr channel ''telescope'') (\<lambda>t.
     bind (py_lower t) (\<lambda>telescope.
     bind (py_getattr channel ''band'') (\<lambda>band.
     bind (to_pyval telescope) (\<lambda>v_telescope.
     bind (to_pyval band) (\<lambda>v_band.
     bind (py_format signal_template
             [''nside'' \<mapsto> PyInt 512, ''content'' \<mapsto> PyStr content, ''num'' \<mapsto> PyInt num,
              ''telescope'' \<mapsto> v_telescope, ''band'' \<mapsto> v_band]) (\<lambda>rel.
       Inr (path_join folder rel)))))))"

text \<open>\<open>hp.read_map(filename, (0,1,2))\<close>\<close>

definition read_map :: "'w library \<Rightarrow> string \<Rightarrow> ('w, real list list) nb" where
  "read_map lib filename =
     nb_bind (call lib ''hp.read_map'' [PStr filename, PList [PInt 0, PInt 1, PInt 2]] [])
       (\<lambda>m. nb_pure (as_rows m))"

text \<open>
  \<^verbatim>\<open>noise = mapsims.SONoiseSimulator(nside=...)\<close>
  \<^verbatim>\<open>hitmaps, ave_nhits = noise.get_hitmaps(tube=channel.tube)\<close>
\<close>

definition get_hitmaps :: "'w library \<Rightarrow> pyobj \<Rightarrow> pyobj \<Rightarrow> ('w, real list list) nb" where
  "get_hitmaps lib noise channel =
     nb_bind (nb_pure (py_getattr channel ''tube'')) (\<lambda>tube.
     nb_bind (call lib ''SONoiseSimulator.get_hitmaps'' [noise] [(''tube'', tube)]) (\<lambda>r.
       nb_pure (bind (unpack2 r) (\<lambda>(hitmaps, ave_nhits). as_rows hitmaps))))"

text \<open>\<open>hp.mollview(a, ..., title=prefix + channel.tag, ...)\<close>\<close>

definition titled :: "string \<Rightarrow> pyobj \<Rightarrow> py_error + pyobj" where
  "titled prefix channel = bind (py_getattr channel ''tag'') (\<lambda>tag. py_add (PStr prefix) tag)"

subsection \<open>Notebook 1\<close>

definition nb1_folder :: string where
  "nb1_folder = ''/project/projectdirs/sobs/v4_sims/mbs/201906_highres_foregrounds_extragalactic_tophat''"

definition nb1_mask_path :: string where
  "nb1_mask_path =
     ''/project/projectdirs/sobs/v4_sims/mbs/201904_highres_foregrounds_equatorial/512/masks/''
       @ ''mask_equatorial_pol_thr4p0_fsky0p71_ns512.fits''"

text \<open>
  The cells on channel metadata and units.
  \<^verbatim>\<open>channels = mapsims.parse_channels("tube:ST0"); print(channels)\<close>
  \<^verbatim>\<open>channel = channels[0][0]; channel.beam; channel.center_frequency; channel.beam.to(u.deg)\<close>
  \<^verbatim>\<open>for ch in mapsims.parse_channels("telescope:SA"): print(ch)\<close>
  \<^verbatim>\<open>mapsims.parse_channels("030", instrument_parameters="planck_deltabandpass")\<close>
  \<^verbatim>\<open>for ch in mapsims.parse_channels("all") + mapsims.parse_channels("all", ...):\<close>
  \<^verbatim>\<open>    print(ch.telescope, ch, ch.beam, ch.center_frequency)\<close>
  \<^verbatim>\<open>(100 * u.uK_CMB).to(u.uK_RJ, equivalencies=u.cmb_equivalencies(channel.center_frequency))\<close>
  \<^verbatim>\<open>(100 * u.uK_CMB).to(u.MJy/u.sr, equivalencies=u.cmb_equivalencies(channel.center_frequency))\<close>
\<close>

definition nb1_print_channel :: "'w library \<Rightarrow> pyobj \<Rightarrow> ('w, pyobj) nb" where
  "nb1_print_channel lib ch =
     nb_bind (nb_pure (py_getattr ch ''telescope'')) (\<lambda>telescope.
     nb_bind (nb_pure (py_getattr ch ''beam'')) (\<lambda>beam.
     nb_bind (nb_pure (py_getattr ch ''center_frequency'')) (\<lambda>center_frequency.
       call lib ''print'' [telescope, ch, beam, center_frequency] [])))"

definition nb1_convert :: "'w library \<Rightarrow> pyobj \<Rightarrow> pyobj \<Rightarrow> ('w, pyobj) nb" where
  "nb1_convert lib channel unit =
     nb_bind (call lib ''Quantity.__rmul__'' [PStr ''u.uK_CMB'', PInt 100] []) (\<lambda>quantity.
     nb_bind (nb_pure (py_getattr channel ''center_frequency'')) (\<lambda>center_frequency.
     nb_bind (call lib ''u.cmb_equivalencies'' [center_frequency] []) (\<lambda>equivalencies.
       call lib ''Quantity.to'' [quantity, unit] [(''equivalencies'', equivalencies)])))"

definition nb1_channels :: "'w library \<Rightarrow> ('w, pyobj) nb" where
  "nb1_channels lib =
     nb_bind (call lib ''mapsims.parse_channels'' [PStr ''tube:ST0''] []) (\<lambda>channels.
     nb_bind (call lib ''print'' [channels] []) (\<lambda>_.
     nb_bind (nb_pure (bind (py_getitem channels 0) (\<lambda>c. py_getitem c 0))) (\<lambda>channel.
     nb_bind (nb_pure (py_getattr channel ''beam'')) (\<lambda>_.
     nb_bind (nb_pure (py_getattr channel ''center_frequency'')) (\<lambda>_.
     nb_bind (nb_pure (py_getattr channel ''beam'')) (\<lambda>beam.
     nb_bind (call lib ''Quantity.to'' [beam, PStr ''u.deg''] []) (\<lambda>_.
     nb_bind (call lib ''mapsims.parse_channels'' [PStr ''telescope:SA''] []) (\<lambda>sa.
     nb_bind (nb_pure (py_iter sa)) (\<lambda>chs.
     nb_bind (nb_mapM (\<lambda>ch. call lib ''print'' [ch] []) chs) (\<lambda>_.
     nb_bind (call lib ''mapsims.parse_channels'' [PStr ''030'']
                [(''instrument_parameters'', PStr ''planck_deltabandpass'')]) (\<lambda>_.
     nb_bind (call lib ''mapsims.parse_channels'' [PStr ''all''] []) (\<lambda>so.
     nb_bind (call lib ''mapsims.parse_channels'' [PStr ''all'']
                [(''instrument_parameters'', PStr ''planck_deltabandpass'')]) (\<lambda>planck.
     nb_bind (nb_pure (bind (py_add so planck) py_iter)) (\<lambda>chs.
     nb_bind (nb_mapM (nb1_print_channel lib) chs) (\<lambda>_.
     nb_bind (nb1_convert lib channel (PStr ''u.uK_RJ'')) (\<lambda>_.
     nb_bind (call lib ''Unit.__truediv__'' [PStr ''u.MJy'', PStr ''u.sr''] []) (\<lambda>unit.
     nb_bind (nb1_convert lib channel unit) (\<lambda>_.
       nb_pure (Inr channel)))))))))))))))))))"

text \<open>
  The cells that load the map, compute the amplitude and mask it.  The notebook returns
  \<open>m_P\<close>, \<open>m_P_masked\<close> and \<open>m_P_survey\<close>.
\<close>

definition nb1_maps ::
  "'w library \<Rightarrow> pyobj \<Rightarrow> ('w, real list \<times> real list \<times> real list) nb" where
  "nb1_maps lib channel =
     nb_bind (nb_shell lib (''ls '' @ nb1_folder @ ''/512'')) (\<lambda>_.
     nb_bind (nb_pure (signal_filename nb1_folder ''combined'' 0 channel)) (\<lambda>filename.
     nb_bind (call lib ''print'' [PStr filename] []) (\<lambda>_.
     nb_bind (read_map lib filename) (\<lambda>m.
     nb_bind (nb_pure (m_P m)) (\<lambda>mp.
     nb_bind (nb_pure (titled ''Polarization amplitude: '' channel)) (\<lambda>title.
     nb_bind (call lib ''hp.mollview'' [of_reals mp]
                [(''min'', PInt 0), (''max'', PInt 300), (''title'', title),
                 (''unit'', PStr ''uK_CMB'')]) (\<lambda>_.
     nb_bind (nb_shell lib
                ''ls /project/projectdirs/sobs/v4_sims/mbs/201904_highres_foregrounds_equatorial/512/masks'')
       (\<lambda>_.
     nb_bind (call lib ''hp.read_map'' [PStr nb1_mask_path] [(''dtype'', PStr ''np.bool'')]) (\<lambda>r.
     nb_bind (nb_pure (as_bools r)) (\<lambda>msk.
     nb_bind (call lib ''hp.mollview'' [of_bools msk] [(''coord'', PStr ''CG'')]) (\<lambda>_.
     nb_bind (nb_pure (m_P_masked mp msk)) (\<lambda>masked.
     nb_bind (call lib ''hp.mollview'' [of_reals masked] []) (\<lambda>_.
     nb_bind (call lib ''mapsims.SONoiseSimulator'' [] [(''nside'', PInt 512)]) (\<lambda>noise.
     nb_bind (get_hitmaps lib noise channel) (\<lambda>hitmaps.
     nb_bind (nb_pure (bind (getitem hitmaps 0) (\<lambda>h0. bind (getitem hitmaps 1) (\<lambda>h1.
                bind (broadcast1 (-) h0 h1) (\<lambda>d. Inr (sum_list d)))))) (\<lambda>_.
     nb_bind (nb_pure (m_P_survey mp hitmaps)) (\<lambda>survey.
     nb_bind (call lib ''hp.mollview'' [of_reals survey] []) (\<lambda>_.
       nb_pure (Inr (mp, masked, survey))))))))))))))))))))"

definition nb1 :: "'w library \<Rightarrow> ('w, real list \<times> real list \<times> real list) nb" where
  "nb1 lib =
     nb_bind (py_imports lib [''mapsims'', ''numpy'', ''healpy'', ''pysm3.units'', ''pathlib'']) (\<lambda>_.
     nb_bind (call lib ''%matplotlib'' [PStr ''inline''] []) (\<lambda>_.
     nb_bind (nb1_channels lib) (\<lambda>channel.
       nb1_maps lib channel)))"

subsection \<open>Notebook 2\<close>

definition nb2_folder :: string where
  "nb2_folder = ''/project/projectdirs/sobs/v4_sims/mbs/201911_lensed_cmb''"

text \<open>
  \<^verbatim>\<open>plt.figure(); plt.title("EE Power spectrum")\<close>
  \<^verbatim>\<open>for cl in cls: plt.loglog(cl[1])\<close>
  \<^verbatim>\<open>plt.grid(); plt.xlabel(...);\<close>
  The label is the TeX macro for a script l between dollar signs; its backslash is
  character 92.
\<close>

definition ell_label :: string where
  "ell_label = ''$'' @ [char_of (92 :: nat)] @ ''ell$''"

definition nb2_plot :: "'w library \<Rightarrow> pyobj list \<Rightarrow> ('w, pyobj) nb" where
  "nb2_plot lib spectra =
     nb_bind (call lib ''plt.figure'' [] []) (\<lambda>_.
     nb_bind (call lib ''plt.title'' [PStr ''EE Power spectrum''] []) (\<lambda>_.
     nb_bind (nb_mapM (\<lambda>cl. nb_bind (nb_pure (py_getitem cl 1)) (\<lambda>ee.
                call lib ''plt.loglog'' [ee] [])) spectra) (\<lambda>_.
     nb_bind (call lib ''plt.grid'' [] []) (\<lambda>_.
       call lib ''plt.xlabel'' [PStr ell_label] []))))"

definition nb2 :: "'w library \<Rightarrow> ('w, marray list) nb" where
  "nb2 lib =
     nb_bind (py_imports lib [''mapsims'', ''numpy'', ''healpy'', ''pysm3.units'', ''pathlib'']) (\<lambda>_.
     nb_bind (call lib ''%matplotlib'' [PStr ''inline''] []) (\<lambda>_.
     nb_bind (py_imports lib [''matplotlib.pyplot'']) (\<lambda>_.
     nb_bind (call lib ''mapsims.parse_channels'' [PStr ''ST0_UHF1''] []) (\<lambda>channels.
     nb_bind (nb_pure (py_getitem channels 0)) (\<lambda>channel.
     nb_bind (nb_shell lib (''ls '' @ nb2_folder @ ''/512'')) (\<lambda>_.
     nb_bind (nb_pure (mapM (\<lambda>num. signal_filename nb2_folder ''cmb'' num channel) [0, 1, 2, 3, 4, 5, 6, 7, 8, 9]))
       (\<lambda>filenames.
     nb_bind (nb_mapM (\<lambda>filename. nb_bind (read_map lib filename) (\<lambda>m. nb_pure (Inr (hp_ma m))))
                filenames) (\<lambda>maps.
     nb_bind (call lib ''mapsims.SONoiseSimulator'' [] [(''nside'', PInt 512)]) (\<lambda>noise.
     nb_bind (get_hitmaps lib noise channel) (\<lambda>hitmaps.
     nb_bind (nb_pure (nb2_cut maps hitmaps)) (\<lambda>maps.
     nb_bind (nb_pure (component maps 0 1)) (\<lambda>ee.
     nb_bind (call lib ''hp.mollview'' [ee] []) (\<lambda>_.
     nb_bind (nb_mapM (\<lambda>each. call lib ''hp.anafast'' [of_marray each]
                                 [(''lmax'', PInt 512), (''iter'', PInt 0)]) maps) (\<lambda>spectra.
     nb_bind (nb2_plot lib spectra) (\<lambda>_.
     nb_bind (nb_pure (signal_filename nb1_folder ''dust'' 0 channel)) (\<lambda>filename.
     nb_bind (read_map lib filename) (\<lambda>dust.
     nb_bind (nb_pure (nb2_add_dust maps dust)) (\<lambda>maps.
     nb_bind (nb_pure (component maps 0 1)) (\<lambda>ee.
     nb_bind (call lib ''hp.mollview'' [ee] []) (\<lambda>_.
       nb_pure (Inr maps)))))))))))))))))))))"

subsection \<open>Notebook 3\<close>

text \<open>
  \<^verbatim>\<open>Path(folder) / release / filename_template.format(nside=nside, content="noise", num=0,\<close>
  \<^verbatim>\<open>    telescope=channel.telescope, tube=channel.tube, band=channel.band,\<close>
  \<^verbatim>\<open>    split=..., nsplits=...)\<close>
\<close>

definition nb3_filename :: "pyobj \<Rightarrow> pyobj \<Rightarrow> int \<Rightarrow> int \<Rightarrow> py_error + string" where
  "nb3_filename nside channel split nsplits =
     bind (py_getattr channel ''telescope'') (\<lambda>telescope.
     bind (py_getattr channel ''tube'') (\<lambda>tube.
     bind (py_getattr channel ''band'') (\<lambda>band.
     bind (to_pyval nside) (\<lambda>v_nside.
     bind (to_pyval telescope) (\<lambda>v_telescope.
     bind (to_pyval tube) (\<lambda>v_tube.
     bind (to_pyval band) (\<lambda>v_band.
     bind (py_format noise_template
             [''nside'' \<mapsto> v_nside, ''content'' \<mapsto> PyStr ''noise'', ''num'' \<mapsto> PyInt 0,
              ''telescope'' \<mapsto> v_telescope, ''tube'' \<mapsto> v_tube, ''band'' \<mapsto> v_band,
              ''split'' \<mapsto> PyInt split, ''nsplits'' \<mapsto> PyInt nsplits]) (\<lambda>rel.
       Inr (path_join (path_join ''/project/projectdirs/sobs/v4_sims/mbs/'' ''202006_noise'') rel)))))))))"

text \<open>The full-mission file, then \<open>for split in range(1, 5)\<close> the four split files.\<close>

definition filenames :: "pyobj \<Rightarrow> pyobj \<Rightarrow> py_error + string list" where
  "filenames nside channel =
     bind (nb3_filename nside channel 1 1) (\<lambda>full.
     bind (mapM (\<lambda>split. nb3_filename nside channel split 4) [1, 2, 3, 4]) (\<lambda>splits.
       Inr (full # splits)))"

text \<open>One entry of \<open>cls\<close>, with \<open>hp.anafast\<close> as a call into the library.\<close>

definition nb3_corrected_cl ::
  "'w library \<Rightarrow> real list list \<Rightarrow> real \<Rightarrow> real list list \<Rightarrow> ('w, real list list) nb" where
  "nb3_corrected_cl lib hitmaps sf m =
     nb_bind (nb_pure (bind (getitem hitmaps 0) (\<lambda>h0. broadcast2 (*) m [h0]))) (\<lambda>weighted.
     nb_bind (call lib ''hp.anafast'' [of_rows weighted] [(''iter'', PInt 0)]) (\<lambda>r.
     nb_bind (nb_pure (as_rows r)) (\<lambda>cl.
       nb_pure (bind (getitem hitmaps 0) (\<lambda>h0.
                bind (np_mean (np_square h0)) (\<lambda>mean_sq.
                bind (divide2 cl mean_sq) (\<lambda>cl1.
                  divide2 cl1 sf)))))))"

text \<open>
  \<^verbatim>\<open>plt.figure(figsize=(8, 5))\<close>
  \<^verbatim>\<open>plt.loglog(ell, ps_P[0] * sky_fraction); plt.loglog(ell, ps_P[0] * sky_fraction * 4)\<close>
  \<^verbatim>\<open>for cl in cls: plt.loglog(cl[1], alpha=.5)\<close>
  \<^verbatim>\<open>plt.xlabel("ell"); plt.ylabel("C_ell [uK^2]");\<close>
\<close>

definition nb3_plot ::
  "'w library \<Rightarrow> pyobj \<Rightarrow> pyobj \<Rightarrow> real \<Rightarrow> real list list list \<Rightarrow> ('w, pyobj) nb" where
  "nb3_plot lib ell ps_P sf spectra =
     nb_bind (call lib ''plt.figure'' [] [(''figsize'', PList [PInt 8, PInt 5])]) (\<lambda>_.
     nb_bind (nb_pure (bind (py_getitem ps_P 0) as_reals)) (\<lambda>p0.
     nb_bind (call lib ''plt.loglog'' [ell, of_reals (map (\<lambda>x. x * sf) p0)] []) (\<lambda>_.
     nb_bind (nb_pure (bind (py_getitem ps_P 0) as_reals)) (\<lambda>p0.
     nb_bind (call lib ''plt.loglog'' [ell, of_reals (map (\<lambda>x. x * sf * 4) p0)] []) (\<lambda>_.
     nb_bind (nb_mapM (\<lambda>cl. nb_bind (nb_pure (getitem cl 1)) (\<lambda>ee.
                call lib ''plt.loglog'' [of_reals ee] [(''alpha'', PReal (1 / 2))])) spectra) (\<lambda>_.
     nb_bind (call lib ''plt.xlabel'' [PStr ''ell''] []) (\<lambda>_.
       call lib ''plt.ylabel'' [PStr ''C_ell [uK^2]''] [])))))))"

definition nb3 :: "'w library \<Rightarrow> ('w, marray list) nb" where
  "nb3 lib =
     nb_bind (py_imports lib [''mapsims'', ''numpy'', ''healpy'', ''pysm3.units'', ''pathlib'']) (\<lambda>_.
     nb_bind (call lib ''%matplotlib'' [PStr ''inline''] []) (\<lambda>_.
     nb_bind (py_imports lib [''matplotlib.pyplot'']) (\<lambda>_.
     nb_bind (call lib ''mapsims.parse_channels'' [PStr ''tube:ST2''] []) (\<lambda>channels.
     nb_bind (nb_pure (bind (py_getitem channels 0) (\<lambda>c. py_getitem c 0))) (\<lambda>channel.
     nb_bind (call lib ''print'' [channel] []) (\<lambda>_.
     nb_bind (call lib ''mapsims.get_default_so_resolution'' [channel] []) (\<lambda>nside.
     nb_bind (nb_pure (filenames nside channel)) (\<lambda>names.
     nb_bind (nb_mapM (read_map lib) names) (\<lambda>maps.
     nb_bind (nb_pure (bind (getitem maps 0) (\<lambda>m. getitem m 1))) (\<lambda>ee.
     nb_bind (nb_pure (titled ''EE map: '' channel)) (\<lambda>title.
     nb_bind (call lib ''hp.mollview'' [of_reals ee]
                [(''min'', PInt (- 20)), (''max'', PInt 20), (''title'', title),
                 (''unit'', PStr ''uK_CMB'')]) (\<lambda>_.
     nb_bind (call lib ''mapsims.SONoiseSimulator'' [] [(''nside'', nside)]) (\<lambda>noise.
     nb_bind (nb_pure (py_getattr channel ''tube'')) (\<lambda>tube.
     nb_bind (call lib ''SONoiseSimulator.get_fullsky_noise_spectra'' [noise] [(''tube'', tube)])
       (\<lambda>r.
     nb_bind (nb_pure (unpack3 r)) (\<lambda>(ell, ps_T, ps_P).
     nb_bind (nb_pure (py_getitem ps_P 0)) (\<lambda>p0.
     nb_bind (call lib ''plt.loglog'' [ell, p0] []) (\<lambda>_.
     nb_bind (get_hitmaps lib noise channel) (\<lambda>hitmaps.
     nb_bind (nb_pure (sky_fraction hitmaps)) (\<lambda>sf.
     nb_bind (nb_mapM (nb3_corrected_cl lib hitmaps sf) maps) (\<lambda>spectra.
     nb_bind (nb3_plot lib ell ps_P sf spectra) (\<lambda>_.
     nb_bind (nb_pure (signal_filename nb1_folder ''combined'' 0 channel)) (\<lambda>filename.
     nb_bind (read_map lib filename) (\<lambda>fg.
     nb_bind (nb_pure (nb3_add_foregrounds maps (hp_ma fg))) (\<lambda>maps.
     nb_bind (nb_pure (component maps 0 1)) (\<lambda>ee.
     nb_bind (nb_pure (titled ''EE map with foregrounds: '' channel)) (\<lambda>title.
     nb_bind (call lib ''hp.mollview'' [ee]
                [(''min'', PInt (- 20)), (''max'', PInt 20), (''title'', title),
                 (''unit'', PStr ''uK_CMB'')]) (\<lambda>_.
       nb_pure (Inr maps)))))))))))))))))))))))))))))"

subsection \<open>Notebook 6\<close>

text \<open>
  The CAR notebook.  Its maps are \<open>pixell\<close> objects: arrays with attributes, indexed and
  cut by library code.  Cells that only ask IPython for help (\<open>name?\<close>) are left out.
  \<open>utils.degree\<close> and \<open>utils.arcmin\<close> are the constants of \<open>pixell.utils\<close>.
\<close>

definition degree :: real where
  "degree = pi / 180"

definition arcmin :: real where
  "arcmin = degree / 60"

text \<open>The pixel rows of a map object, for the arithmetic of the notebook.\<close>

definition as_map :: "pyobj \<Rightarrow> py_error + real list list" where
  "as_map obj =
     (case obj of
        PObj attrs \<Rightarrow> (case map_of attrs ''data'' of
                         None \<Rightarrow> Inl (Unmodelled ''expected a map'')
                       | Some a \<Rightarrow> as_rows a)
      | _ \<Rightarrow> as_rows obj)"

text \<open>
  \<^verbatim>\<open>plot = lambda x,**kwargs: enplot.show(enplot.plot(x,downgrade=1,grid=True,ticks=20,mask=0,**kwargs))\<close>
\<close>

definition plot :: "'w library \<Rightarrow> pyobj \<Rightarrow> (string \<times> pyobj) list \<Rightarrow> ('w, pyobj) nb" where
  "plot lib x kwargs =
     nb_bind (call lib ''enplot.plot'' [x]
                ([(''downgrade'', PInt 1), (''grid'', PBool True), (''ticks'', PInt 20),
                  (''mask'', PInt 0)] @ kwargs)) (\<lambda>p.
       call lib ''enplot.show'' [p] [])"

text \<open>\<open>a[i]\<close> and \<open>a[i, j, k]\<close> on a map object.\<close>

definition item :: "'w library \<Rightarrow> pyobj \<Rightarrow> int list \<Rightarrow> ('w, pyobj) nb" where
  "item lib a idx =
     call lib ''ndmap.__getitem__''
       [a, (case idx of [i] \<Rightarrow> PInt i | _ \<Rightarrow> PList (map PInt idx))] []"

text \<open>\<open>omap[0][0][0]\<close>\<close>

definition item000 :: "'w library \<Rightarrow> pyobj \<Rightarrow> ('w, pyobj) nb" where
  "item000 lib a =
     nb_bind (item lib a [0]) (\<lambda>a0.
     nb_bind (item lib a0 [0]) (\<lambda>a00.
       item lib a00 [0]))"

text \<open>
  \<^verbatim>\<open>noise_sim = mapsims.noise.SONoiseSimulator(shape=shape,wcs=wcs, ...)\<close>
  \<^verbatim>\<open>omap = noise_sim.simulate(tube,mask_value=0, ...)\<close>
\<close>

definition simulator ::
  "'w library \<Rightarrow> pyobj \<Rightarrow> pyobj \<Rightarrow> (string \<times> pyobj) list \<Rightarrow> ('w, pyobj) nb" where
  "simulator lib shape wcs kwargs =
     call lib ''mapsims.noise.SONoiseSimulator'' [] ([(''shape'', shape), (''wcs'', wcs)] @ kwargs)"

definition simulate :: "'w library \<Rightarrow> pyobj \<Rightarrow> (string \<times> pyobj) list \<Rightarrow> ('w, pyobj) nb" where
  "simulate lib noise_sim kwargs =
     call lib ''SONoiseSimulator.simulate'' [noise_sim, PStr ''ST0'']
       ([(''mask_value'', PInt 0)] @ kwargs)"

text \<open>\<open>noise_sim.tubes[name][0]\<close>\<close>

definition first_channel :: "pyobj \<Rightarrow> string \<Rightarrow> py_error + pyobj" where
  "first_channel noise_sim name =
     bind (py_getattr noise_sim ''tubes'') (\<lambda>tubes.
     bind (py_getkey tubes name) (\<lambda>tube.
       py_getitem tube 0))"

text \<open>\<open>print(a.shape)\<close> and \<open>print(a.shape, a.wcs)\<close>\<close>

definition print_attrs :: "'w library \<Rightarrow> pyobj \<Rightarrow> string list \<Rightarrow> ('w, pyobj) nb" where
  "print_attrs lib a names =
     nb_bind (nb_pure (mapM (py_getattr a) names)) (\<lambda>vs. call lib ''print'' vs [])"

text \<open>
  The cells up to the inverse variance and the pixel areas.  They return the geometry,
  the simulator with the intensity map \<open>tmap1\<close>, and \<open>ivar1\<close> and \<open>pmap\<close>.
\<close>

definition nb6_setup ::
  "'w library \<Rightarrow> ('w, pyobj \<times> pyobj \<times> pyobj \<times> pyobj \<times> pyobj \<times> pyobj) nb" where
  "nb6_setup lib =
     nb_bind (call lib ''enmap.fullsky_geometry'' [] [(''res'', PReal (16 * arcmin))]) (\<lambda>r.
     nb_bind (nb_pure (unpack2 r)) (\<lambda>(shape, wcs).
     nb_bind (simulator lib shape wcs []) (\<lambda>noise_sim.
     nb_bind (print_attrs lib noise_sim [''tubes'']) (\<lambda>_.
     nb_bind (nb_pure (bind (first_channel noise_sim ''ST0'') (\<lambda>ch.
                py_getattr ch ''center_frequency''))) (\<lambda>center_frequency.
     nb_bind (call lib ''print'' [center_frequency] []) (\<lambda>_.
     nb_bind (simulate lib noise_sim []) (\<lambda>omap.
     nb_bind (print_attrs lib omap [''shape'']) (\<lambda>_.
     nb_bind (print_attrs lib omap [''wcs'']) (\<lambda>_.
     nb_bind (item lib omap [0, 0, 0]) (\<lambda>tmap1.
     nb_bind (plot lib tmap1 [(''colorbar'', PBool True), (''range'', PInt 3)]) (\<lambda>_.
     nb_bind (call lib ''enmap.band_geometry'' []
                [(''dec_cut'', PList [PReal (- 80 * degree), PReal (30 * degree)]),
                 (''res'', PReal (16 * arcmin))]) (\<lambda>r.
     nb_bind (nb_pure (unpack2 r)) (\<lambda>(shape, wcs).
     nb_bind (simulator lib shape wcs []) (\<lambda>noise_sim.
     nb_bind (simulate lib noise_sim []) (\<lambda>omap.
     nb_bind (item lib omap [0, 0, 0]) (\<lambda>tmap1.
     nb_bind (plot lib tmap1 [(''range'', PInt 3)]) (\<lambda>_.
     nb_bind (call lib ''SONoiseSimulator.get_inverse_variance'' [noise_sim, PStr ''ST0''] []) (\<lambda>ivar.
     nb_bind (print_attrs lib ivar [''shape'']) (\<lambda>_.
     nb_bind (item lib ivar [0]) (\<lambda>ivar1.
     nb_bind (plot lib ivar1 [(''colorbar'', PBool True)]) (\<lambda>_.
     nb_bind (nb_pure (py_getattr noise_sim ''pixarea_map'')) (\<lambda>pmap.
     nb_bind (plot lib pmap [(''colorbar'', PBool True)]) (\<lambda>_.
       nb_pure (Inr (shape, wcs, noise_sim, tmap1, ivar1, pmap)))))))))))))))))))))))))"

text \<open>
  The cells that standardize the map and take its spectrum.
  \<^verbatim>\<open>plot(np.sqrt(ivar1/pmap)*tmap1)\<close>
  \<^verbatim>\<open>alm = cs.map2alm(np.sqrt(ivar1/pmap)*tmap1,lmax=500)\<close>
  \<^verbatim>\<open>mask = ivar1*0 + 1; mask[ivar1<=0] = 0; plot(mask,color='gray')\<close>
  \<^verbatim>\<open>w2 = np.sum((mask**2)*pmap) /np.pi / 4.; print(w2)\<close>
  \<^verbatim>\<open>cls = hp.alm2cl(alm) / w2; ls = np.arange(cls.size)\<close>
  followed by the calls that draw the figure.
\<close>

definition cl_label :: string where
  "cl_label = ''$C_{'' @ [char_of (92 :: nat)] @ ''ell}$''"

definition log_axes :: "'w library \<Rightarrow> ('w, pyobj) nb" where
  "log_axes lib =
     nb_bind (call lib ''plt.xlabel'' [PStr ell_label] []) (\<lambda>_.
     nb_bind (call lib ''plt.ylabel'' [PStr cl_label] []) (\<lambda>_.
     nb_bind (call lib ''plt.yscale'' [PStr ''log''] []) (\<lambda>_.
     nb_bind (call lib ''plt.xscale'' [PStr ''log''] []) (\<lambda>_.
     nb_bind (call lib ''plt.ylim'' [PReal (1 / 10), PInt 6] []) (\<lambda>_.
     nb_bind (call lib ''plt.xlim'' [PInt 10, PInt 500] []) (\<lambda>_.
       call lib ''plt.show'' [] []))))))"

definition nb6_spectrum ::
  "'w library \<Rightarrow> pyobj \<Rightarrow> pyobj \<Rightarrow> pyobj \<Rightarrow> ('w, real list) nb" where
  "nb6_spectrum lib tmap1 ivar1 pmap =
     nb_bind (nb_pure (bind (as_map ivar1) (\<lambda>i. bind (as_map pmap) (\<lambda>p. bind (as_map tmap1) (\<lambda>t.
                standardized i p t))))) (\<lambda>smap.
     nb_bind (plot lib (of_rows smap) []) (\<lambda>_.
     nb_bind (nb_pure (bind (as_map ivar1) (\<lambda>i. bind (as_map pmap) (\<lambda>p. bind (as_map tmap1) (\<lambda>t.
                standardized i p t))))) (\<lambda>smap.
     nb_bind (call lib ''cs.map2alm'' [of_rows smap] [(''lmax'', PInt 500)]) (\<lambda>alm.
     nb_bind (nb_pure (bind (as_map ivar1) car_mask)) (\<lambda>msk.
     nb_bind (plot lib (of_rows msk) [(''color'', PStr ''gray'')]) (\<lambda>_.
     nb_bind (nb_pure (bind (as_map ivar1) (\<lambda>i. bind (as_map pmap) (\<lambda>p. w2 i p)))) (\<lambda>w.
     nb_bind (call lib ''print'' [PReal w] []) (\<lambda>_.
     nb_bind (call lib ''hp.alm2cl'' [alm] []) (\<lambda>r.
     nb_bind (nb_pure (bind (as_reals r) (\<lambda>cl. divide1 cl w))) (\<lambda>spectrum.
     nb_bind (call lib ''plt.plot''
                [of_reals (map real [0 ..< length spectrum]), of_reals spectrum] []) (\<lambda>_.
     nb_bind (log_axes lib) (\<lambda>_.
       nb_pure (Inr spectrum)))))))))))))"

text \<open>
  The comparison with the input spectrum.
  \<^verbatim>\<open>ells,ps_T,ps_P,fsky,wnoise,hitmaps = noise_sim.get_noise_properties(tube)\<close>
  \<^verbatim>\<open>print(ps_T.shape)\<close>
  \<^verbatim>\<open>plt.plot(ls,cls); plt.plot(ells,ps_T[0]/wnoise[0],ls='--')\<close>
  \<^verbatim>\<open>plt.axhline(y=1,color='k',ls='--',alpha=0.5)\<close>
\<close>

definition unpack6 :: "pyobj \<Rightarrow> py_error + pyobj list" where
  "unpack6 obj =
     bind (py_iter obj) (\<lambda>xs.
       if length xs = 6 then Inr xs else Inl (ValueError ''wrong number of values to unpack''))"

definition nb6_compare :: "'w library \<Rightarrow> pyobj \<Rightarrow> real list \<Rightarrow> ('w, pyobj) nb" where
  "nb6_compare lib noise_sim spectrum =
     nb_bind (call lib ''SONoiseSimulator.get_noise_properties'' [noise_sim, PStr ''ST0''] []) (\<lambda>r.
     nb_bind (nb_pure (unpack6 r)) (\<lambda>props.
     nb_bind (nb_pure (bind (getitem props 1) (\<lambda>ps_T. py_getattr ps_T ''shape''))) (\<lambda>shape.
     nb_bind (call lib ''print'' [shape] []) (\<lambda>_.
     nb_bind (call lib ''plt.plot''
                [of_reals (map real [0 ..< length spectrum]), of_reals spectrum] []) (\<lambda>_.
     nb_bind (nb_pure (bind (getitem props 1) (\<lambda>ps_T. bind (py_getitem ps_T 0) (\<lambda>t0.
                bind (as_reals t0) (\<lambda>t.
                bind (getitem props 4) (\<lambda>wnoise. bind (py_getitem wnoise 0) (\<lambda>w0.
                bind (as_real w0) (\<lambda>w. divide1 t w)))))))) (\<lambda>ratio.
     nb_bind (nb_pure (getitem props 0)) (\<lambda>ells.
     nb_bind (call lib ''plt.plot'' [ells, of_reals ratio] [(''ls'', PStr ''--'')]) (\<lambda>_.
     nb_bind (call lib ''plt.axhline'' []
                [(''y'', PInt 1), (''color'', PStr ''k''), (''ls'', PStr ''--''),
                 (''alpha'', PReal (1 / 2))]) (\<lambda>_.
       log_axes lib)))))))))"

text \<open>
  The simplified noise models and the CMB signal on the fly.
  \<^verbatim>\<open>omap = noise_sim.simulate(tube,mask_value=0,atmosphere=False); plot(omap[0][0][0],range=2)\<close>
  \<^verbatim>\<open>noise_sim = mapsims.noise.SONoiseSimulator(shape=shape,wcs=wcs,homogeneous=True,sky_fraction=0.4)\<close>
  \<^verbatim>\<open>omap = noise_sim.simulate(tube,mask_value=0); plot(omap[0][0][0],range=2)\<close>
  \<^verbatim>\<open>shape,wcs = enmap.band_geometry(np.asarray((-20,20))*utils.degree,res=4.*utils.arcmin)\<close>
  \<^verbatim>\<open>ssim = mapsims.SOStandalonePrecomputedCMB(num=0,shape=shape,wcs=wcs)\<close>
  \<^verbatim>\<open>ch = noise_sim.tubes['LT3'][0]; omap = enmap.enmap(ssim.simulate(ch),wcs)\<close>
  \<^verbatim>\<open>print(omap.shape,omap.wcs)\<close>
  \<^verbatim>\<open>for i in range(3):\<close>
  \<^verbatim>\<open>    box = np.asarray([[-20,-20],[20,20]]) * utils.degree\<close>
  \<^verbatim>\<open>    plot(omap[i].submap(box),font_size=10,color='planck' if i==0 else 'gray')\<close>
\<close>

definition nb6_component :: "'w library \<Rightarrow> pyobj \<Rightarrow> int \<Rightarrow> ('w, pyobj) nb" where
  "nb6_component lib omap i =
     nb_bind (item lib omap [i]) (\<lambda>comp.
     nb_bind (call lib ''ndmap.submap''
                [comp, PList [PList [PReal (- 20 * degree), PReal (- 20 * degree)],
                              PList [PReal (20 * degree), PReal (20 * degree)]]] []) (\<lambda>sub.
       plot lib sub [(''font_size'', PInt 10),
                     (''color'', PStr (if i = 0 then ''planck'' else ''gray''))]))"

definition nb6_variants :: "'w library \<Rightarrow> pyobj \<Rightarrow> pyobj \<Rightarrow> pyobj \<Rightarrow> ('w, pyobj) nb" where
  "nb6_variants lib shape wcs noise_sim =
     nb_bind (simulate lib noise_sim [(''atmosphere'', PBool False)]) (\<lambda>omap.
     nb_bind (item000 lib omap) (\<lambda>t.
     nb_bind (plot lib t [(''range'', PInt 2)]) (\<lambda>_.
     nb_bind (simulator lib shape wcs
                [(''homogeneous'', PBool True), (''sky_fraction'', PReal (4 / 10))]) (\<lambda>noise_sim.
     nb_bind (simulate lib noise_sim []) (\<lambda>omap.
     nb_bind (item000 lib omap) (\<lambda>t.
     nb_bind (plot lib t [(''range'', PInt 2)]) (\<lambda>_.
     nb_bind (call lib ''enmap.band_geometry'' [PList [PReal (- 20 * degree), PReal (20 * degree)]]
                [(''res'', PReal (4 * arcmin))]) (\<lambda>r.
     nb_bind (nb_pure (unpack2 r)) (\<lambda>(shape, wcs).
     nb_bind (call lib ''mapsims.SOStandalonePrecomputedCMB'' []
                [(''num'', PInt 0), (''shape'', shape), (''wcs'', wcs)]) (\<lambda>ssim.
     nb_bind (nb_pure (first_channel noise_sim ''LT3'')) (\<lambda>ch.
     nb_bind (call lib ''SOStandalonePrecomputedCMB.simulate'' [ssim, ch] []) (\<lambda>sim.
     nb_bind (call lib ''enmap.enmap'' [sim, wcs] []) (\<lambda>omap.
     nb_bind (print_attrs lib omap [''shape'', ''wcs'']) (\<lambda>_.
     nb_bind (nb_mapM (nb6_component lib omap) [0, 1, 2]) (\<lambda>_.
       nb_pure (Inr omap))))))))))))))))"

definition nb6 :: "'w library \<Rightarrow> ('w, real list) nb" where
  "nb6 lib =
     nb_bind (py_imports lib [''mapsims'', ''pixell'', ''numpy'', ''healpy'', ''matplotlib.pyplot''])
       (\<lambda>_.
     nb_bind (nb6_setup lib) (\<lambda>(shape, wcs, noise_sim, tmap1, ivar1, pmap).
     nb_bind (nb6_spectrum lib tmap1 ivar1 pmap) (\<lambda>spectrum.
     nb_bind (nb6_compare lib noise_sim spectrum) (\<lambda>_.
     nb_bind (nb6_variants lib shape wcs noise_sim) (\<lambda>_.
       nb_pure (Inr spectrum))))))"

subsection \<open>The release tree and the raised exceptions\<close>

text \<open>
  The world has a disk: files by path.  The release tree is what lies under the root of
  the map-based simulations.
\<close>

record world =
  disk :: "string \<rightharpoonup> string"

definition release_root :: string where
  "release_root = ''/project/projectdirs/sobs/v4_sims/mbs''"

definition release_files :: "'a world_scheme \<Rightarrow> (string \<rightharpoonup> string)" where
  "release_files w =
     (\<lambda>p. if take (length release_root) p = release_root then disk w p else None)"

text \<open>
  The functions of the external libraries that the notebooks rely on to leave the
  release tree as it is, by the names the notebooks call them under: the one function
  that opens release files, \<open>hp.read_map\<close>, which reads; the calls of the session; the
  functions that compute; the functions that draw.  A function that writes, such as
  \<open>hp.write_map\<close> or \<open>os.remove\<close>, is not among them.
\<close>

definition reading_calls :: "string list" where
  "reading_calls = [''hp.read_map'']"

definition session_calls :: "string list" where
  "session_calls = [''import'', ''%matplotlib'', ''print'']"

definition computing_calls :: "string list" where
  "computing_calls =
     [''mapsims.parse_channels'', ''mapsims.get_default_so_resolution'',
      ''mapsims.SONoiseSimulator'', ''mapsims.noise.SONoiseSimulator'',
      ''SONoiseSimulator.get_hitmaps'', ''SONoiseSimulator.get_fullsky_noise_spectra'',
      ''SONoiseSimulator.get_inverse_variance'', ''SONoiseSimulator.get_noise_properties'',
      ''SONoiseSimulator.simulate'', ''mapsims.SOStandalonePrecomputedCMB'',
      ''SOStandalonePrecomputedCMB.simulate'', ''Quantity.__rmul__'', ''Quantity.to'',
      ''Unit.__truediv__'', ''u.cmb_equivalencies'', ''hp.anafast'', ''hp.alm2cl'',
      ''cs.map2alm'', ''enmap.fullsky_geometry'', ''enmap.band_geometry'', ''enmap.enmap'',
      ''ndmap.__getitem__'', ''ndmap.submap'']"

definition drawing_calls :: "string list" where
  "drawing_calls =
     [''hp.mollview'', ''enplot.plot'', ''enplot.show'', ''plt.figure'', ''plt.title'',
      ''plt.loglog'', ''plt.plot'', ''plt.grid'', ''plt.xlabel'', ''plt.ylabel'', ''plt.xscale'',
      ''plt.yscale'', ''plt.xlim'', ''plt.ylim'', ''plt.axhline'', ''plt.show'']"

definition read_only_calls :: "string list" where
  "read_only_calls = reading_calls @ session_calls @ computing_calls @ drawing_calls"

text \<open>
  A library reads only when these functions, whatever their arguments, leave every file
  under the release root as it is, and so does \<open>ls\<close>.  Nothing is asked of its other
  functions or of other shell commands.
\<close>

definition reads_only :: "'a world_scheme library \<Rightarrow> bool" where
  "reads_only lib \<longleftrightarrow>
     (\<forall>name\<in>set read_only_calls. \<forall>args kwargs w.
        release_files (fst (call lib name args kwargs w)) = release_files w)
     \<and> (\<forall>dir w. release_files (shell lib (''ls '' @ dir) w) = release_files w)"

definition preserves_release :: "('a world_scheme, 'b) nb \<Rightarrow> bool" where
  "preserves_release m \<longleftrightarrow> (\<forall>w. release_files (fst (m w)) = release_files w)"

text \<open>
  To speak about the exceptions the external code raises, the library is wrapped so
  that it records each of them, in order, next to the world.  The wrapper changes
  nothing else.
\<close>

definition recording :: "'w library \<Rightarrow> ('w \<times> py_error list) library" where
  "recording lib =
     \<lparr>call = (\<lambda>name args kwargs (w, raised).
                case call lib name args kwargs w of
                  (w', Inl e) \<Rightarrow> ((w', raised @ [e]), Inl e)
                | (w', Inr v) \<Rightarrow> ((w', raised), Inr v)),
      shell = (\<lambda>cmd (w, raised). (shell lib cmd w, raised))\<rparr>"

text \<open>
  A computation propagates what the library raises when, whatever had been recorded
  before, either nothing is recorded during the run, or exactly one exception is, and
  that exception is the outcome of the run.
\<close>

definition propagates :: "('w \<times> py_error list, 'a) nb \<Rightarrow> bool" where
  "propagates m \<longleftrightarrow>
     (\<forall>w raised. case m (w, raised) of
        ((w', raised'), r) \<Rightarrow> raised' = raised \<or> (\<exists>e. raised' = raised @ [e] \<and> r = Inl e))"

text \<open>
  The recording run of \<open>m'\<close> is the run of \<open>m\<close> with a record beside it: same world, same
  outcome.
\<close>

definition shadows :: "('w, 'a) nb \<Rightarrow> ('w \<times> py_error list, 'a) nb \<Rightarrow> bool" where
  "shadows m m' \<longleftrightarrow>
     (\<forall>w raised. fst (fst (m' (w, raised))) = fst (m w) \<and> snd (m' (w, raised)) = snd (m w))"

subsection \<open>A library for the examples\<close>

text \<open>
  A stand-in for the external code, used to run the notebooks on a concrete world:
  \<open>parse_channels\<close> returns one tube with one channel, the default resolution is 512,
  \<open>hp.read_map\<close> raises when the file is not on the disk, and nothing is ever written.
\<close>

definition example_channel :: pyobj where
  "example_channel =
     PObj [(''telescope'', PStr ''SA''), (''tube'', PStr ''ST2''), (''band'', PStr ''MFS1''),
           (''tag'', PStr ''ST2_MFS1''), (''beam'', PInt 30), (''center_frequency'', PInt 93)]"

definition example_library :: "'a world_scheme library" where
  "example_library =
     \<lparr>call = (\<lambda>name args kwargs w.
         if name = ''hp.read_map'' then
           (case args of
              PStr p # _ \<Rightarrow>
                (case disk w p of
                   None \<Rightarrow> (w, Inl (Raised ''FileNotFoundError''))
                 | Some content \<Rightarrow> (w, Inr (PList [])))
            | _ \<Rightarrow> (w, Inl (TypeError ''filename'')))
         else if name = ''mapsims.parse_channels'' then (w, Inr (PList [PList [example_channel]]))
         else if name = ''mapsims.get_default_so_resolution'' then (w, Inr (PInt 512))
         else (w, Inr PNone)),
      shell = (\<lambda>cmd w. w)\<rparr>"

subsection \<open>A library that reads and writes\<close>

text \<open>
  A second stand-in, with a working disk.  A map file holds the rows of the map, one
  decimal digit per pixel, the rows separated by slashes; a mask file holds one digit
  per pixel.  \<open>hp.read_map\<close> returns what the file holds, \<open>hp.write_map\<close> replaces the file,
  \<open>os.remove\<close> and the shell command \<open>rm\<close> delete it.  The other functions return
  objects of the shapes the notebooks expect: maps of two pixels, two hitmaps,
  spectra of one multipole.
\<close>

definition digit_value :: "char \<Rightarrow> int" where
  "digit_value c =
     (case map_of (zip ''0123456789'' [0, 1, 2, 3, 4, 5, 6, 7, 8, 9]) c of
        None \<Rightarrow> 0
      | Some d \<Rightarrow> d)"

definition decode_map :: "string \<Rightarrow> pyobj" where
  "decode_map content =
     PList (map (\<lambda>row. PList (map (\<lambda>c. PInt (digit_value c)) row)) (split_slash [] content))"

definition decode_mask :: "string \<Rightarrow> pyobj" where
  "decode_mask content = PList (map (\<lambda>c. PBool (c \<noteq> CHR ''0'')) content)"

definition encode_map :: "real list list \<Rightarrow> string" where
  "encode_map rows =
     tl (concat (map (\<lambda>row. CHR ''/'' # map (\<lambda>x. digit_char (nat \<lfloor>x\<rfloor> mod 10)) row) rows))"

definition example_car_map :: pyobj where
  "example_car_map =
     PObj [(''shape'', PList [PInt 1, PInt 2]), (''wcs'', PStr ''car''), (''data'', of_rows [[1, 1]])]"

definition example_simulator :: pyobj where
  "example_simulator =
     PObj [(''tubes'', PDict [(''ST0'', PList [example_channel]), (''LT3'', PList [example_channel])]),
           (''pixarea_map'', example_car_map)]"

definition nersc_result :: "string \<Rightarrow> pyobj list \<Rightarrow> pyobj" where
  "nersc_result name args =
     (if name = ''mapsims.parse_channels'' then
        (case args of
           PStr s # _ \<Rightarrow> if take 5 s = ''tube:'' then PList [PList [example_channel]]
                         else PList [example_channel]
         | _ \<Rightarrow> PList [])
      else if name = ''mapsims.get_default_so_resolution'' then PInt 512
      else if name = ''SONoiseSimulator.get_hitmaps'' then
        PList [of_rows [[1, 0], [1, 1]], of_reals [1]]
      else if name = ''SONoiseSimulator.get_fullsky_noise_spectra'' then
        PList [of_reals [0, 1], of_rows [[1, 1]], of_rows [[1, 1]]]
      else if name = ''hp.anafast'' then of_rows [[1], [1], [1]]
      else if name = ''hp.alm2cl'' then of_reals [1]
      else if name = ''enmap.fullsky_geometry'' \<or> name = ''enmap.band_geometry'' then
        PList [PList [PInt 1, PInt 2], PStr ''car'']
      else if name = ''mapsims.noise.SONoiseSimulator'' then example_simulator
      else if name = ''SONoiseSimulator.simulate'' \<or> name = ''ndmap.__getitem__''
              \<or> name = ''SONoiseSimulator.get_inverse_variance'' \<or> name = ''enmap.enmap''
              \<or> name = ''ndmap.submap'' then example_car_map
      else if name = ''SONoiseSimulator.get_noise_properties'' then
        PList [of_reals [0], example_car_map, example_car_map, PReal (4 / 10), of_reals [1], PNone]
      else PNone)"

definition nersc_call ::
  "string \<Rightarrow> pyobj list \<Rightarrow> (string \<times> pyobj) list \<Rightarrow> ('a world_scheme, pyobj) nb" where
  "nersc_call name args kwargs w =
     (if name = ''hp.read_map'' then
        (case args of
           PStr p # _ \<Rightarrow>
             (case disk w p of
                None \<Rightarrow> (w, Inl (Raised ''FileNotFoundError''))
              | Some content \<Rightarrow>
                  (w, Inr (if map_of kwargs ''dtype'' = None then decode_map content
                           else decode_mask content)))
         | _ \<Rightarrow> (w, Inl (TypeError ''filename'')))
      else if name = ''hp.write_map'' then
        (case args of
           [PStr p, m] \<Rightarrow>
             (case as_rows m of
                Inl e \<Rightarrow> (w, Inl e)
              | Inr rows \<Rightarrow> (w\<lparr>disk := (disk w)(p \<mapsto> encode_map rows)\<rparr>, Inr PNone))
         | _ \<Rightarrow> (w, Inl (TypeError ''write_map'')))
      else if name = ''os.remove'' then
        (case args of
           [PStr p] \<Rightarrow>
             (case disk w p of
                None \<Rightarrow> (w, Inl (Raised ''FileNotFoundError''))
              | Some content \<Rightarrow> (w\<lparr>disk := (disk w)(p := None)\<rparr>, Inr PNone))
         | _ \<Rightarrow> (w, Inl (TypeError ''remove'')))
      else (w, Inr (nersc_result name args)))"

definition nersc_shell :: "string \<Rightarrow> 'a world_scheme \<Rightarrow> 'a world_scheme" where
  "nersc_shell cmd w =
     (if take 3 cmd = ''rm '' then w\<lparr>disk := (disk w)(drop 3 cmd := None)\<rparr> else w)"

definition nersc_library :: "'a world_scheme library" where
  "nersc_library = \<lparr>call = nersc_call, shell = nersc_shell\<rparr>"

text \<open>
  A disk with the files the notebooks read for the channel of the examples: the mask,
  the combined and the dust map of the foreground release, ten CMB realizations, and
  the five maps of the noise release.
\<close>

definition combined_path :: string where
  "combined_path = nb1_folder @ ''/512/combined/0000/simonsobs_combined_uKCMB_saMFS1_nside512_0000.fits''"

definition dust_path :: string where
  "dust_path = nb1_folder @ ''/512/dust/0000/simonsobs_dust_uKCMB_saMFS1_nside512_0000.fits''"

definition cmb_paths :: "string list" where
  "cmb_paths =
     map (\<lambda>n. nb2_folder @ ''/512/cmb/000'' @ n @ ''/simonsobs_cmb_uKCMB_saMFS1_nside512_000'' @ n
                @ ''.fits'')
       [''0'', ''1'', ''2'', ''3'', ''4'', ''5'', ''6'', ''7'', ''8'', ''9'']"

definition noise_paths :: "string list" where
  "noise_paths =
     map (\<lambda>s. release_root @ ''/202006_noise/noise/0000/simonsobs_noise_uKCMB_ST2_MFS1_nside512_0000_''
                @ s @ ''.fits'')
       [''1_of_1'', ''1_of_4'', ''2_of_4'', ''3_of_4'', ''4_of_4'']"

definition nersc_disk :: "string \<rightharpoonup> string" where
  "nersc_disk p =
     (if p \<in> set (combined_path # dust_path # cmb_paths @ noise_paths) then Some ''10/30/40''
      else if p = nb1_mask_path then Some ''10''
      else None)"

definition nersc :: world where
  "nersc = \<lparr>disk = nersc_disk\<rparr>"

section \<open>Basic facts\<close>

lemma bind_Inr [simp]: "bind (Inr x) f = f x"
  by (simp add: bind_def)

lemma bind_Inl [simp]: "bind (Inl e) f = Inl e"
  by (simp add: bind_def)

lemma bdim_same [simp]: "bdim n n = Inr n"
  by (simp add: bdim_def)

lemma stretch_same [simp]: "length xs = n \<Longrightarrow> stretch n xs = xs"
  by (simp add: stretch_def)

lemma broadcast1_same: "length xs = length ys \<Longrightarrow> broadcast1 f xs ys = Inr (map2 f xs ys)"
  by (simp add: broadcast1_def)

lemma getitem_0 [simp]: "getitem (x # xs) 0 = Inr x"
  by (simp add: getitem_def)

lemma getitem_1 [simp]: "getitem (x # y # xs) 1 = Inr y"
  by (simp add: getitem_def)

lemma getitem_2 [simp]: "getitem (x # y # z # xs) 2 = Inr z"
  by (simp add: getitem_def)

lemma mapM_Inr: "(\<And>x. x \<in> set xs \<Longrightarrow> f x = Inr (g x)) \<Longrightarrow> mapM f xs = Inr (map g xs)"
  by (induction xs) simp_all

lemma ncols_rect: "a \<noteq> [] \<Longrightarrow> \<forall>row\<in>set a. length row = n \<Longrightarrow> ncols a = n"
  by (cases a) (simp_all add: ncols_def)

lemma setitem_cols_rect:
  "a \<noteq> [] \<Longrightarrow> \<forall>row\<in>set a. length row = length idx \<Longrightarrow>
     setitem_cols a idx v = Inr (map (\<lambda>row. map2 (\<lambda>x b. if b then v else x) row idx) a)"
  using ncols_rect [of a "length idx"] by (simp add: setitem_cols_def)

section \<open>Release paths\<close>

lemma format_int_zero_nonneg:
  "0 \<le> i \<Longrightarrow> format_int_zero 4 i
     = replicate (4 - length (dec_digits (nat i))) (CHR ''0'') @ dec_digits (nat i)"
  by (simp add: format_int_zero_def Let_def)

lemma dec_digits_1: "n < 10 \<Longrightarrow> dec_digits n = [digit_char n]"
  by (simp add: dec_digits.simps [of n])

lemma dec_digits_step:
  "10 \<le> n \<Longrightarrow> dec_digits n = dec_digits (n div 10) @ [digit_char (n mod 10)]"
  by (simp add: dec_digits.simps [of n])

lemma dec_digits_2:
  "10 \<le> n \<Longrightarrow> n < 100 \<Longrightarrow> dec_digits n = [digit_char (n div 10), digit_char (n mod 10)]"
  by (simp add: dec_digits_step dec_digits_1)

lemma dec_digits_3:
  assumes "100 \<le> n" "n < 1000"
  shows "dec_digits n = [digit_char (n div 100), digit_char (n div 10 mod 10), digit_char (n mod 10)]"
proof -
  have "10 \<le> n div 10" "n div 10 < 100" using assms by auto
  then have "dec_digits (n div 10) = [digit_char (n div 10 div 10), digit_char (n div 10 mod 10)]"
    by (rule dec_digits_2)
  moreover have "n div 10 div 10 = n div 100" by (simp add: div_mult2_eq [symmetric])
  ultimately show ?thesis using assms by (simp add: dec_digits_step)
qed

lemma dec_digits_4:
  assumes "1000 \<le> n" "n < 10000"
  shows "dec_digits n = [digit_char (n div 1000), digit_char (n div 100 mod 10),
                         digit_char (n div 10 mod 10), digit_char (n mod 10)]"
proof -
  have "100 \<le> n div 10" "n div 10 < 1000" using assms by auto
  then have "dec_digits (n div 10)
      = [digit_char (n div 10 div 100), digit_char (n div 10 div 10 mod 10), digit_char (n div 10 mod 10)]"
    by (rule dec_digits_3)
  moreover have "n div 10 div 100 = n div 1000" "n div 10 div 10 = n div 100"
    by (simp_all add: div_mult2_eq [symmetric])
  ultimately show ?thesis using assms by (simp add: dec_digits_step)
qed

lemma replicate_zeros:
  "replicate 3 c = [c, c, c]"
  "replicate 2 c = [c, c]"
  by (simp_all add: numeral_eq_Suc)

lemma zero_padded_four_digits:
  assumes "n < 10000"
  shows "replicate (4 - length (dec_digits n)) (CHR ''0'') @ dec_digits n = four_digits n"
proof -
  have zero: "digit_char 0 = CHR ''0''" by (simp add: digit_char_def)
  consider "n < 10" | "10 \<le> n" "n < 100" | "100 \<le> n" "n < 1000" | "1000 \<le> n"
    by linarith
  then show ?thesis
  proof cases
    case 1
    then have "n div 1000 = 0" "n div 100 = 0" "n div 10 = 0" "n mod 10 = n" by simp_all
    with 1 show ?thesis
      by (simp add: dec_digits_1 four_digits_def zero replicate_zeros)
  next
    case 2
    then have "n div 1000 = 0" "n div 100 = 0" "n div 10 mod 10 = n div 10" by simp_all
    with 2 show ?thesis
      by (simp add: dec_digits_2 four_digits_def zero replicate_zeros)
  next
    case 3
    then have "n div 1000 = 0" "n div 100 mod 10 = n div 100" by simp_all
    with 3 show ?thesis
      by (simp add: dec_digits_3 four_digits_def zero replicate_zeros)
  next
    case 4
    with assms show ?thesis
      by (simp add: dec_digits_4 four_digits_def)
  qed
qed

lemma format_04d: "0 \<le> num \<Longrightarrow> num < 10000 \<Longrightarrow> format_int_zero 4 num = four_digits (nat num)"
  by (simp add: format_int_zero_nonneg zero_padded_four_digits)

lemmas format_defs = py_format_def get_field_def emit_def is_digit_def format_field_def

lemma format_signal_template:
  assumes "0 \<le> num" and "num < 10000"
  shows "py_format signal_template
           [''nside'' \<mapsto> nside, ''content'' \<mapsto> content, ''num'' \<mapsto> PyInt num,
            ''telescope'' \<mapsto> telescope, ''band'' \<mapsto> band]
         = Inr (spec_signal_path ''simonsobs'' (py_str nside) (py_str content) (py_str telescope)
                  (py_str band) (four_digits (nat num)))"
  using assms by (simp add: format_defs signal_template_def spec_signal_path_def format_04d)

lemma format_noise_template:
  assumes "0 \<le> num" and "num < 10000"
  shows "py_format noise_template
           [''nside'' \<mapsto> nside, ''content'' \<mapsto> content, ''num'' \<mapsto> PyInt num,
            ''telescope'' \<mapsto> telescope, ''tube'' \<mapsto> tube, ''band'' \<mapsto> band,
            ''split'' \<mapsto> split, ''nsplits'' \<mapsto> nsplits]
         = Inr (spec_noise_path ''simonsobs'' (py_str nside) (py_str content) (py_str tube)
                  (py_str band) (four_digits (nat num)) (py_str split) (py_str nsplits))"
  using assms by (simp add: format_defs noise_template_def spec_noise_path_def format_04d)

text \<open>
  C1.  For every value of nside, content, telescope (or tube), band, split and nsplits
  and every realization number \<open>0 \<le> num < 10000\<close>, formatting the signal template gives
  the path \<open>{nside}/{content}/NNNN/simonsobs_{content}_uKCMB_{telescope}{band}_nside{nside}_NNNN.fits\<close>
  and formatting the noise template (with the keyword arguments of notebook 3, the unused
  \<open>telescope\<close> among them) gives
  \<open>{content}/NNNN/simonsobs_{content}_uKCMB_{tube}_{band}_nside{nside}_NNNN_{split}_of_{nsplits}.fits\<close>:
  the convention of the specification with project \<open>simonsobs\<close>, where each field is the
  \<open>str\<close> of its argument and \<open>NNNN\<close> is the four decimal digits of \<open>num\<close>.
\<close>

theorem release_paths_follow_convention:
  assumes "0 \<le> num" and "num < 10000"
  shows "py_format signal_template
           [''nside'' \<mapsto> nside, ''content'' \<mapsto> content, ''num'' \<mapsto> PyInt num,
            ''telescope'' \<mapsto> telescope, ''band'' \<mapsto> band]
         = Inr (spec_signal_path ''simonsobs'' (py_str nside) (py_str content) (py_str telescope)
                  (py_str band) (four_digits (nat num)))
       \<and> py_format noise_template
           [''nside'' \<mapsto> nside, ''content'' \<mapsto> content, ''num'' \<mapsto> PyInt num,
            ''telescope'' \<mapsto> telescope, ''tube'' \<mapsto> tube, ''band'' \<mapsto> band,
            ''split'' \<mapsto> split, ''nsplits'' \<mapsto> nsplits]
         = Inr (spec_noise_path ''simonsobs'' (py_str nside) (py_str content) (py_str tube)
                  (py_str band) (four_digits (nat num)) (py_str split) (py_str nsplits))
       \<and> length (four_digits (nat num)) = 4"
  using format_signal_template [OF assms] format_noise_template [OF assms]
  by (simp add: four_digits_def)

text \<open>
  The theorem at the arguments of notebook 2, realization 7, and of the third split file
  of notebook 3.
\<close>

theorem release_paths_follow_convention_witness:
  "py_format signal_template
     [''nside'' \<mapsto> PyInt 512, ''content'' \<mapsto> PyStr ''cmb'', ''num'' \<mapsto> PyInt 7,
      ''telescope'' \<mapsto> PyStr ''sa'', ''band'' \<mapsto> PyStr ''UHF1'']
   = Inr ''512/cmb/0007/simonsobs_cmb_uKCMB_saUHF1_nside512_0007.fits''
   \<and> py_format noise_template
     [''nside'' \<mapsto> PyInt 512, ''content'' \<mapsto> PyStr ''noise'', ''num'' \<mapsto> PyInt 7,
      ''telescope'' \<mapsto> PyStr ''SA'', ''tube'' \<mapsto> PyStr ''ST2'', ''band'' \<mapsto> PyStr ''MFS1'',
      ''split'' \<mapsto> PyInt 3, ''nsplits'' \<mapsto> PyInt 4]
   = Inr ''noise/0007/simonsobs_noise_uKCMB_ST2_MFS1_nside512_0007_3_of_4.fits''"
proof -
  have d: "dec_digits 512 = ''512''" "dec_digits 3 = ''3''" "dec_digits 4 = ''4''"
    by (simp_all add: dec_digits_3 dec_digits_1 digit_char_def)
  have h: "(0::int) \<le> 7" "(7::int) < 10000" by simp_all
  show ?thesis
    using release_paths_follow_convention [OF h, of "PyInt 512" "PyStr ''cmb''" "PyStr ''sa''"
        "PyStr ''UHF1''"]
      release_paths_follow_convention [OF h, of "PyInt 512" "PyStr ''noise''" "PyStr ''SA''"
        "PyStr ''MFS1''" "PyStr ''ST2''" "PyInt 3" "PyInt 4"]
    by (simp add: spec_signal_path_def spec_noise_path_def four_digits_def digit_char_def
        py_str_int_def d)
qed

text \<open>
  The file names the notebooks build are these paths under their folders: for a channel
  whose telescope, tube and band are strings, the signal file name of notebooks 1, 2 and
  3 and the noise file names of notebook 3.
\<close>

lemma signal_filename_convention:
  assumes "py_getattr channel ''telescope'' = Inr (PStr t)"
    and "py_getattr channel ''band'' = Inr (PStr b)"
    and "0 \<le> num" and "num < 10000"
  shows "signal_filename folder content num channel
         = Inr (path_join folder
                  (spec_signal_path ''simonsobs'' ''512'' content (map lower_char t) b
                     (four_digits (nat num))))"
proof -
  have "py_str (PyInt 512) = ''512''"
    by (simp add: py_str_int_def dec_digits_3 digit_char_def)
  with format_signal_template [OF assms(3,4), of "PyInt 512" "PyStr content"
      "PyStr (map lower_char t)" "PyStr b"] assms(1,2)
  show ?thesis
    by (simp add: signal_filename_def py_lower_def to_pyval_def)
qed

lemma nb3_filename_convention:
  assumes "py_getattr channel ''telescope'' = Inr (PStr t)"
    and "py_getattr channel ''tube'' = Inr (PStr tu)"
    and "py_getattr channel ''band'' = Inr (PStr b)"
  shows "nb3_filename (PInt n) channel split nsplits
         = Inr (path_join (path_join ''/project/projectdirs/sobs/v4_sims/mbs/'' ''202006_noise'')
                  (spec_noise_path ''simonsobs'' (py_str_int n) ''noise'' tu b ''0000''
                     (py_str_int split) (py_str_int nsplits)))"
proof -
  have zero: "(0::int) \<le> 0" "(0::int) < 10000" by simp_all
  have "four_digits (nat 0) = ''0000''"
    by (simp add: four_digits_def digit_char_def)
  with format_noise_template [OF zero, of "PyInt n" "PyStr ''noise''" "PyStr t" "PyStr tu"
      "PyStr b" "PyInt split" "PyInt nsplits"] assms
  show ?thesis
    by (simp add: nb3_filename_def to_pyval_def)
qed

section \<open>Masks and the scanning-strategy cut\<close>

lemma ma_setitem_cols_hp_ma:
  assumes "m \<noteq> []" "\<forall>row\<in>set m. length row = length h0"
  shows "ma_setitem_cols (hp_ma m) (map (\<lambda>x. x = 0) h0) UNSEEN = Inr (cut_cols h0 (hp_ma m))"
  using assms by (simp add: ma_setitem_cols_def hp_ma_def setitem_cols_rect cut_cols_def)

lemma nb2_cut_hp_ma:
  assumes "\<forall>m\<in>set ms. m \<noteq> [] \<and> (\<forall>row\<in>set m. length row = length h0)"
  shows "nb2_cut (map hp_ma ms) (h0 # hs) = Inr (map (\<lambda>m. cut_cols h0 (hp_ma m)) ms)"
proof -
  have "nb2_cut (map hp_ma ms) (h0 # hs) = Inr (map (cut_cols h0) (map hp_ma ms))"
    unfolding nb2_cut_def
    by (rule mapM_Inr) (use assms in \<open>auto simp: ma_setitem_cols_hp_ma\<close>)
  then show ?thesis by (simp add: comp_def)
qed

lemma cut_cols_pixel:
  assumes "c < length m" "length (m ! c) = length h0" "p < length h0"
  shows "mdata (cut_cols h0 (hp_ma m)) ! c ! p = (if h0 ! p = 0 then UNSEEN else m ! c ! p)"
  using assms by (simp add: cut_cols_def hp_ma_def)

text \<open>
  C4.  With a galactic mask of the length of the map, the masked copy holds \<open>UNSEEN\<close>
  exactly where the mask is False and the value of \<open>m_P\<close> where it is True.  With a
  hitmap of the length of the map, the survey copy holds \<open>UNSEEN\<close> exactly where the hit
  count is zero and the value of \<open>m_P\<close> everywhere else, so at every pixel with a positive
  hit count.  The cut of notebook 2, on the \<open>hp.ma\<close> arrays of the maps read, does the same
  to every component of every map.
\<close>

theorem mask_application_flags_unobserved:
  "(length msk = length mp \<longrightarrow>
      (\<exists>r. m_P_masked mp msk = Inr r \<and> length r = length mp
         \<and> (\<forall>p<length mp. r ! p = (if msk ! p then mp ! p else UNSEEN))))
   \<and> (length h0 = length mp \<longrightarrow>
      (\<exists>r. m_P_survey mp (h0 # hs) = Inr r \<and> length r = length mp
         \<and> (\<forall>p<length mp. r ! p = (if h0 ! p = 0 then UNSEEN else mp ! p))))
   \<and> ((\<forall>m\<in>set ms. m \<noteq> [] \<and> (\<forall>row\<in>set m. length row = length h0)) \<longrightarrow>
      (\<exists>out. nb2_cut (map hp_ma ms) (h0 # hs) = Inr out \<and> length out = length ms
         \<and> (\<forall>i<length ms. \<forall>c<length (ms ! i). \<forall>p<length h0.
               mdata (out ! i) ! c ! p = (if h0 ! p = 0 then UNSEEN else ms ! i ! c ! p))))"
proof (intro conjI impI)
  assume "length msk = length mp"
  then show "\<exists>r. m_P_masked mp msk = Inr r \<and> length r = length mp
         \<and> (\<forall>p<length mp. r ! p = (if msk ! p then mp ! p else UNSEEN))"
    by (simp add: m_P_masked_def setitem_bool_def)
next
  assume "length h0 = length mp"
  then show "\<exists>r. m_P_survey mp (h0 # hs) = Inr r \<and> length r = length mp
         \<and> (\<forall>p<length mp. r ! p = (if h0 ! p = 0 then UNSEEN else mp ! p))"
    by (simp add: m_P_survey_def setitem_bool_def)
next
  assume a: "\<forall>m\<in>set ms. m \<noteq> [] \<and> (\<forall>row\<in>set m. length row = length h0)"
  have "\<forall>i<length ms. \<forall>c<length (ms ! i). \<forall>p<length h0.
          mdata (map (\<lambda>m. cut_cols h0 (hp_ma m)) ms ! i) ! c ! p
            = (if h0 ! p = 0 then UNSEEN else ms ! i ! c ! p)"
  proof (intro allI impI)
    fix i c p assume i: "i < length ms" and c: "c < length (ms ! i)" and p: "p < length h0"
    from a i have "\<forall>row\<in>set (ms ! i). length row = length h0"
      using nth_mem [of i ms] by blast
    with c have "length (ms ! i ! c) = length h0" by simp
    with i c p show "mdata (map (\<lambda>m. cut_cols h0 (hp_ma m)) ms ! i) ! c ! p
            = (if h0 ! p = 0 then UNSEEN else ms ! i ! c ! p)"
      by (simp add: cut_cols_pixel)
  qed
  with nb2_cut_hp_ma [OF a, of hs]
  show "\<exists>out. nb2_cut (map hp_ma ms) (h0 # hs) = Inr out \<and> length out = length ms
         \<and> (\<forall>i<length ms. \<forall>c<length (ms ! i). \<forall>p<length h0.
               mdata (out ! i) ! c ! p = (if h0 ! p = 0 then UNSEEN else ms ! i ! c ! p))"
    by simp
qed


theorem mask_application_flags_unobserved_witness:
  "m_P_masked [1, 2, 3] [True, False, True] = Inr [1, UNSEEN, 3]
   \<and> m_P_survey [1, 2, 3] [[0, 5, 0], [1, 1, 1]] = Inr [UNSEEN, 2, UNSEEN]
   \<and> (\<exists>out. nb2_cut (map hp_ma [[[1, 2], [3, 4], [5, 6]]]) [[0, 7]] = Inr out
         \<and> mdata (out ! 0) = [[UNSEEN, 2], [UNSEEN, 4], [UNSEEN, 6]])"
proof -
  let ?ms = "[[[1, 2], [3, 4], [5, 6 :: real]]]"
  have shape: "\<forall>m\<in>set ?ms. m \<noteq> [] \<and> (\<forall>row\<in>set m. length row = length [0, 7 :: real])"
    by simp
  note nb1 = mask_application_flags_unobserved
    [where msk = "[True, False, True]" and mp = "[1, 2, 3]" and ?h0.0 = "[0, 5, 0]"
       and hs = "[[1, 1, 1]]" and ms = "[]"]
  note nb2 = mask_application_flags_unobserved
    [where msk = "[]" and mp = "[]" and ?h0.0 = "[0, 7]" and hs = "[]" and ms = ?ms]
  from nb1 obtain r where r: "m_P_masked [1, 2, 3] [True, False, True] = Inr r"
    by auto
  from nb1 obtain s where s: "m_P_survey [1, 2, 3] [[0, 5, 0], [1, 1, 1]] = Inr s"
    by auto
  from nb2 shape obtain out where out: "nb2_cut (map hp_ma ?ms) [[0, 7]] = Inr out"
    by auto
  from r have "r = [1, UNSEEN, 3]"
    by (simp add: m_P_masked_def setitem_bool_def)
  moreover from s have "s = [UNSEEN, 2, UNSEEN]"
    by (simp add: m_P_survey_def setitem_bool_def)
  moreover from out nb2_cut_hp_ma [OF shape, of "[]"]
  have "out = map (\<lambda>m. cut_cols [0, 7] (hp_ma m)) ?ms"
    by simp
  then have "mdata (out ! 0) = [[UNSEEN, 2], [UNSEEN, 4], [UNSEEN, 6]]"
    by (simp add: cut_cols_def hp_ma_def)
  ultimately show ?thesis using r s out by simp
qed

section \<open>float64 arithmetic\<close>

lemma pow2_pos [simp]: "0 < pow2 k"
  by (simp add: pow2_def zero_less_power_int)

lemma pow2_nonneg [simp]: "0 \<le> pow2 k"
  by (simp add: less_imp_le)

lemma pow2_neq_0 [simp]: "pow2 k \<noteq> 0"
  by (metis pow2_pos less_irrefl)

lemma pow2_less [simp]: "pow2 a < pow2 b \<longleftrightarrow> a < b"
proof
  assume "a < b" then show "pow2 a < pow2 b" by (simp add: pow2_def power_int_strict_increasing)
next
  assume lt: "pow2 a < pow2 b"
  show "a < b"
  proof (rule ccontr)
    assume "\<not> a < b"
    then have "b \<le> a" by simp
    then have "pow2 b \<le> pow2 a" by (simp add: pow2_def power_int_increasing)
    with lt show False by simp
  qed
qed

lemma pow2_le [simp]: "pow2 a \<le> pow2 b \<longleftrightarrow> a \<le> b"
  using pow2_less [of b a] by (simp only: not_less [symmetric])

lemma pow2_add: "pow2 (a + b) = pow2 a * pow2 b"
  by (simp add: pow2_def power_int_add)

lemma pow2_diff: "pow2 a / pow2 b = pow2 (a - b)"
  by (simp add: pow2_def power_int_diff)

lemma pow2_of_int: "0 \<le> k \<Longrightarrow> pow2 k = of_int (2 ^ nat k)"
  by (simp add: pow2_def power_int_nonneg_exp)

lemma pow2_nat: "pow2 (int n) = 2 ^ n"
  by (simp add: pow2_def)

lemma pow2_0 [simp]: "pow2 0 = 1"
  by (simp add: pow2_def)

lemma pow2_double: "pow2 k + pow2 k = pow2 (k + 1)"
  by (simp add: pow2_def power_int_add_1')

lemma pow2_half: "pow2 k / 2 = pow2 (k - 1)"
  using pow2_diff [of k 1] by (simp add: pow2_def)

lemma le_floor_log2: "0 < x \<Longrightarrow> k \<le> \<lfloor>log 2 x\<rfloor> \<longleftrightarrow> pow2 k \<le> x"
  by (simp add: le_floor_iff le_log_iff powr_real_of_int' pow2_def)

lemma floor_log2_le: "0 < x \<Longrightarrow> \<lfloor>log 2 x\<rfloor> \<le> k \<longleftrightarrow> x < pow2 (k + 1)"
proof -
  assume x: "0 < x"
  have "\<lfloor>log 2 x\<rfloor> \<le> k \<longleftrightarrow> \<lfloor>log 2 x\<rfloor> < k + 1" by linarith
  also have "\<dots> \<longleftrightarrow> log 2 x < of_int (k + 1)" by (simp only: floor_less_iff)
  also have "\<dots> \<longleftrightarrow> x < 2 powr of_int (k + 1)" using x by (intro log_less_iff) simp_all
  also have "2 powr of_int (k + 1) = pow2 (k + 1)"
    unfolding pow2_def by (intro powr_real_of_int') simp_all
  finally show ?thesis .
qed

subsection \<open>round_even\<close>

lemma round_even_cases: "round_even x = \<lfloor>x\<rfloor> \<or> round_even x = \<lfloor>x\<rfloor> + 1"
  by (simp add: round_even_def Let_def)

lemma round_even_of_int [simp]: "round_even (of_int n) = n"
  by (simp add: round_even_def)

lemma round_even_ge: "of_int n \<le> x \<Longrightarrow> n \<le> round_even x"
proof -
  assume "of_int n \<le> x"
  then have "n \<le> \<lfloor>x\<rfloor>" by (simp add: le_floor_iff)
  with round_even_cases [of x] show ?thesis by linarith
qed

lemma round_even_le: "x \<le> of_int n \<Longrightarrow> round_even x \<le> n"
proof (cases "x = of_int n")
  case True
  then show ?thesis by simp
next
  case False
  assume "x \<le> of_int n"
  with False have "x < of_int n" by simp
  then have "\<lfloor>x\<rfloor> < n" by (simp add: floor_less_iff)
  with round_even_cases [of x] show ?thesis by linarith
qed

lemma round_even_zero_iff: "0 \<le> x \<Longrightarrow> round_even x = 0 \<longleftrightarrow> x \<le> 1 / 2"
proof
  assume x: "0 \<le> x" and le: "x \<le> 1 / 2"
  then have f: "\<lfloor>x\<rfloor> = 0" by (simp add: floor_eq_iff)
  with le show "round_even x = 0" by (simp add: round_even_def)
next
  assume x: "0 \<le> x" and z: "round_even x = 0"
  show "x \<le> 1 / 2"
  proof (rule ccontr)
    assume "\<not> x \<le> 1 / 2"
    then have gt: "1 / 2 < x" by simp
    show False
    proof (cases "x < 1")
      case True
      with x have f: "\<lfloor>x\<rfloor> = 0" by (simp add: floor_eq_iff)
      with gt have "round_even x = 1" by (simp add: round_even_def)
      with z show False by simp
    next
      case False
      then have "of_int 1 \<le> x" by simp
      from round_even_ge [OF this] z show False by simp
    qed
  qed
qed

subsection \<open>ulp_exponent\<close>

lemma ulp_exponent_ge: "- 1074 \<le> ulp_exponent x"
  by (simp add: ulp_exponent_def)

lemma ulp_exponent_upper: "x \<noteq> 0 \<Longrightarrow> \<bar>x\<bar> < pow2 (ulp_exponent x + 53)"
proof -
  assume "x \<noteq> 0"
  then have pos: "0 < \<bar>x\<bar>" by simp
  have "\<lfloor>log 2 \<bar>x\<bar>\<rfloor> \<le> ulp_exponent x + 52" by (simp add: ulp_exponent_def)
  with floor_log2_le [OF pos, of "ulp_exponent x + 52"] show ?thesis by (simp add: add.commute add.assoc)
qed

lemma ulp_exponent_lower:
  "x \<noteq> 0 \<Longrightarrow> ulp_exponent x \<noteq> - 1074 \<Longrightarrow> pow2 (ulp_exponent x + 52) \<le> \<bar>x\<bar>"
proof -
  assume "x \<noteq> 0" and ne: "ulp_exponent x \<noteq> - 1074"
  then have pos: "0 < \<bar>x\<bar>" by simp
  from ne have "ulp_exponent x + 52 \<le> \<lfloor>log 2 \<bar>x\<bar>\<rfloor>" by (simp add: ulp_exponent_def max_def split: if_splits)
  with le_floor_log2 [OF pos] show ?thesis by simp
qed

lemma ulp_exponent_le: "x \<noteq> 0 \<Longrightarrow> \<bar>x\<bar> \<le> pow2 k \<Longrightarrow> - 1074 \<le> k \<Longrightarrow> ulp_exponent x \<le> k"
proof -
  assume "x \<noteq> 0" and le: "\<bar>x\<bar> \<le> pow2 k" and k: "- 1074 \<le> k"
  then have pos: "0 < \<bar>x\<bar>" by simp
  have "pow2 k < pow2 (k + 1)" by simp
  with le have "\<bar>x\<bar> < pow2 (k + 1)" by linarith
  with floor_log2_le [OF pos] have "\<lfloor>log 2 \<bar>x\<bar>\<rfloor> \<le> k" by simp
  with k show ?thesis by (simp add: ulp_exponent_def)
qed

lemma ulp_exponent_subnormal: "x \<noteq> 0 \<Longrightarrow> \<bar>x\<bar> < pow2 (- 1022) \<Longrightarrow> ulp_exponent x = - 1074"
proof -
  assume "x \<noteq> 0" and lt: "\<bar>x\<bar> < pow2 (- 1022)"
  then have pos: "0 < \<bar>x\<bar>" by simp
  from lt have "\<bar>x\<bar> < pow2 (- 1023 + 1)" by simp
  then have "\<lfloor>log 2 \<bar>x\<bar>\<rfloor> \<le> - 1023" by (simp only: floor_log2_le [OF pos])
  then show ?thesis unfolding ulp_exponent_def by linarith
qed

subsection \<open>round64\<close>

lemma round64_zero [simp]: "round64 0 = 0"
  by (simp add: round64_def)

lemma round64_nonneg: "0 \<le> y \<Longrightarrow> 0 \<le> round64 y"
proof (cases "y = 0")
  case True
  then show ?thesis by simp
next
  case False
  assume "0 \<le> y"
  then have "of_int 0 \<le> y / pow2 (ulp_exponent y)" by simp
  from round_even_ge [OF this] False show ?thesis by (simp add: round64_def)
qed

lemma round64_ge_pow2:
  assumes k: "- 1074 \<le> k" and le: "pow2 k \<le> y"
  shows "pow2 k \<le> round64 y"
proof -
  define e where "e = ulp_exponent y"
  have ypos: "0 < y" using le pow2_pos [of k] by linarith
  then have ne: "y \<noteq> 0" by simp
  have r: "round64 y = of_int (round_even (y / pow2 e)) * pow2 e"
    using ne by (simp add: round64_def e_def)
  show ?thesis
  proof (cases "e \<le> k")
    case True
    then have "pow2 (k - e) = of_int (2 ^ nat (k - e))" by (intro pow2_of_int) simp
    moreover have "pow2 (k - e) \<le> y / pow2 e"
      using le by (simp add: pow2_diff [symmetric] divide_right_mono)
    ultimately have "2 ^ nat (k - e) \<le> round_even (y / pow2 e)" by (intro round_even_ge) simp
    then have "(of_int (2 ^ nat (k - e)) :: real) \<le> of_int (round_even (y / pow2 e))"
      by (simp only: of_int_le_iff)
    then have "pow2 (k - e) \<le> of_int (round_even (y / pow2 e))"
      using \<open>pow2 (k - e) = of_int (2 ^ nat (k - e))\<close> by simp
    then have "pow2 (k - e) * pow2 e \<le> of_int (round_even (y / pow2 e)) * pow2 e"
      by (intro mult_right_mono) simp_all
    moreover have "pow2 (k - e) * pow2 e = pow2 k"
      by (simp add: pow2_add [symmetric])
    ultimately show ?thesis using r by simp
  next
    case False
    then have ek: "k < e" by simp
    with k have "e \<noteq> - 1074" by simp
    from ulp_exponent_lower [OF ne this [unfolded e_def]] ypos
    have low: "pow2 (e + 52) \<le> y" by (simp add: e_def)
    have "pow2 52 = of_int (2 ^ 52)" by (simp add: pow2_def)
    moreover have "pow2 52 \<le> y / pow2 e"
    proof -
      have "pow2 (e + 52) / pow2 e \<le> y / pow2 e"
        using low by (intro divide_right_mono) simp_all
      then show ?thesis by (simp add: pow2_diff)
    qed
    ultimately have "2 ^ 52 \<le> round_even (y / pow2 e)" by (intro round_even_ge) simp
    then have "(of_int (2 ^ 52) :: real) \<le> of_int (round_even (y / pow2 e))"
      by (simp only: of_int_le_iff)
    then have "pow2 52 \<le> of_int (round_even (y / pow2 e))" by (simp add: pow2_def)
    then have a: "pow2 52 * pow2 e \<le> of_int (round_even (y / pow2 e)) * pow2 e"
      by (intro mult_right_mono) simp_all
    have b: "pow2 52 * pow2 e = pow2 (52 + e)"
      by (simp add: pow2_add)
    have c: "pow2 k \<le> pow2 (52 + e)" using ek by (simp only: pow2_le)
    show ?thesis unfolding r using c a [unfolded b] by (rule order_trans)
  qed
qed

lemma round64_le_pow2:
  assumes k: "- 1074 \<le> k" and nonneg: "0 \<le> y" and le: "y \<le> pow2 k"
  shows "round64 y \<le> pow2 k"
proof (cases "y = 0")
  case True
  then show ?thesis by (simp add: less_imp_le)
next
  case ne: False
  define e where "e = ulp_exponent y"
  have r: "round64 y = of_int (round_even (y / pow2 e)) * pow2 e"
    using ne by (simp add: round64_def e_def)
  have "e \<le> k" unfolding e_def using ne le nonneg k by (intro ulp_exponent_le) simp_all
  then have eq: "pow2 (k - e) = of_int (2 ^ nat (k - e))" by (intro pow2_of_int) simp
  have "y / pow2 e \<le> pow2 (k - e)"
    using le by (simp add: pow2_diff [symmetric] divide_right_mono)
  with eq have "round_even (y / pow2 e) \<le> 2 ^ nat (k - e)" by (intro round_even_le) simp
  then have "(of_int (round_even (y / pow2 e)) :: real) \<le> of_int (2 ^ nat (k - e))"
    by (simp only: of_int_le_iff)
  with eq have "(of_int (round_even (y / pow2 e)) :: real) \<le> pow2 (k - e)" by simp
  then have "of_int (round_even (y / pow2 e)) * pow2 e \<le> pow2 (k - e) * pow2 e"
    by (intro mult_right_mono) simp_all
  moreover have "pow2 (k - e) * pow2 e = pow2 k"
    by (simp add: pow2_add [symmetric])
  ultimately show ?thesis using r by simp
qed

lemma round64_zero_iff:
  assumes "0 \<le> y"
  shows "round64 y = 0 \<longleftrightarrow> y \<le> pow2 (- 1075)"
proof (cases "y = 0")
  case True
  then show ?thesis by (simp add: less_imp_le)
next
  case ne: False
  define e where "e = ulp_exponent y"
  have ypos: "0 < y" using ne assms by simp
  have r: "round64 y = of_int (round_even (y / pow2 e)) * pow2 e"
    using ne by (simp add: round64_def e_def)
  have nz: "round64 y = 0 \<longleftrightarrow> round_even (y / pow2 e) = 0"
    using r pow2_pos [of e] by simp
  show ?thesis
  proof (cases "y < pow2 (- 1022)")
    case True
    with ne ypos have e: "e = - 1074" unfolding e_def by (intro ulp_exponent_subnormal) simp_all
    have "round_even (y / pow2 e) = 0 \<longleftrightarrow> y / pow2 e \<le> 1 / 2"
      using ypos by (intro round_even_zero_iff) simp
    also have "\<dots> \<longleftrightarrow> y \<le> pow2 e / 2" by (simp add: field_simps)
    also have "pow2 e / 2 = pow2 (- 1075)"
      unfolding e by (simp add: pow2_half)
    finally show ?thesis using nz by simp
  next
    case False
    then have "pow2 (- 1022) \<le> y" by simp
    from round64_ge_pow2 [OF _ this] have "pow2 (- 1022) \<le> round64 y" by simp
    with pow2_pos [of "- 1022"] have "round64 y \<noteq> 0" by linarith
    moreover have "pow2 (- 1075) < pow2 (- 1022)" by simp
    with False have "\<not> y \<le> pow2 (- 1075)" by linarith
    ultimately show ?thesis by simp
  qed
qed

lemma round64_zero_or_ge:
  assumes "0 \<le> y"
  shows "round64 y = 0 \<or> pow2 (- 1074) \<le> round64 y"
proof (cases "y = 0")
  case True
  then show ?thesis by simp
next
  case ne: False
  define e where "e = ulp_exponent y"
  have r: "round64 y = of_int (round_even (y / pow2 e)) * pow2 e"
    using ne by (simp add: round64_def e_def)
  have "of_int 0 \<le> y / pow2 e" using assms by simp
  from round_even_ge [OF this] have nn: "0 \<le> round_even (y / pow2 e)" .
  show ?thesis
  proof (cases "round_even (y / pow2 e) = 0")
    case True
    with r show ?thesis by simp
  next
    case False
    with nn have "1 \<le> round_even (y / pow2 e)" by simp
    then have "(1 :: real) \<le> of_int (round_even (y / pow2 e))" by linarith
    then have "1 * pow2 e \<le> of_int (round_even (y / pow2 e)) * pow2 e"
      by (intro mult_right_mono) simp_all
    then have a: "pow2 e \<le> of_int (round_even (y / pow2 e)) * pow2 e"
      by (simp only: mult_1)
    have b: "pow2 (- 1074) \<le> pow2 e"
      using ulp_exponent_ge [of y] by (simp only: pow2_le e_def)
    have "pow2 (- 1074) \<le> round64 y" unfolding r using b a by (rule order_trans)
    then show ?thesis ..
  qed
qed

lemma round64_exact:
  assumes m: "\<bar>m\<bar> < 2 ^ 53" and e0: "- 1074 \<le> e0"
  shows "round64 (of_int m * pow2 e0) = of_int m * pow2 e0"
proof (cases "m = 0")
  case True
  then show ?thesis by simp
next
  case False
  define x :: real where "x = of_int m * pow2 e0"
  define e where "e = ulp_exponent x"
  have ne: "x \<noteq> 0" using False by (simp add: x_def)
  have absx: "\<bar>x\<bar> = of_int \<bar>m\<bar> * pow2 e0" by (simp add: x_def abs_mult)
  have "(of_int \<bar>m\<bar> :: real) \<le> of_int (2 ^ 53)" using m by (simp only: of_int_le_iff)
  then have "(of_int \<bar>m\<bar> :: real) \<le> pow2 53" by (simp add: pow2_def)
  then have "of_int \<bar>m\<bar> * pow2 e0 \<le> pow2 53 * pow2 e0"
    by (intro mult_right_mono) simp_all
  also have "\<dots> = pow2 (53 + e0)" by (simp add: pow2_add)
  finally have up: "\<bar>x\<bar> \<le> pow2 (53 + e0)" using absx by simp
  have lt: "\<bar>x\<bar> < pow2 (53 + e0)"
  proof -
    have "(of_int \<bar>m\<bar> :: real) < of_int (2 ^ 53)" using m by (simp only: of_int_less_iff)
    then have "(of_int \<bar>m\<bar> :: real) < pow2 53" by (simp add: pow2_def)
    then have "of_int \<bar>m\<bar> * pow2 e0 < pow2 53 * pow2 e0"
      by (intro mult_strict_right_mono) simp_all
    also have "\<dots> = pow2 (53 + e0)" by (simp add: pow2_add)
    finally show ?thesis using absx by simp
  qed
  have pos: "0 < \<bar>x\<bar>" using ne by simp
  from lt floor_log2_le [OF pos, of "52 + e0"] have "\<lfloor>log 2 \<bar>x\<bar>\<rfloor> \<le> 52 + e0"
    by (simp add: add.commute add.assoc)
  with e0 have ee: "e \<le> e0" by (simp add: e_def ulp_exponent_def)
  then have pw: "pow2 (e0 - e) = of_int (2 ^ nat (e0 - e))" by (intro pow2_of_int) simp
  have "x / pow2 e = of_int m * (pow2 e0 / pow2 e)" by (simp add: x_def)
  also have "\<dots> = of_int m * pow2 (e0 - e)" by (simp only: pow2_diff)
  also have "\<dots> = of_int (m * 2 ^ nat (e0 - e))" by (simp add: pw)
  finally have q: "x / pow2 e = of_int (m * 2 ^ nat (e0 - e))" .
  have "round64 x = of_int (round_even (x / pow2 e)) * pow2 e"
    using ne by (simp add: round64_def e_def)
  also have "\<dots> = of_int (m * 2 ^ nat (e0 - e)) * pow2 e" by (simp only: q round_even_of_int)
  also have "\<dots> = x / pow2 e * pow2 e" by (simp only: q)
  also have "\<dots> = x" by simp
  finally show ?thesis by (simp add: x_def)
qed

subsection \<open>Operations that stay finite\<close>

lemma f64_max_ge: "pow2 1023 \<le> f64_max"
proof -
  have "pow2 1023 = pow2 52 * pow2 971" by (simp add: pow2_add [symmetric])
  also have "pow2 52 = 2 ^ 52" using pow2_nat [of 52] by simp
  also have "(2 ^ 52 :: real) * pow2 971 \<le> (2 ^ 53 - 1) * pow2 971"
    by (intro mult_right_mono) simp_all
  finally show ?thesis by (simp add: f64_max_def)
qed

lemma f64_bounded:
  assumes "0 \<le> y" "y \<le> pow2 k" "- 1074 \<le> k" "k \<le> 1023"
  shows "f64 y = Inr (round64 y)"
proof -
  have "round64 y \<le> pow2 k" using assms(3,1,2) by (rule round64_le_pow2)
  also have "pow2 k \<le> pow2 1023" using assms(4) by simp
  also note f64_max_ge
  finally have "round64 y \<le> f64_max" .
  moreover have "0 \<le> round64 y" using assms(1) by (rule round64_nonneg)
  ultimately show ?thesis by (simp add: f64_def)
qed

lemma f64_exact:
  assumes "\<bar>m\<bar> < 2 ^ 53" "- 1074 \<le> e0" "e0 \<le> 970"
  shows "f64 (of_int m * pow2 e0) = Inr (of_int m * pow2 e0)"
proof -
  have r: "round64 (of_int m * pow2 e0) = of_int m * pow2 e0"
    using assms(1,2) by (rule round64_exact)
  have "(of_int \<bar>m\<bar> :: real) \<le> of_int (2 ^ 53)" using assms(1) by (simp only: of_int_le_iff)
  then have "(of_int \<bar>m\<bar> :: real) \<le> pow2 53" by (simp add: pow2_def)
  then have "of_int \<bar>m\<bar> * pow2 e0 \<le> pow2 53 * pow2 e0"
    by (intro mult_right_mono) simp_all
  also have "\<dots> = pow2 (53 + e0)" by (simp add: pow2_add)
  also have "\<dots> \<le> pow2 1023" using assms(3) by simp
  also note f64_max_ge
  finally have "\<bar>of_int m * pow2 e0\<bar> \<le> f64_max" by (simp add: abs_mult)
  with r show ?thesis by (simp add: f64_def)
qed

lemma square_bound:
  assumes "\<bar>x\<bar> \<le> pow2 k"
  shows "x * x \<le> pow2 (2 * k)"
proof -
  have "x * x = \<bar>x\<bar> * \<bar>x\<bar>" by simp
  also have "\<dots> \<le> pow2 k * pow2 k" using assms by (intro mult_mono) simp_all
  also have "\<dots> = pow2 (2 * k)" by (simp add: pow2_add [symmetric])
  finally show ?thesis .
qed

lemma f64_square_value:
  assumes "\<bar>x\<bar> \<le> pow2 k" "- 537 \<le> k" "k \<le> 511"
  shows "f64_square x = Inr (round64 (x * x))"
  unfolding f64_square_def
  using square_bound [OF assms(1)] assms(2,3) by (intro f64_bounded [where k = "2 * k"]) simp_all

lemma round64_square_le:
  assumes "\<bar>x\<bar> \<le> pow2 k" "- 537 \<le> k"
  shows "round64 (x * x) \<le> pow2 (2 * k)"
  using square_bound [OF assms(1)] assms(2) by (intro round64_le_pow2) simp_all

lemma round64_square_zero_iff: "round64 (x * x) = 0 \<longleftrightarrow> x\<^sup>2 \<le> pow2 (- 1075)"
  using round64_zero_iff [of "x * x"] by (simp add: power2_eq_square)

lemma mapM_map: "mapM f (map g xs) = mapM (\<lambda>x. f (g x)) xs"
  by (induction xs) simp_all

lemma all_finite_map: "all_finite (map g xs) = mapM g xs"
  by (simp add: all_finite_def mapM_map)

lemma mapM_square:
  assumes "\<forall>x\<in>set xs. \<bar>x\<bar> \<le> pow2 k" "- 537 \<le> k" "k \<le> 511"
  shows "mapM f64_square xs = Inr (map (\<lambda>x. round64 (x * x)) xs)"
  using assms by (intro mapM_Inr f64_square_value [where k = k]) simp_all

lemma sum_of_squares_zero_iff:
  "round64 (round64 (x * x) + round64 (y * y)) = 0
     \<longleftrightarrow> x\<^sup>2 \<le> pow2 (- 1075) \<and> y\<^sup>2 \<le> pow2 (- 1075)"
proof -
  let ?a = "round64 (x * x)" and ?b = "round64 (y * y)"
  have a: "0 \<le> ?a" and b: "0 \<le> ?b" by (simp_all add: round64_nonneg)
  have a': "?a = 0 \<or> pow2 (- 1074) \<le> ?a" by (intro round64_zero_or_ge) simp
  have b': "?b = 0 \<or> pow2 (- 1074) \<le> ?b" by (intro round64_zero_or_ge) simp
  have lt: "pow2 (- 1075) < pow2 (- 1074)" by simp
  have pos: "0 < pow2 (- 1075)" by simp
  have "round64 (?a + ?b) = 0 \<longleftrightarrow> ?a + ?b \<le> pow2 (- 1075)"
    using a b by (intro round64_zero_iff) simp
  also have "\<dots> \<longleftrightarrow> ?a = 0 \<and> ?b = 0"
    using a b a' b' lt pos by linarith
  finally show ?thesis by (simp only: round64_square_zero_iff)
qed

lemma round64_sqrt_zero_iff:
  assumes "0 \<le> s"
  shows "round64 (sqrt (round64 s)) = 0 \<longleftrightarrow> round64 s = 0"
proof
  assume "round64 s = 0"
  then show "round64 (sqrt (round64 s)) = 0" by simp
next
  assume z: "round64 (sqrt (round64 s)) = 0"
  let ?r = "round64 s"
  have r: "0 \<le> ?r" using assms by (rule round64_nonneg)
  from z have le: "sqrt ?r \<le> pow2 (- 1075)"
    using round64_zero_iff [of "sqrt ?r"] r by simp
  have "?r = (sqrt ?r)\<^sup>2" using r by simp
  also have "\<dots> \<le> (pow2 (- 1075))\<^sup>2" using le r by (intro power_mono) simp_all
  also have "\<dots> = pow2 (- 1075) * pow2 (- 1075)" by (simp only: power2_eq_square)
  also have "\<dots> = pow2 (- 2150)" by (simp add: pow2_add [symmetric])
  also have "\<dots> < pow2 (- 1074)" by simp
  finally have "?r < pow2 (- 1074)" .
  with round64_zero_or_ge [OF assms] show "?r = 0" by linarith
qed

lemma f64_sqrt_value:
  assumes "0 \<le> s" "s \<le> pow2 1023"
  shows "f64_sqrt s = Inr (round64 (sqrt s))"
proof -
  have "sqrt s \<le> sqrt (pow2 1024)"
  proof -
    have "pow2 1023 \<le> pow2 1024" by simp
    with assms(2) have "s \<le> pow2 1024" by (rule order_trans)
    then show ?thesis by (simp only: real_sqrt_le_iff)
  qed
  also have "sqrt (pow2 1024) = pow2 512"
  proof (rule real_sqrt_unique)
    show "(pow2 512)\<^sup>2 = pow2 1024"
      by (simp add: power2_eq_square pow2_add [symmetric])
    show "0 \<le> pow2 512" by simp
  qed
  finally have "sqrt s \<le> pow2 512" .
  with assms(1) have "f64 (sqrt s) = Inr (round64 (sqrt s))"
    by (intro f64_bounded [where k = 512]) simp_all
  with assms(1) show ?thesis by (simp add: f64_sqrt_def)
qed

lemma round64_int: "\<bar>m\<bar> < 2 ^ 53 \<Longrightarrow> round64 (of_int m) = of_int m"
  using round64_exact [of m 0] by simp

lemma f64_int: "\<bar>m\<bar> < 2 ^ 53 \<Longrightarrow> f64 (of_int m) = Inr (of_int m)"
  using f64_exact [of m 0] by simp

lemma one_le_pow2: "0 \<le> k \<Longrightarrow> 1 \<le> pow2 k"
  using pow2_le [of 0 k] by simp

lemma pow2_le_one: "k \<le> 0 \<Longrightarrow> pow2 k \<le> 1"
  using pow2_le [of k 0] by simp

lemma four_le_pow2: "2 \<le> k \<Longrightarrow> 4 \<le> pow2 k"
proof -
  assume "2 \<le> k"
  then have "pow2 2 \<le> pow2 k" by simp
  moreover have "pow2 2 = 4" by (simp add: pow2_def)
  ultimately show ?thesis by simp
qed

lemma length_2: "length xs = 2 \<Longrightarrow> xs = [xs ! 0, xs ! 1]"
  by (cases xs; cases "tl xs") auto

section \<open>Polarization amplitude\<close>

lemma m_P_value:
  assumes len: "length q = length u"
    and q: "\<forall>x\<in>set q. \<bar>x\<bar> \<le> pow2 511" and u: "\<forall>x\<in>set u. \<bar>x\<bar> \<le> pow2 511"
  shows "m_P (i # q # u # rest)
         = Inr (map2 (\<lambda>x y. round64 (sqrt (round64 (round64 (x * x) + round64 (y * y))))) q u)"
proof -
  let ?sq = "\<lambda>x :: real. round64 (x * x)"
  let ?pairs = "zip (map ?sq q) (map ?sq u)"
  have sq: "mapM f64_square q = Inr (map ?sq q)" "mapM f64_square u = Inr (map ?sq u)"
    using q u by (simp_all add: mapM_square [where k = 511])
  have bnd: "0 \<le> ?sq x \<and> ?sq x \<le> pow2 1022" if "\<bar>x\<bar> \<le> pow2 511" for x
    using round64_square_le [OF that] by (simp add: round64_nonneg)
  have pair: "\<exists>x y. p = (?sq x, ?sq y) \<and> \<bar>x\<bar> \<le> pow2 511 \<and> \<bar>y\<bar> \<le> pow2 511"
    if "p \<in> set ?pairs" for p
  proof -
    obtain a b where p: "p = (a, b)" by (cases p)
    with that have "a \<in> set (map ?sq q)" "b \<in> set (map ?sq u)"
      by (auto dest: set_zip_leftD set_zip_rightD)
    with q u p show ?thesis by auto
  qed
  have sum_bnd: "0 \<le> ?sq x + ?sq y \<and> ?sq x + ?sq y \<le> pow2 1023"
    if "\<bar>x\<bar> \<le> pow2 511" "\<bar>y\<bar> \<le> pow2 511" for x y
  proof -
    have "pow2 1022 + pow2 1022 = pow2 1023" by (simp add: pow2_double)
    with bnd [OF that(1)] bnd [OF that(2)] show ?thesis by linarith
  qed
  have add: "mapM (\<lambda>(a, b). f64_add a b) ?pairs = Inr (map (\<lambda>(a, b). round64 (a + b)) ?pairs)"
  proof (rule mapM_Inr)
    fix p assume "p \<in> set ?pairs"
    from pair [OF this] obtain x y where p: "p = (?sq x, ?sq y)"
      and x: "\<bar>x\<bar> \<le> pow2 511" and y: "\<bar>y\<bar> \<le> pow2 511" by blast
    from sum_bnd [OF x y] have "f64 (?sq x + ?sq y) = Inr (round64 (?sq x + ?sq y))"
      by (intro f64_bounded [where k = 1023]) simp_all
    then show "(case p of (a, b) \<Rightarrow> f64_add a b) = Inr (case p of (a, b) \<Rightarrow> round64 (a + b))"
      by (simp add: p f64_add_def)
  qed
  have root: "mapM f64_sqrt (map (\<lambda>(a, b). round64 (a + b)) ?pairs)
               = Inr (map (\<lambda>s. round64 (sqrt s)) (map (\<lambda>(a, b). round64 (a + b)) ?pairs))"
  proof (rule mapM_Inr)
    fix s assume "s \<in> set (map (\<lambda>(a, b). round64 (a + b)) ?pairs)"
    then obtain p where "p \<in> set ?pairs" and sp: "s = (case p of (a, b) \<Rightarrow> round64 (a + b))"
      by auto
    from pair [OF this(1)] obtain x y where p: "p = (?sq x, ?sq y)"
      and x: "\<bar>x\<bar> \<le> pow2 511" and y: "\<bar>y\<bar> \<le> pow2 511" by blast
    have s: "s = round64 (?sq x + ?sq y)" using sp p by simp
    from sum_bnd [OF x y] have nn: "0 \<le> ?sq x + ?sq y" and le: "?sq x + ?sq y \<le> pow2 1023"
      by simp_all
    have "0 \<le> s" unfolding s using nn by (rule round64_nonneg)
    moreover have "s \<le> pow2 1023" unfolding s using nn le by (intro round64_le_pow2) simp_all
    ultimately show "f64_sqrt s = Inr (round64 (sqrt s))" by (rule f64_sqrt_value)
  qed
  have "m_P (i # q # u # rest)
          = Inr (map (\<lambda>s. round64 (sqrt s)) (map (\<lambda>(a, b). round64 (a + b)) ?pairs))"
    using len by (simp add: m_P_def sq broadcast1_same all_finite_map add root)
  also have "map (\<lambda>s. round64 (sqrt s)) (map (\<lambda>(a, b). round64 (a + b)) ?pairs)
          = map2 (\<lambda>x y. round64 (sqrt (round64 (round64 (x * x) + round64 (y * y))))) q u"
    by (simp add: zip_map_map split_def comp_def)
  finally show ?thesis .
qed

text \<open>
  C6, as amended.  For a map of three components \<open>I\<close>, \<open>Q\<close>, \<open>U\<close> of equal length, with
  values of magnitude at most \<open>pow2 511\<close>, the cell succeeds, and at every pixel the
  amplitude is the root of the sum of the squares of \<open>Q\<close> and \<open>U\<close> with each operation
  rounded to float64; it is not negative; it is zero exactly when both squares underflow,
  that is when \<open>Q\<^sup>2\<close> and \<open>U\<^sup>2\<close> are at most \<open>pow2 (- 1075)\<close>, as they are when \<open>Q\<close> and \<open>U\<close> are
  zero.  A map with another intensity component has the same amplitude.
\<close>

theorem polarization_amplitude_float64:
  assumes "length q = length u"
    and "\<forall>x\<in>set q. \<bar>x\<bar> \<le> pow2 511" and "\<forall>x\<in>set u. \<bar>x\<bar> \<le> pow2 511"
  shows "\<exists>mp. m_P [i, q, u] = Inr mp \<and> m_P [i', q, u] = Inr mp \<and> length mp = length q
           \<and> (\<forall>p<length q.
                 mp ! p = round64 (sqrt (round64 (round64 ((q ! p)\<^sup>2) + round64 ((u ! p)\<^sup>2))))
                 \<and> 0 \<le> mp ! p
                 \<and> (mp ! p = 0 \<longleftrightarrow> (q ! p)\<^sup>2 \<le> pow2 (- 1075) \<and> (u ! p)\<^sup>2 \<le> pow2 (- 1075))
                 \<and> (q ! p = 0 \<and> u ! p = 0 \<longrightarrow> mp ! p = 0))"
proof -
  let ?f = "\<lambda>x y :: real. round64 (sqrt (round64 (round64 (x * x) + round64 (y * y))))"
  have nn: "0 \<le> ?f x y" for x y
    by (intro round64_nonneg real_sqrt_ge_zero add_nonneg_nonneg) simp_all
  have z: "?f x y = 0 \<longleftrightarrow> x\<^sup>2 \<le> pow2 (- 1075) \<and> y\<^sup>2 \<le> pow2 (- 1075)" for x y
  proof -
    have "0 \<le> round64 (x * x) + round64 (y * y)" by (simp add: round64_nonneg)
    from round64_sqrt_zero_iff [OF this] show ?thesis by (simp only: sum_of_squares_zero_iff)
  qed
  have z0: "?f 0 0 = 0" by simp
  have "m_P [i, q, u] = Inr (map2 ?f q u)" "m_P [i', q, u] = Inr (map2 ?f q u)"
    using assms by (simp_all add: m_P_value)
  moreover have "length (map2 ?f q u) = length q" using assms(1) by simp
  moreover have "\<forall>p<length q.
      map2 ?f q u ! p = round64 (sqrt (round64 (round64 ((q ! p)\<^sup>2) + round64 ((u ! p)\<^sup>2))))
      \<and> 0 \<le> map2 ?f q u ! p
      \<and> (map2 ?f q u ! p = 0 \<longleftrightarrow> (q ! p)\<^sup>2 \<le> pow2 (- 1075) \<and> (u ! p)\<^sup>2 \<le> pow2 (- 1075))
      \<and> (q ! p = 0 \<and> u ! p = 0 \<longrightarrow> map2 ?f q u ! p = 0)"
  proof (intro allI impI)
    fix p assume p: "p < length q"
    with assms(1) have e: "map2 ?f q u ! p = ?f (q ! p) (u ! p)" by simp
    have sqq: "(q ! p)\<^sup>2 = q ! p * q ! p" "(u ! p)\<^sup>2 = u ! p * u ! p"
      by (simp_all only: power2_eq_square)
    show "map2 ?f q u ! p = round64 (sqrt (round64 (round64 ((q ! p)\<^sup>2) + round64 ((u ! p)\<^sup>2))))
      \<and> 0 \<le> map2 ?f q u ! p
      \<and> (map2 ?f q u ! p = 0 \<longleftrightarrow> (q ! p)\<^sup>2 \<le> pow2 (- 1075) \<and> (u ! p)\<^sup>2 \<le> pow2 (- 1075))
      \<and> (q ! p = 0 \<and> u ! p = 0 \<longrightarrow> map2 ?f q u ! p = 0)"
      unfolding e
    proof (intro conjI impI)
      show "?f (q ! p) (u ! p) = round64 (sqrt (round64 (round64 ((q ! p)\<^sup>2) + round64 ((u ! p)\<^sup>2))))"
        by (simp only: sqq)
      show "0 \<le> ?f (q ! p) (u ! p)" by (rule nn)
      show "?f (q ! p) (u ! p) = 0 \<longleftrightarrow> (q ! p)\<^sup>2 \<le> pow2 (- 1075) \<and> (u ! p)\<^sup>2 \<le> pow2 (- 1075)"
        by (rule z)
      assume "q ! p = 0 \<and> u ! p = 0"
      then show "?f (q ! p) (u ! p) = 0" by simp
    qed
  qed
  ultimately show ?thesis by blast
qed


theorem polarization_amplitude_float64_witness:
  "m_P [[1, 1], [3, 0], [4, 0]] = Inr [5, 0] \<and> m_P [[7, 9], [3, 0], [4, 0]] = Inr [5, 0]"
proof -
  have len: "length [3, 0 :: real] = length [4, 0 :: real]" by simp
  have q: "\<forall>x\<in>set [3, 0 :: real]. \<bar>x\<bar> \<le> pow2 511"
    and u: "\<forall>x\<in>set [4, 0 :: real]. \<bar>x\<bar> \<le> pow2 511"
    using four_le_pow2 [of 511] by simp_all
  have root: "sqrt 25 = 5" by (rule real_sqrt_unique) simp_all
  have r: "round64 9 = 9" "round64 16 = 16" "round64 25 = 25" "round64 5 = 5"
    using round64_int [of 9] round64_int [of 16] round64_int [of 25] round64_int [of 5]
    by simp_all
  from polarization_amplitude_float64 [OF len q u, of "[1, 1]" "[7, 9]"]
  obtain mp where a: "m_P [[1, 1], [3, 0], [4, 0]] = Inr mp"
    and b: "m_P [[7, 9], [3, 0], [4, 0]] = Inr mp" and l: "length mp = 2"
    and v: "\<forall>p<2. mp ! p = round64 (sqrt (round64 (round64 (([3, 0] ! p)\<^sup>2)
                                 + round64 (([4, 0] ! p)\<^sup>2))))"
    by auto
  from v [rule_format, of 0] have "mp ! 0 = 5" by (simp add: r root)
  moreover from v [rule_format, of 1] have "mp ! 1 = 0" by simp
  ultimately have "mp = [5, 0]" using length_2 [OF l] by simp
  with a b show ?thesis by simp
qed

text \<open>
  C6 as stated fails: the amplitude can be zero where \<open>Q\<close> is not.  The square of
  \<open>pow2 (- 600)\<close>, a float64 value of about \<open>2.4e-181\<close>, underflows.
\<close>

theorem amplitude_zero_with_nonzero_Q:
  "m_P [[1], [pow2 (- 600)], [0]] = Inr [0] \<and> 0 < pow2 (- 600)"
proof -
  have "(pow2 (- 600))\<^sup>2 = pow2 (- 1200)"
    by (simp add: power2_eq_square pow2_add [symmetric])
  then have "round64 (pow2 (- 600) * pow2 (- 600)) = 0"
    by (simp add: round64_square_zero_iff)
  moreover have "m_P [[1], [pow2 (- 600)], [0]]
      = Inr (map2 (\<lambda>x y. round64 (sqrt (round64 (round64 (x * x) + round64 (y * y)))))
               [pow2 (- 600)] [0])"
    by (rule m_P_value) simp_all
  ultimately show ?thesis by simp
qed

section \<open>The source map is not mutated\<close>

lemma assign_bool_frame:
  "r < length h \<Longrightarrow> r' \<noteq> r \<Longrightarrow> fst (assign_bool r idx v h) ! r' = h ! r'"
  by (simp add: assign_bool_def split: sum.splits)

lemma length_assign_bool: "length (fst (assign_bool r idx v h)) = length h"
  by (simp add: assign_bool_def split: sum.splits)

text \<open>
  C9.  For a valid reference \<open>m_P\<close>, the store after the galactic-mask cell and after the
  survey-cut cell holds at \<open>m_P\<close> the array it held before, whether the assignment
  succeeded or raised; indeed every array object that existed before the cell is
  unchanged, the assignment going to the freshly allocated copy.
\<close>

theorem masking_leaves_m_P_unchanged:
  assumes "mp < length h"
  shows "fst (cell_m_P_masked mp msk h) ! mp = h ! mp
       \<and> fst (cell_m_P_survey mp hitmaps h) ! mp = h ! mp
       \<and> (\<forall>r<length h. fst (cell_m_P_masked mp msk h) ! r = h ! r
                       \<and> fst (cell_m_P_survey mp hitmaps h) ! r = h ! r)"
  using assms
  by (auto simp: cell_m_P_masked_def cell_m_P_survey_def np_copy_def assign_bool_def nth_append
      split: sum.splits prod.splits)


theorem masking_leaves_m_P_unchanged_witness:
  "fst (cell_m_P_masked 0 [True, False] [[7, 8]]) ! 0 = [7, 8]
   \<and> fst (cell_m_P_survey 0 [[0, 3]] [[7, 8]]) ! 0 = [7, 8]
   \<and> cell_m_P_masked 0 [True, False] [[7, 8]] = ([[7, 8], [7, UNSEEN]], Inr 1)"
proof -
  have valid: "(0::nat) < length [[7, 8 :: real]]" by simp
  from masking_leaves_m_P_unchanged [OF valid, of "[True, False]" "[[0, 3]]"]
  show ?thesis
    by (simp add: cell_m_P_masked_def np_copy_def assign_bool_def setitem_bool_def)
qed

lemma cell_m_P_masked_result:
  assumes "mp < length h" "cell_m_P_masked mp msk h = (h', Inr r)"
  shows "r = length h \<and> r \<noteq> mp \<and> Inr (h' ! r) = m_P_masked (h ! mp) msk"
  using assms
  by (auto simp: cell_m_P_masked_def np_copy_def assign_bool_def m_P_masked_def nth_append
      split: sum.splits prod.splits)

lemma assign_without_copy_mutates:
  "assign_without_copy 0 [False] [[1]] = ([[UNSEEN]], Inr 0)"
  by (simp add: assign_without_copy_def assign_bool_def setitem_bool_def)


section \<open>Power spectra and the sky-fraction correction\<close>

lemma map2_replicate: "map2 g xs (replicate (length xs) y) = map (\<lambda>x. g x y) xs"
  by (induction xs) simp_all

lemma bdim_one: "0 < n \<Longrightarrow> bdim n (Suc 0) = Inr n"
  by (simp add: bdim_def)

lemma stretch_single: "stretch n [y] = replicate n y"
  by (cases "n = 1") (simp_all add: stretch_def)

lemma ncols_single: "ncols [h0] = length h0"
  by (simp add: ncols_def)

lemma broadcast2_row:
  assumes "m \<noteq> []" "\<forall>row\<in>set m. length row = length h0"
  shows "broadcast2 f m [h0] = Inr (map (\<lambda>row. map2 f row h0) m)"
proof -
  have c: "ncols m = length h0" using assms by (rule ncols_rect)
  have "map2 (\<lambda>x y. map2 f (stretch (length h0) x) (stretch (length h0) y)) m
          (replicate (length m) h0)
        = map (\<lambda>row. map2 f (stretch (length h0) row) (stretch (length h0) h0)) m"
    by (rule map2_replicate)
  also have "\<dots> = map (\<lambda>row. map2 f row h0) m"
    using assms(2) by (intro map_cong) simp_all
  finally show ?thesis
    using assms(1) by (simp add: broadcast2_def c bdim_one ncols_single stretch_single)
qed

lemma length_filter_eq_iff: "length (filter P xs) = length xs \<longleftrightarrow> (\<forall>x\<in>set xs. P x)"
proof (induction xs)
  case Nil
  then show ?case by simp
next
  case (Cons x xs)
  have "length (filter P xs) \<noteq> Suc (length xs)"
    using length_filter_le [of P xs] by linarith
  with Cons show ?case by auto
qed

lemma sky_fraction_value:
  "h0 \<noteq> [] \<Longrightarrow>
     sky_fraction (h0 # hs) = Inr (real (length (filter (\<lambda>x. 0 < x) h0)) / real (length h0))"
  by (simp add: sky_fraction_def scalar_divide_def)

lemma sky_fraction_bounds:
  assumes "h0 \<noteq> []"
  defines "sf \<equiv> real (length (filter (\<lambda>x. 0 < x) h0)) / real (length h0)"
  shows "0 \<le> sf" "sf \<le> 1" "sf = 1 \<longleftrightarrow> (\<forall>x\<in>set h0. 0 < x)"
        "(\<exists>x\<in>set h0. 0 < x) \<Longrightarrow> 0 < sf"
proof -
  have n: "0 < length h0" using assms(1) by simp
  have le: "length (filter (\<lambda>x. 0 < x) h0) \<le> length h0" by simp
  show "0 \<le> sf" by (simp add: sf_def)
  show "sf \<le> 1" using n le by (simp add: sf_def)
  show "sf = 1 \<longleftrightarrow> (\<forall>x\<in>set h0. 0 < x)"
    using n length_filter_eq_iff [of "\<lambda>x. 0 < x" h0] by (auto simp: sf_def)
  show "0 < sf" if "\<exists>x\<in>set h0. 0 < x"
  proof -
    from that have "filter (\<lambda>x. 0 < x) h0 \<noteq> []" by (simp add: filter_empty_conv)
    then show ?thesis using n by (simp add: sf_def)
  qed
qed

lemma sum_squares_nonneg: "0 \<le> sum_list (map (\<lambda>x::real. x ^ 2) xs)"
  by (induction xs) simp_all

lemma sum_squares_pos: "x \<in> set xs \<Longrightarrow> x \<noteq> 0 \<Longrightarrow> 0 < sum_list (map (\<lambda>x::real. x ^ 2) xs)"
proof (induction xs)
  case Nil
  then show ?case by simp
next
  case (Cons y ys)
  show ?case
  proof (cases "x = y")
    case True
    with Cons.prems have "0 < y ^ 2" by simp
    then have "0 < y ^ 2 + sum_list (map (\<lambda>x. x ^ 2) ys)"
      using sum_squares_nonneg [of ys] by (rule add_pos_nonneg)
    then show ?thesis by simp
  next
    case False
    with Cons have "0 < sum_list (map (\<lambda>x. x ^ 2) ys)" by simp
    with zero_le_power2 [of y] have "0 < y ^ 2 + sum_list (map (\<lambda>x. x ^ 2) ys)"
      by (rule add_nonneg_pos)
    then show ?thesis by simp
  qed
qed

lemma np_mean_square: "h0 \<noteq> [] \<Longrightarrow> np_mean (np_square h0) = Inr (mean_sq h0)"
  by (simp add: np_mean_def np_square_def scalar_divide_def mean_sq_def)

lemma mean_sq_pos: "\<exists>x\<in>set h0. 0 < x \<Longrightarrow> 0 < mean_sq h0"
proof -
  assume "\<exists>x\<in>set h0. 0 < x"
  then obtain x where x: "x \<in> set h0" "0 < x" by blast
  then have "0 < sum_list (map (\<lambda>x. x ^ 2) h0)" by (intro sum_squares_pos [of x]) simp_all
  moreover from x have "0 < length h0" by (cases h0) simp_all
  ultimately show ?thesis by (simp add: mean_sq_def)
qed

lemma corrected_cl_value:
  assumes "m \<noteq> []" "\<forall>row\<in>set m. length row = length h0"
    and "anafast (map (\<lambda>row. map2 (*) row h0) m) = Inr cl"
    and "mean_sq h0 \<noteq> 0" "sf \<noteq> 0" "h0 \<noteq> []"
  shows "corrected_cl anafast (h0 # hs) sf m = Inr (map (map (\<lambda>c. c / mean_sq h0 / sf)) cl)"
  using assms
  by (simp add: corrected_cl_def broadcast2_row np_mean_square divide2_def comp_def)


lemma mapM_rel:
  assumes "mapM f xs = Inr ys" and "\<And>x y. x \<in> set xs \<Longrightarrow> f x = Inr y \<Longrightarrow> g x = Inr (k y)"
  shows "mapM g xs = Inr (map k ys)"
  using assms
proof (induction xs arbitrary: ys)
  case Nil
  then show ?case by simp
next
  case (Cons x xs)
  from Cons.prems(1) obtain y ys' where y: "f x = Inr y" and ys': "mapM f xs = Inr ys'"
    and eq: "ys = y # ys'"
    by (auto simp: bind_def split: sum.splits)
  from Cons.IH [OF ys'] Cons.prems(2) have "mapM g xs = Inr (map k ys')" by simp
  moreover from Cons.prems(2) y have "g x = Inr (k y)" by simp
  ultimately show ?case using eq by simp
qed

lemma cls_value:
  assumes pos: "\<exists>x\<in>set h0. 0 < x"
    and maps: "\<forall>m\<in>set maps. m \<noteq> [] \<and> (\<forall>row\<in>set m. length row = length h0)
                 \<and> anafast (map (\<lambda>row. map2 (*) row h0) m) = Inr (raw m)"
  shows "cls anafast maps (h0 # hs)
         = Inr (map (\<lambda>m. map (map (\<lambda>c. c / mean_sq h0
                  / (real (length (filter (\<lambda>x. 0 < x) h0)) / real (length h0)))) (raw m)) maps)"
proof -
  let ?sf = "real (length (filter (\<lambda>x. 0 < x) h0)) / real (length h0)"
  from pos have ne: "h0 \<noteq> []" by auto
  have sf: "?sf \<noteq> 0" using sky_fraction_bounds(4) [OF ne pos] by (metis less_irrefl)
  have msq: "mean_sq h0 \<noteq> 0" using mean_sq_pos [OF pos] by simp
  have "mapM (corrected_cl anafast (h0 # hs) ?sf) maps
        = Inr (map (\<lambda>m. map (map (\<lambda>c. c / mean_sq h0 / ?sf)) (raw m)) maps)"
    by (rule mapM_Inr) (use maps msq sf ne in \<open>simp add: corrected_cl_value\<close>)
  then show ?thesis by (simp add: cls_def sky_fraction_value [OF ne])
qed

lemma map2_same: "map2 h (map f xs) (map g xs) = map (\<lambda>x. h (f x) (g x)) xs"
  by (induction xs) simp_all

lemma ncols_map: "ncols (map (map f) a) = ncols a"
  by (cases a) (simp_all add: ncols_def)

lemma car_mask_value: "car_mask ivar1 = Inr (map (map (\<lambda>x. if x \<le> 0 then 0 else 1)) ivar1)"
  by (simp add: car_mask_def setitem_bool2_def ncols_map map2_same)

lemma broadcast2_same:
  assumes "length a = length b" "\<forall>row\<in>set a. length row = c" "\<forall>row\<in>set b. length row = c"
  shows "broadcast2 f a b = Inr (map2 (map2 f) a b)"
proof -
  have nc: "ncols a = c \<and> ncols b = c \<or> a = [] \<and> b = []"
    using assms by (cases a; cases b) (simp_all add: ncols_def)
  have "map2 (\<lambda>x y. map2 f (stretch c x) (stretch c y)) a b = map2 (map2 f) a b"
  proof (intro map_cong refl)
    fix p assume "p \<in> set (zip a b)"
    then have "(fst p, snd p) \<in> set (zip a b)" by simp
    then have "fst p \<in> set a" "snd p \<in> set b"
      by (rule set_zip_leftD, rule set_zip_rightD)
    with assms(2,3) have "length (fst p) = c" "length (snd p) = c" by simp_all
    then show "(case p of (x, y) \<Rightarrow> map2 f (stretch c x) (stretch c y))
                 = (case p of (x, y) \<Rightarrow> map2 f x y)"
      by (simp add: split_def)
  qed
  with nc assms(1) show ?thesis
    by (auto simp: broadcast2_def ncols_def)
qed

lemma w2_value:
  assumes "length pmap = length ivar1" "\<forall>row\<in>set ivar1. length row = n"
    "\<forall>row\<in>set pmap. length row = n"
  shows "w2 ivar1 pmap
         = Inr (sum_list (map sum_list
                  (map2 (map2 (\<lambda>k a. k ^ 2 * a)) (map (map (\<lambda>x. if x \<le> 0 then 0 else 1)) ivar1) pmap))
                / (4 * pi))"
proof -
  let ?M = "map (map (\<lambda>x::real. if x \<le> 0 then 0 else 1 :: real)) ivar1"
  have "broadcast2 (*) (map np_square ?M) pmap = Inr (map2 (map2 (*)) (map np_square ?M) pmap)"
    using assms by (intro broadcast2_same [where c = n]) (auto simp: np_square_def)
  moreover have "map2 (map2 (*)) (map np_square ?M) pmap = map2 (map2 (\<lambda>k a. k ^ 2 * a)) ?M pmap"
    by (simp add: zip_map1 np_square_def split_def comp_def)
  ultimately show ?thesis
    by (simp add: w2_def car_mask_value)
qed

lemma car_cls_value:
  assumes "standardized ivar1 pmap tmap1 = Inr smap" "map2alm smap = Inr alm"
    "alm2cl alm = Inr cl" "w2 ivar1 pmap = Inr w" "w \<noteq> 0"
  shows "car_cls map2alm alm2cl ivar1 pmap tmap1 = Inr (map (\<lambda>c. c / w) cl)"
  using assms by (simp add: car_cls_def divide1_def)

text \<open>
  C2.  For a non-empty hitmap the sky fraction is the number of pixels with a positive
  hit count over the number of pixels; it lies between 0 and 1 and is 1 exactly when
  every pixel is hit.  When some pixel is hit, every map has rows of the length of the
  hitmap and \<open>anafast\<close> returns \<open>raw m\<close> on the weighted map \<open>m * h\<close>, the spectra of the cell
  are \<open>raw m\<close> divided by the mean of \<open>h\<^sup>2\<close> and by the sky fraction.  In the CAR notebook,
  for an inverse-variance map and a pixel-area map of one shape, the mask is 1 where
  the inverse variance is positive and 0 elsewhere, \<open>w2\<close> is the sum of
  \<open>mask\<^sup>2 * pixarea\<close> over \<open>4 * pi\<close>, and the spectrum of the standardized map is
  divided by \<open>w2\<close>.
\<close>

theorem sky_fraction_correction:
  "(h0 \<noteq> [] \<longrightarrow>
      (\<exists>sf. sky_fraction (h0 # hs) = Inr sf
         \<and> sf = real (length (filter (\<lambda>x. 0 < x) h0)) / real (length h0)
         \<and> 0 \<le> sf \<and> sf \<le> 1 \<and> (sf = 1 \<longleftrightarrow> (\<forall>x\<in>set h0. 0 < x))))
   \<and> ((\<exists>x\<in>set h0. 0 < x)
        \<and> (\<forall>m\<in>set maps. m \<noteq> [] \<and> (\<forall>row\<in>set m. length row = length h0)
               \<and> anafast (map (\<lambda>row. map2 (*) row h0) m) = Inr (raw m)) \<longrightarrow>
      (\<exists>sf. sky_fraction (h0 # hs) = Inr sf
         \<and> cls anafast maps (h0 # hs)
             = Inr (map (\<lambda>m. map (map (\<lambda>c. c / mean_sq h0 / sf)) (raw m)) maps)))
   \<and> (length pmap = length ivar1 \<and> (\<forall>row\<in>set ivar1. length row = n)
        \<and> (\<forall>row\<in>set pmap. length row = n) \<longrightarrow>
      (\<exists>msk w. car_mask ivar1 = Inr msk
         \<and> (\<forall>y<length ivar1. \<forall>x<n. msk ! y ! x = (if 0 < ivar1 ! y ! x then 1 else 0))
         \<and> w2 ivar1 pmap = Inr w
         \<and> w = sum_list (map sum_list (map2 (map2 (\<lambda>k a. k ^ 2 * a)) msk pmap)) / (4 * pi)
         \<and> (standardized ivar1 pmap tmap1 = Inr smap \<and> map2alm smap = Inr alm
              \<and> alm2cl alm = Inr cl \<and> w \<noteq> 0 \<longrightarrow>
            car_cls map2alm alm2cl ivar1 pmap tmap1 = Inr (map (\<lambda>c. c / w) cl))))"
proof (intro conjI impI)
  assume ne: "h0 \<noteq> []"
  show "\<exists>sf. sky_fraction (h0 # hs) = Inr sf
         \<and> sf = real (length (filter (\<lambda>x. 0 < x) h0)) / real (length h0)
         \<and> 0 \<le> sf \<and> sf \<le> 1 \<and> (sf = 1 \<longleftrightarrow> (\<forall>x\<in>set h0. 0 < x))"
    using sky_fraction_bounds(1,2,3) [OF ne] sky_fraction_value [OF ne, of hs] by blast
next
  assume a: "(\<exists>x\<in>set h0. 0 < x)
        \<and> (\<forall>m\<in>set maps. m \<noteq> [] \<and> (\<forall>row\<in>set m. length row = length h0)
               \<and> anafast (map (\<lambda>row. map2 (*) row h0) m) = Inr (raw m))"
  then have ne: "h0 \<noteq> []" by auto
  from a cls_value [of h0 maps anafast raw hs] sky_fraction_value [OF ne, of hs]
  show "\<exists>sf. sky_fraction (h0 # hs) = Inr sf
         \<and> cls anafast maps (h0 # hs)
             = Inr (map (\<lambda>m. map (map (\<lambda>c. c / mean_sq h0 / sf)) (raw m)) maps)"
    by blast
next
  assume a: "length pmap = length ivar1 \<and> (\<forall>row\<in>set ivar1. length row = n)
        \<and> (\<forall>row\<in>set pmap. length row = n)"
  let ?M = "map (map (\<lambda>x::real. if x \<le> 0 then 0 else 1 :: real)) ivar1"
  let ?w = "sum_list (map sum_list (map2 (map2 (\<lambda>k a. k ^ 2 * a)) ?M pmap)) / (4 * pi)"
  have pix: "\<forall>y<length ivar1. \<forall>x<n. ?M ! y ! x = (if 0 < ivar1 ! y ! x then 1 else 0)"
    using a by (auto simp: not_le)
  have w: "w2 ivar1 pmap = Inr ?w"
    using a by (intro w2_value [where n = n]) simp_all
  have "standardized ivar1 pmap tmap1 = Inr smap \<and> map2alm smap = Inr alm
              \<and> alm2cl alm = Inr cl \<and> ?w \<noteq> 0 \<longrightarrow>
            car_cls map2alm alm2cl ivar1 pmap tmap1 = Inr (map (\<lambda>c. c / ?w) cl)"
  proof (intro impI, elim conjE)
    assume s: "standardized ivar1 pmap tmap1 = Inr smap" "map2alm smap = Inr alm"
      "alm2cl alm = Inr cl" and nz: "?w \<noteq> 0"
    show "car_cls map2alm alm2cl ivar1 pmap tmap1 = Inr (map (\<lambda>c. c / ?w) cl)"
      by (rule car_cls_value [where map2alm = map2alm and alm2cl = alm2cl and smap = smap
            and alm = alm]) (fact s w nz)+
  qed
  with pix w car_mask_value [of ivar1]
  show "\<exists>msk w. car_mask ivar1 = Inr msk
         \<and> (\<forall>y<length ivar1. \<forall>x<n. msk ! y ! x = (if 0 < ivar1 ! y ! x then 1 else 0))
         \<and> w2 ivar1 pmap = Inr w
         \<and> w = sum_list (map sum_list (map2 (map2 (\<lambda>k a. k ^ 2 * a)) msk pmap)) / (4 * pi)
         \<and> (standardized ivar1 pmap tmap1 = Inr smap \<and> map2alm smap = Inr alm
              \<and> alm2cl alm = Inr cl \<and> w \<noteq> 0 \<longrightarrow>
            car_cls map2alm alm2cl ivar1 pmap tmap1 = Inr (map (\<lambda>c. c / w) cl))"
    by blast
qed


theorem sky_fraction_correction_witness:
  "sky_fraction [[1, 0]] = Inr (1 / 2)
   \<and> cls (\<lambda>_. Inr [[1]]) [[[1, 1], [1, 1], [1, 1]]] [[1, 0]] = Inr [[[4]]]
   \<and> car_mask [[1, 0]] = Inr [[1, 0]]
   \<and> w2 [[1, 0]] [[1, 1]] = Inr (1 / (4 * pi))
   \<and> car_cls Inr (\<lambda>a. Inr (map sum_list a)) [[1, 0]] [[1, 1]] [[3, 4]] = Inr [12 * pi]"
proof -
  let ?A = "\<lambda>_ :: real list list. Inr [[1 :: real]] :: py_error + real list list"
  let ?maps = "[[[1, 1], [1, 1], [1, 1 :: real]]]"
  note t = sky_fraction_correction
    [where ?h0.0 = "[1, 0]" and hs = "[]" and maps = ?maps and anafast = ?A
       and raw = "\<lambda>_. [[1]]" and ?ivar1.0 = "[[1, 0]]" and pmap = "[[1, 1]]" and n = 2
       and ?tmap1.0 = "[[3, 4]]" and smap = "[[3, 0]]" and map2alm = Inr and alm = "[[3, 0]]"
       and alm2cl = "\<lambda>a. Inr (map sum_list a)" and cl = "[3]"]
  note t1 = t [THEN conjunct1]
  note t2 = t [THEN conjunct2, THEN conjunct1]
  note t3 = t [THEN conjunct2, THEN conjunct2]
  have h1: "[1, 0 :: real] \<noteq> []" by simp
  have h2: "(\<exists>x\<in>set [1, 0 :: real]. 0 < x)
      \<and> (\<forall>m\<in>set ?maps. m \<noteq> [] \<and> (\<forall>row\<in>set m. length row = length [1, 0 :: real])
             \<and> (Inr [[1]] :: py_error + real list list) = Inr [[1]])"
    by simp
  have h3: "length [[1, 1 :: real]] = length [[1, 0 :: real]]
      \<and> (\<forall>row\<in>set [[1, 0 :: real]]. length row = 2) \<and> (\<forall>row\<in>set [[1, 1 :: real]]. length row = 2)"
    by simp
  have count: "real (length (filter (\<lambda>x. 0 < x) [1, 0 :: real])) / real (length [1, 0 :: real]) = 1 / 2"
    by simp
  have msq: "mean_sq [1, 0] = 1 / 2"
    by (simp add: mean_sq_def)
  from t1 h1 count have sf: "sky_fraction [[1, 0]] = Inr (1 / 2)"
    by auto
  from t2 h2 obtain sf' where s': "sky_fraction [[1, 0]] = Inr sf'"
    and c': "cls ?A ?maps [[1, 0]]
           = Inr (map (\<lambda>m. map (map (\<lambda>c. c / mean_sq [1, 0] / sf')) [[1]]) ?maps)"
    by blast
  from s' sf have sfv: "sf' = 1 / 2" by simp
  from c' have a: "cls ?A ?maps [[1, 0]] = Inr [[[4]]]"
    unfolding sfv msq by simp
  have st: "standardized [[1, 0]] [[1, 1]] [[3, 4]] = Inr [[3, 0]]"
    by (simp add: standardized_def broadcast2_def bdim_def ncols_def)
  from t3 h3 obtain msk w where m: "car_mask [[1, 0]] = Inr msk"
    and w: "w2 [[1, 0]] [[1, 1]] = Inr w"
    and weq: "w = sum_list (map sum_list (map2 (map2 (\<lambda>k a. k ^ 2 * a)) msk [[1, 1]])) / (4 * pi)"
    and c: "standardized [[1, 0]] [[1, 1]] [[3, 4]] = Inr [[3, 0]]
              \<and> (Inr [[3, 0]] :: py_error + real list list) = Inr [[3, 0]]
              \<and> (Inr (map sum_list [[3, 0 :: real]]) :: py_error + real list) = Inr [3] \<and> w \<noteq> 0
            \<longrightarrow> car_cls Inr (\<lambda>a. Inr (map sum_list a)) [[1, 0]] [[1, 1]] [[3, 4]]
                  = Inr (map (\<lambda>c. c / w) [3])"
    by blast
  from m have msk: "msk = [[1, 0]]" by (simp add: car_mask_value)
  with weq have weq': "w = 1 / (4 * pi)" by simp
  with c st have "car_cls Inr (\<lambda>a. Inr (map sum_list a)) [[1, 0]] [[1, 1]] [[3, 4]] = Inr [12 * pi]"
    by simp
  with sf a m msk w weq' show ?thesis by simp
qed

lemma library_call_then_correction:
  assumes "bind (getitem (h0 # hs) 0) (\<lambda>h. bind (broadcast2 (*) m [h]) anafast) = Inr cl"
    and "h0 \<noteq> []" "mean_sq h0 \<noteq> 0" "sf \<noteq> 0"
  shows "corrected_cl anafast (h0 # hs) sf m = Inr (map (map (\<lambda>c. c / mean_sq h0 / sf)) cl)"
  using assms
  by (cases "broadcast2 (*) m [h0]")
     (simp_all add: corrected_cl_def np_mean_square divide2_def comp_def)

lemma cls_is_scaled_library_spectra:
  assumes "\<exists>x\<in>set h0. 0 < x"
    and "library_spectra anafast maps (h0 # hs) = Inr raw"
  shows "cls anafast maps (h0 # hs)
         = Inr (map (map (map (\<lambda>c. c / mean_sq h0
                  / (real (length (filter (\<lambda>x. 0 < x) h0)) / real (length h0))))) raw)"
proof -
  let ?sf = "real (length (filter (\<lambda>x. 0 < x) h0)) / real (length h0)"
  from assms(1) have ne: "h0 \<noteq> []" by auto
  have sf: "?sf \<noteq> 0" using sky_fraction_bounds(4) [OF ne assms(1)] by (metis less_irrefl)
  have msq: "mean_sq h0 \<noteq> 0" using mean_sq_pos [OF assms(1)] by simp
  have "mapM (corrected_cl anafast (h0 # hs) ?sf) maps
        = Inr (map (map (map (\<lambda>c. c / mean_sq h0 / ?sf))) raw)"
    using assms(2) unfolding library_spectra_def
  proof (rule mapM_rel)
    fix m cl
    assume "bind (getitem (h0 # hs) 0) (\<lambda>h. bind (broadcast2 (*) m [h]) anafast) = Inr cl"
    then show "corrected_cl anafast (h0 # hs) ?sf m
                 = Inr (map (map (\<lambda>c. c / mean_sq h0 / ?sf)) cl)"
      using ne msq sf by (rule library_call_then_correction)
  qed
  then show ?thesis by (simp add: cls_def sky_fraction_value [OF ne])
qed

text \<open>
  C3, as amended.  The correction is arithmetic of the notebook on top of the library
  call.  In notebook 3, whenever the calls to \<open>anafast\<close> return \<open>raw\<close> and some pixel is hit,
  the spectra of the cell are \<open>raw\<close> divided by the mean of the squared hitmap and by the
  sky fraction, both computed by the notebook from the hitmap.  In notebook 6, whenever
  \<open>map2alm\<close> and \<open>alm2cl\<close> return the spectrum \<open>cl\<close> of the standardized map, the cell returns
  \<open>cl\<close> divided by the \<open>w2\<close> the notebook has computed from its mask and the pixel areas.
\<close>

theorem correction_is_notebook_arithmetic:
  "((\<exists>x\<in>set h0. 0 < x) \<and> library_spectra anafast maps (h0 # hs) = Inr raw \<longrightarrow>
      cls anafast maps (h0 # hs)
        = Inr (map (map (map (\<lambda>c. c / mean_sq h0
                 / (real (length (filter (\<lambda>x. 0 < x) h0)) / real (length h0))))) raw))
   \<and> (standardized ivar1 pmap tmap1 = Inr smap \<and> map2alm smap = Inr alm \<and> alm2cl alm = Inr cl
        \<and> w2 ivar1 pmap = Inr w \<and> w \<noteq> 0 \<longrightarrow>
      car_cls map2alm alm2cl ivar1 pmap tmap1 = Inr (map (\<lambda>c. c / w) cl))"
proof (intro conjI impI)
  assume "(\<exists>x\<in>set h0. 0 < x) \<and> library_spectra anafast maps (h0 # hs) = Inr raw"
  then show "cls anafast maps (h0 # hs)
        = Inr (map (map (map (\<lambda>c. c / mean_sq h0
                 / (real (length (filter (\<lambda>x. 0 < x) h0)) / real (length h0))))) raw)"
    by (intro cls_is_scaled_library_spectra) simp_all
next
  assume "standardized ivar1 pmap tmap1 = Inr smap \<and> map2alm smap = Inr alm \<and> alm2cl alm = Inr cl
        \<and> w2 ivar1 pmap = Inr w \<and> w \<noteq> 0"
  then show "car_cls map2alm alm2cl ivar1 pmap tmap1 = Inr (map (\<lambda>c. c / w) cl)"
    by (simp add: car_cls_def divide1_def)
qed

theorem correction_is_notebook_arithmetic_witness:
  "library_spectra constant_transform [[[1, 1], [1, 1], [1, 1]]] [[1, 0]] = Inr [[[1]]]
   \<and> cls constant_transform [[[1, 1], [1, 1], [1, 1]]] [[1, 0]] = Inr [[[4]]]
   \<and> w2 [[1, 0]] [[1, 1]] = Inr (1 / (4 * pi))
   \<and> car_cls Inr (\<lambda>a. Inr (map sum_list a)) [[1, 0]] [[1, 1]] [[3, 4]] = Inr [12 * pi]"
proof -
  have pos: "\<exists>x\<in>set [1, 0 :: real]. 0 < x" by simp
  have lib: "library_spectra constant_transform [[[1, 1], [1, 1], [1, 1]]] [[1, 0]] = Inr [[[1]]]"
    by (simp add: library_spectra_def constant_transform_def broadcast2_def bdim_def ncols_def)
  have msq: "mean_sq [1, 0] = 1 / 2"
    by (simp add: mean_sq_def)
  have st: "standardized [[1, 0]] [[1, 1]] [[3, 4]] = Inr [[3, 0]]"
    by (simp add: standardized_def broadcast2_def bdim_def ncols_def)
  have shape: "length [[1, 1 :: real]] = length [[1, 0 :: real]]"
    "\<forall>row\<in>set [[1, 0 :: real]]. length row = 2" "\<forall>row\<in>set [[1, 1 :: real]]. length row = 2"
    by simp_all
  have w: "w2 [[1, 0]] [[1, 1]] = Inr (1 / (4 * pi))"
    using w2_value [OF shape] by simp
  have nz: "1 / (4 * pi) \<noteq> (0 :: real)" by simp
  note t = correction_is_notebook_arithmetic
    [where ?h0.0 = "[1, 0]" and hs = "[]" and maps = "[[[1, 1], [1, 1], [1, 1]]]"
       and anafast = constant_transform and raw = "[[[1]]]"
       and ?ivar1.0 = "[[1, 0]]" and pmap = "[[1, 1]]" and ?tmap1.0 = "[[3, 4]]"
       and smap = "[[3, 0]]" and map2alm = Inr and alm = "[[3, 0]]"
       and alm2cl = "\<lambda>a. Inr (map sum_list a)" and cl = "[3]" and w = "1 / (4 * pi)"]
  from t [THEN conjunct1] pos lib
  have "cls constant_transform [[[1, 1], [1, 1], [1, 1]]] [[1, 0]]
          = Inr (map (map (map (\<lambda>c. c / mean_sq [1, 0]
                 / (real (length (filter (\<lambda>x. 0 < x) [1, 0 :: real])) / real (length [1, 0 :: real])))))
                   [[[1]]])"
    by blast
  then have a: "cls constant_transform [[[1, 1], [1, 1], [1, 1]]] [[1, 0]] = Inr [[[4]]]"
    unfolding msq by simp
  from t [THEN conjunct2] st w nz
  have "car_cls Inr (\<lambda>a. Inr (map sum_list a)) [[1, 0]] [[1, 1]] [[3, 4]]
          = Inr (map (\<lambda>c. c / (1 / (4 * pi))) [3])"
    by simp
  then have b: "car_cls Inr (\<lambda>a. Inr (map sum_list a)) [[1, 0]] [[1, 1]] [[3, 4]] = Inr [12 * pi]"
    by simp
  from lib a w b show ?thesis by simp
qed

text \<open>
  C3 as stated fails: with a transform that returns the single value 1 and a hitmap that
  covers half of the pixels, the cell does not return what the library returned.
\<close>

theorem correction_not_library_only:
  "cls constant_transform [[[1, 1], [1, 1], [1, 1]]] [[1, 0]]
     \<noteq> library_spectra constant_transform [[[1, 1], [1, 1], [1, 1]]] [[1, 0]]"
  by (simp add: constant_transform_def cls_def library_spectra_def sky_fraction_def scalar_divide_def corrected_cl_def
      broadcast2_def bdim_def ncols_def np_mean_def np_square_def divide2_def)



subsection \<open>The divisors in float64\<close>

lemma mapM_cong: "(\<And>x. x \<in> set xs \<Longrightarrow> f x = g x) \<Longrightarrow> mapM f xs = mapM g xs"
  by (induction xs) simp_all

lemma sum_list_upper:
  fixes f :: "'a \<Rightarrow> real"
  shows "(\<And>x. x \<in> set xs \<Longrightarrow> f x \<le> b) \<Longrightarrow> sum_list (map f xs) \<le> real (length xs) * b"
  by (induction xs) (simp_all add: algebra_simps add_mono)

lemma sum_list_nonneg_real:
  fixes f :: "'a \<Rightarrow> real"
  shows "(\<And>x. x \<in> set xs \<Longrightarrow> 0 \<le> f x) \<Longrightarrow> 0 \<le> sum_list (map f xs)"
  by (induction xs) simp_all

lemma term_le_sum_list:
  fixes f :: "'a \<Rightarrow> real"
  assumes "\<And>x. x \<in> set xs \<Longrightarrow> 0 \<le> f x" and "y \<in> set xs"
  shows "f y \<le> sum_list (map f xs)"
  using assms
proof (induction xs)
  case Nil
  then show ?case by simp
next
  case (Cons x xs)
  have rest: "0 \<le> sum_list (map f xs)" using Cons.prems(1) by (intro sum_list_nonneg_real) simp
  show ?case
  proof (cases "y = x")
    case True
    with rest show ?thesis by simp
  next
    case False
    with Cons have "f y \<le> sum_list (map f xs)" by simp
    moreover have "0 \<le> f x" using Cons.prems(1) by simp
    ultimately show ?thesis by simp
  qed
qed

lemma f64_zero [simp]: "f64 0 = Inr 0"
  using f64_int [of 0] by simp

lemma f64_unit_interval: "0 \<le> y \<Longrightarrow> y \<le> 1 \<Longrightarrow> f64 y = Inr (round64 y)"
  by (rule f64_bounded [where k = 0]) simp_all

lemma sky_fraction_f64_value:
  "h0 \<noteq> [] \<Longrightarrow>
     sky_fraction_f64 (h0 # hs)
       = Inr (round64 (real (length (filter (\<lambda>x. 0 < x) h0)) / real (length h0)))"
proof -
  assume ne: "h0 \<noteq> []"
  have "length (filter (\<lambda>x. 0 < x) h0) \<le> length h0" by simp
  then have "real (length (filter (\<lambda>x. 0 < x) h0)) / real (length h0) \<le> 1"
    using ne by simp
  then have "f64 (real (length (filter (\<lambda>x. 0 < x) h0)) / real (length h0))
          = Inr (round64 (real (length (filter (\<lambda>x. 0 < x) h0)) / real (length h0)))"
    by (intro f64_unit_interval) simp_all
  with ne show ?thesis by (simp add: sky_fraction_f64_def f64_divide_def)
qed

lemma sky_fraction_f64_pos:
  assumes "\<exists>x\<in>set h0. 0 < x" "length h0 < 2 ^ 52"
  shows "0 < round64 (real (length (filter (\<lambda>x. 0 < x) h0)) / real (length h0))"
proof -
  let ?c = "length (filter (\<lambda>x. 0 < x) h0)" and ?n = "length h0"
  from assms(1) have "filter (\<lambda>x. 0 < x) h0 \<noteq> []" by (simp add: filter_empty_conv)
  then have c: "1 \<le> real ?c" by (cases "filter (\<lambda>x. 0 < x) h0") simp_all
  from assms(1) have n: "0 < real ?n" by (cases h0) simp_all
  have "real ?n \<le> 2 ^ 52" using assms(2) by (simp add: less_imp_le flip: of_nat_le_iff)
  also have "(2 :: real) ^ 52 = pow2 52" using pow2_nat [of 52] by simp
  finally have le: "real ?n \<le> pow2 52" .
  have "pow2 (- 52) = 1 / pow2 52" using pow2_diff [of 0 52] by simp
  also have "\<dots> \<le> 1 / real ?n" using le n by (intro divide_left_mono) simp_all
  also have "\<dots> \<le> real ?c / real ?n" using c n by (intro divide_right_mono) simp_all
  finally have "pow2 (- 52) \<le> round64 (real ?c / real ?n)" by (intro round64_ge_pow2) simp_all
  with pow2_pos [of "- 52"] show ?thesis by linarith
qed

lemma mean_square_f64_value:
  assumes "\<forall>x\<in>set h0. \<bar>x\<bar> \<le> pow2 485" "h0 \<noteq> []"
  shows "mean_square_f64 h0
         = Inr (round64 (sum_list (map (\<lambda>x. round64 (x * x)) h0) / real (length h0)))"
proof -
  let ?sq = "\<lambda>x :: real. round64 (x * x)"
  have sq: "mapM f64_square h0 = Inr (map ?sq h0)"
    using assms(1) by (intro mapM_square [where k = 485]) simp_all
  have "sum_list (map ?sq h0) \<le> real (length h0) * pow2 970"
    using assms(1) round64_square_le [where k = 485] by (intro sum_list_upper) simp
  then have up: "sum_list (map ?sq h0) / real (length h0) \<le> pow2 970"
    using assms(2) by (simp add: field_simps)
  have "0 \<le> sum_list (map ?sq h0)" by (intro sum_list_nonneg_real round64_nonneg) simp
  then have nn: "0 \<le> sum_list (map ?sq h0) / real (length h0)" by simp
  from nn up have "f64 (sum_list (map ?sq h0) / real (length h0))
                 = Inr (round64 (sum_list (map ?sq h0) / real (length h0)))"
    by (intro f64_bounded [where k = 970]) simp_all
  with assms(2) show ?thesis by (simp add: mean_square_f64_def sq f64_divide_def)
qed

lemma mean_square_f64_pos:
  assumes "\<exists>x\<in>set h0. pow2 (- 511) \<le> x" "length h0 < 2 ^ 52"
  shows "0 < round64 (sum_list (map (\<lambda>x. round64 (x * x)) h0) / real (length h0))"
proof -
  let ?sq = "\<lambda>x :: real. round64 (x * x)"
  let ?n = "length h0"
  from assms(1) obtain x where x: "x \<in> set h0" "pow2 (- 511) \<le> x" by blast
  then have n: "0 < real ?n" by (cases h0) simp_all
  have "pow2 (- 1022) = pow2 (- 511) * pow2 (- 511)" by (simp add: pow2_add [symmetric])
  also have "\<dots> \<le> x * x"
  proof -
    have "0 \<le> x" using x(2) pow2_pos [of "- 511"] by linarith
    with x(2) show ?thesis by (intro mult_mono) simp_all
  qed
  finally have "pow2 (- 1022) \<le> ?sq x" by (intro round64_ge_pow2) simp_all
  also have "?sq x \<le> sum_list (map ?sq h0)"
    using x(1) by (intro term_le_sum_list round64_nonneg) simp_all
  finally have s: "pow2 (- 1022) \<le> sum_list (map ?sq h0)" .
  have "real ?n \<le> 2 ^ 52" using assms(2) by (simp add: less_imp_le flip: of_nat_le_iff)
  also have "(2 :: real) ^ 52 = pow2 52" using pow2_nat [of 52] by simp
  finally have le: "real ?n \<le> pow2 52" .
  have "pow2 (- 1074) = pow2 (- 1022) / pow2 52" by (simp add: pow2_diff)
  also have "\<dots> \<le> pow2 (- 1022) / real ?n" using le n by (intro divide_left_mono) simp_all
  also have "\<dots> \<le> sum_list (map ?sq h0) / real ?n" using s n by (intro divide_right_mono) simp_all
  finally have "pow2 (- 1074) \<le> round64 (sum_list (map ?sq h0) / real ?n)"
    by (intro round64_ge_pow2) simp_all
  with pow2_pos [of "- 1074"] show ?thesis by linarith
qed

lemma corrected_cl_f64_value:
  assumes "weighted_f64 m h0 = Inr wm" "anafast wm = Inr cl" "mean_square_f64 h0 = Inr msq"
    and "msq \<noteq> 0" "sf \<noteq> 0"
  shows "corrected_cl_f64 anafast (h0 # hs) sf m
         = bind (mapM (mapM (\<lambda>c. f64 (c / msq))) cl) (mapM (mapM (\<lambda>c. f64 (c / sf))))"
  using assms by (simp add: corrected_cl_f64_def divide2_f64_def)

lemma mean_square_f64_underflow:
  assumes "\<forall>x\<in>set h0. x\<^sup>2 \<le> pow2 (- 1075)"
  shows "mean_square_f64 h0
         = (if h0 = [] then Inl (NonFinite ''division by zero'') else Inr 0)"
proof -
  have z: "f64_square x = Inr 0" if "x \<in> set h0" for x
  proof -
    from that assms have le: "x * x \<le> pow2 (- 1075)" by (simp add: power2_eq_square)
    then have r: "round64 (x * x) = 0" using round64_zero_iff [of "x * x"] by simp
    have "pow2 (- 1075) \<le> pow2 (- 1074)" by simp
    with le have "x * x \<le> pow2 (- 1074)" by (rule order_trans)
    then have "f64 (x * x) = Inr (round64 (x * x))"
      by (intro f64_bounded [where k = "- 1074"]) simp_all
    with r show ?thesis by (simp add: f64_square_def)
  qed
  then have "mapM f64_square h0 = Inr (map (\<lambda>x. 0) h0)" by (intro mapM_Inr) simp
  moreover have "sum_list (map (\<lambda>x. 0 :: real) h0) = 0" by (induction h0) simp_all
  ultimately show ?thesis by (simp add: mean_square_f64_def f64_divide_def)
qed

lemma cls_f64_underflow:
  assumes "\<forall>x\<in>set h0. x\<^sup>2 \<le> pow2 (- 1075)"
    and "weighted_f64 m h0 = Inr wm" "anafast wm = Inr cl"
  shows "cls_f64 anafast (m # rest) (h0 # hs) = Inl (NonFinite ''division by zero'')"
proof (cases "h0 = []")
  case True
  then show ?thesis by (simp add: cls_f64_def sky_fraction_f64_def f64_divide_def)
next
  case False
  then show ?thesis
    using assms
    by (simp add: cls_f64_def sky_fraction_f64_value corrected_cl_f64_def
        mean_square_f64_underflow divide2_f64_def)
qed

text \<open>
  C10, as amended.  In float64, on a hitmap of fewer than \<open>2 ^ 52\<close> pixels: when some pixel
  is positive, the sky fraction is positive.  When some pixel is at least
  \<open>pow2 (- 511)\<close> and no pixel exceeds \<open>pow2 485\<close> in magnitude, the sky fraction and the mean
  of the squared hitmap are both positive, and wherever \<open>anafast\<close> returns, the spectra of
  the cell are its values divided by these two positive numbers, each quotient rounded.
  When the square of every pixel underflows, as it does when every pixel is zero and
  also when the pixels are positive but at most \<open>pow2 (- 538)\<close>, the mean of the squares is
  zero and the cell reaches a division by zero on its first map.
\<close>

theorem correction_divisors_float64:
  "((\<exists>x\<in>set h0. 0 < x) \<and> length h0 < 2 ^ 52 \<longrightarrow>
      (\<exists>sf. sky_fraction_f64 (h0 # hs) = Inr sf \<and> 0 < sf))
   \<and> ((\<exists>x\<in>set h0. pow2 (- 511) \<le> x) \<and> (\<forall>x\<in>set h0. \<bar>x\<bar> \<le> pow2 485) \<and> length h0 < 2 ^ 52 \<longrightarrow>
      (\<exists>sf msq. sky_fraction_f64 (h0 # hs) = Inr sf \<and> 0 < sf
         \<and> mean_square_f64 h0 = Inr msq \<and> 0 < msq
         \<and> ((\<forall>m\<in>set maps. \<exists>wm. weighted_f64 m h0 = Inr wm \<and> anafast wm = Inr (raw m)) \<longrightarrow>
              cls_f64 anafast maps (h0 # hs)
                = mapM (\<lambda>m. bind (mapM (mapM (\<lambda>c. f64 (c / msq))) (raw m))
                                  (mapM (mapM (\<lambda>c. f64 (c / sf))))) maps)))
   \<and> ((\<forall>x\<in>set h0. x\<^sup>2 \<le> pow2 (- 1075)) \<and> weighted_f64 m h0 = Inr wm \<and> anafast wm = Inr cl \<longrightarrow>
        cls_f64 anafast (m # rest) (h0 # hs) = Inl (NonFinite ''division by zero''))"
proof (intro conjI impI)
  assume a: "(\<exists>x\<in>set h0. 0 < x) \<and> length h0 < 2 ^ 52"
  then have ne: "h0 \<noteq> []" by auto
  from a show "\<exists>sf. sky_fraction_f64 (h0 # hs) = Inr sf \<and> 0 < sf"
    using sky_fraction_f64_value [OF ne, of hs] sky_fraction_f64_pos [of h0] by simp
next
  assume a: "(\<exists>x\<in>set h0. pow2 (- 511) \<le> x) \<and> (\<forall>x\<in>set h0. \<bar>x\<bar> \<le> pow2 485) \<and> length h0 < 2 ^ 52"
  let ?sf = "round64 (real (length (filter (\<lambda>x. 0 < x) h0)) / real (length h0))"
  let ?msq = "round64 (sum_list (map (\<lambda>x. round64 (x * x)) h0) / real (length h0))"
  from a have ne: "h0 \<noteq> []" by auto
  from a have hit: "\<exists>x\<in>set h0. 0 < x"
    using pow2_pos [of "- 511"] by (meson less_le_trans)
  have sf: "sky_fraction_f64 (h0 # hs) = Inr ?sf" using ne by (rule sky_fraction_f64_value)
  have sfp: "0 < ?sf" using hit a by (intro sky_fraction_f64_pos) simp_all
  have msq: "mean_square_f64 h0 = Inr ?msq" using a ne by (intro mean_square_f64_value) simp_all
  have msqp: "0 < ?msq" using a by (intro mean_square_f64_pos) simp_all
  have cell: "cls_f64 anafast maps (h0 # hs)
                = mapM (\<lambda>m. bind (mapM (mapM (\<lambda>c. f64 (c / ?msq))) (raw m))
                                  (mapM (mapM (\<lambda>c. f64 (c / ?sf))))) maps"
    if w: "\<forall>m\<in>set maps. \<exists>wm. weighted_f64 m h0 = Inr wm \<and> anafast wm = Inr (raw m)"
  proof -
    have "corrected_cl_f64 anafast (h0 # hs) ?sf m
            = bind (mapM (mapM (\<lambda>c. f64 (c / ?msq))) (raw m)) (mapM (mapM (\<lambda>c. f64 (c / ?sf))))"
      if "m \<in> set maps" for m
    proof -
      from w that obtain wm where "weighted_f64 m h0 = Inr wm" "anafast wm = Inr (raw m)"
        by blast
      then show ?thesis using msq msqp sfp by (intro corrected_cl_f64_value) simp_all
    qed
    then have "mapM (corrected_cl_f64 anafast (h0 # hs) ?sf) maps
            = mapM (\<lambda>m. bind (mapM (mapM (\<lambda>c. f64 (c / ?msq))) (raw m))
                              (mapM (mapM (\<lambda>c. f64 (c / ?sf))))) maps"
      by (rule mapM_cong)
    then show ?thesis by (simp add: cls_f64_def sf)
  qed
  from sf sfp msq msqp cell
  show "\<exists>sf msq. sky_fraction_f64 (h0 # hs) = Inr sf \<and> 0 < sf
         \<and> mean_square_f64 h0 = Inr msq \<and> 0 < msq
         \<and> ((\<forall>m\<in>set maps. \<exists>wm. weighted_f64 m h0 = Inr wm \<and> anafast wm = Inr (raw m)) \<longrightarrow>
              cls_f64 anafast maps (h0 # hs)
                = mapM (\<lambda>m. bind (mapM (mapM (\<lambda>c. f64 (c / msq))) (raw m))
                                  (mapM (mapM (\<lambda>c. f64 (c / sf))))) maps)"
    by blast
next
  assume "(\<forall>x\<in>set h0. x\<^sup>2 \<le> pow2 (- 1075)) \<and> weighted_f64 m h0 = Inr wm \<and> anafast wm = Inr cl"
  then show "cls_f64 anafast (m # rest) (h0 # hs) = Inl (NonFinite ''division by zero'')"
    by (intro cls_f64_underflow [where wm = wm and cl = cl]) simp_all
qed

lemma f64_half: "f64 (1 / 2) = Inr (1 / 2)"
proof -
  have "pow2 (- 1) = 1 / 2" by (simp add: pow2_def)
  with f64_exact [of 1 "- 1"] show ?thesis by simp
qed

lemma f64_pow2: "- 1074 \<le> k \<Longrightarrow> k \<le> 970 \<Longrightarrow> f64 (pow2 k) = Inr (pow2 k)"
  using f64_exact [of 1 k] by simp

lemma f64_small: "f64 1 = Inr 1" "f64 2 = Inr 2" "f64 4 = Inr 4"
  using f64_int [of 1] f64_int [of 2] f64_int [of 4] by simp_all

lemmas array_defs = broadcast2_def bdim_def ncols_def stretch_def all_finite_def


theorem correction_divisors_float64_witness:
  "(\<exists>sf. sky_fraction_f64 [[1, 0]] = Inr sf \<and> 0 < sf)
   \<and> sky_fraction_f64 [[1, 0]] = Inr (1 / 2) \<and> mean_square_f64 [1, 0] = Inr (1 / 2)
   \<and> cls_f64 constant_transform [[[1, 1], [1, 1], [1, 1]]] [[1, 0]] = Inr [[[4]]]
   \<and> cls_f64 constant_transform [[[1, 1], [1, 1], [1, 1]]] [[0, 0]]
       = Inl (NonFinite ''division by zero'')"
proof -
  let ?maps = "[[[1, 1], [1, 1], [1, 1 :: real]]]"
  note some = correction_divisors_float64
    [where ?h0.0 = "[1, 0]" and hs = "[]", THEN conjunct1]
  note hit = correction_divisors_float64
    [where ?h0.0 = "[1, 0]" and hs = "[]" and maps = ?maps and anafast = constant_transform
       and raw = "\<lambda>_. [[1]]", THEN conjunct2, THEN conjunct1]
  note none = correction_divisors_float64
    [where ?h0.0 = "[0, 0]" and hs = "[]" and m = "[[1, 1], [1, 1], [1, 1]]" and rest = "[]"
       and anafast = constant_transform and wm = "[[0, 0], [0, 0], [0, 0]]" and cl = "[[1]]",
     THEN conjunct2, THEN conjunct2]
  have p: "(\<exists>x\<in>set [1, 0 :: real]. 0 < x) \<and> length [1, 0 :: real] < 2 ^ 52" by simp
  from some p have pos: "\<exists>sf. sky_fraction_f64 [[1, 0]] = Inr sf \<and> 0 < sf" by blast
  have h: "(\<exists>x\<in>set [1, 0 :: real]. pow2 (- 511) \<le> x) \<and> (\<forall>x\<in>set [1, 0 :: real]. \<bar>x\<bar> \<le> pow2 485)
      \<and> length [1, 0 :: real] < 2 ^ 52"
    using pow2_le_one [of "- 511"] one_le_pow2 [of 485] by simp
  have w: "\<forall>m\<in>set ?maps. \<exists>wm. weighted_f64 m [1, 0] = Inr wm \<and> constant_transform wm = Inr [[1]]"
    by (simp add: weighted_f64_def array_defs f64_multiply_def f64_small constant_transform_def)
  have sf: "sky_fraction_f64 [[1, 0]] = Inr (1 / 2)"
    by (simp add: sky_fraction_f64_def f64_divide_def f64_half)
  have msq: "mean_square_f64 [1, 0] = Inr (1 / 2)"
    by (simp add: mean_square_f64_def f64_square_def f64_divide_def f64_small f64_half)
  from hit h obtain sf' msq' where s': "sky_fraction_f64 [[1, 0]] = Inr sf'"
    and m': "mean_square_f64 [1, 0] = Inr msq'"
    and c': "(\<forall>m\<in>set ?maps. \<exists>wm. weighted_f64 m [1, 0] = Inr wm
                 \<and> constant_transform wm = Inr [[1]]) \<longrightarrow>
             cls_f64 constant_transform ?maps [[1, 0]]
               = mapM (\<lambda>m. bind (mapM (mapM (\<lambda>c. f64 (c / msq'))) [[1]])
                                 (mapM (mapM (\<lambda>c. f64 (c / sf'))))) ?maps"
    by blast
  from s' sf have sfv: "sf' = 1 / 2" by simp
  from m' msq have msqv: "msq' = 1 / 2" by simp
  from c' w
  have "cls_f64 constant_transform ?maps [[1, 0]]
          = mapM (\<lambda>m. bind (mapM (mapM (\<lambda>c. f64 (c / (1 / 2)))) [[1]])
                            (mapM (mapM (\<lambda>c. f64 (c / (1 / 2)))))) ?maps"
    unfolding sfv msqv by blast
  then have a: "cls_f64 constant_transform ?maps [[1, 0]] = Inr [[[4]]]"
    by (simp add: f64_small)
  have z: "(\<forall>x\<in>set [0, 0 :: real]. x\<^sup>2 \<le> pow2 (- 1075))
      \<and> weighted_f64 [[1, 1], [1, 1], [1, 1]] [0, 0] = Inr [[0, 0], [0, 0], [0, 0]]
      \<and> constant_transform [[0, 0], [0, 0], [0, 0]] = Inr [[1]]"
    by (simp add: weighted_f64_def array_defs f64_multiply_def constant_transform_def)
  from none z have b: "cls_f64 constant_transform ?maps [[0, 0]]
       = Inl (NonFinite ''division by zero'')"
    by blast
  from pos sf msq a b show ?thesis by simp
qed

text \<open>
  C10 as stated fails: a positive pixel does not make the mean of the squared hitmap
  positive.  On a map of twelve pixels with the hit count \<open>pow2 (- 600)\<close>, a positive
  float64 value, in every pixel, the sky fraction is 1, every square underflows, the
  mean of the squares is zero and the cell divides by zero.
\<close>

theorem positive_hits_divide_by_zero:
  "0 < pow2 (- 600)
   \<and> sky_fraction_f64 [replicate 12 (pow2 (- 600))] = Inr 1
   \<and> mean_square_f64 (replicate 12 (pow2 (- 600))) = Inr 0
   \<and> cls_f64 constant_transform [replicate 3 (replicate 12 1)] [replicate 12 (pow2 (- 600))]
       = Inl (NonFinite ''division by zero'')"
proof -
  let ?h = "replicate 12 (pow2 (- 600))"
  have ne: "?h \<noteq> []" by simp
  have u: "\<forall>x\<in>set ?h. x\<^sup>2 \<le> pow2 (- 1075)"
    by (simp add: power2_eq_square pow2_add [symmetric])
  have "filter (\<lambda>x. 0 < x) ?h = ?h" by simp
  then have "real (length (filter (\<lambda>x. 0 < x) ?h)) / real (length ?h) = 1" by simp
  then have sf: "sky_fraction_f64 [?h] = Inr 1"
    using sky_fraction_f64_value [OF ne, of "[]"] round64_int [of 1] by simp
  have msq: "mean_square_f64 ?h = Inr 0"
    using mean_square_f64_underflow [OF u] by simp
  have w: "weighted_f64 (replicate 3 (replicate 12 1)) ?h = Inr (replicate 3 ?h)"
    by (simp add: weighted_f64_def array_defs f64_multiply_def f64_pow2 numeral_eq_Suc)
  have "cls_f64 constant_transform [replicate 3 (replicate 12 1)] [?h]
          = Inl (NonFinite ''division by zero'')"
    using u w by (rule cls_f64_underflow) (simp add: constant_transform_def)
  with sf msq show ?thesis by simp
qed


section \<open>Co-adding maps\<close>

lemma broadcast_to_same:
  assumes "length b = r" "b \<noteq> []" "\<forall>row\<in>set b. length row = c"
  shows "broadcast_to r c b = Inr b"
proof -
  have "ncols b = c" using assms(2,3) by (rule ncols_rect)
  moreover have "map (stretch c) b = b"
    using assms(3) by (intro map_idI) simp
  ultimately show ?thesis using assms(1) by (simp add: broadcast_to_def bdim_to_def)
qed

lemma ma_iadd_pixel:
  assumes shape: "length (mdata a) = length other" "length (mmask a) = length other"
      "other \<noteq> []"
      "\<forall>row\<in>set (mdata a). length row = n" "\<forall>row\<in>set (mmask a). length row = n"
      "\<forall>row\<in>set other. length row = n"
    and idx: "c < length other" "p < n"
  shows "\<exists>r. ma_iadd a other = Inr r \<and> mmask r = mmask a
           \<and> mdata r ! c ! p
               = mdata a ! c ! p + (if mmask a ! c ! p then 0 else other ! c ! p)"
proof -
  have d: "mdata a \<noteq> []" using shape(1,3) by auto
  have nc: "ncols (mdata a) = n" using d shape(4) by (rule ncols_rect)
  have b: "broadcast_to (length (mdata a)) (ncols (mdata a)) other = Inr other"
    unfolding nc using shape(1,3,6) by (intro broadcast_to_same) simp_all
  have len: "length (mdata a ! c) = n" "length (mmask a ! c) = n" "length (other ! c) = n"
    using shape idx(1) by simp_all
  have "ma_iadd a other
        = Inr \<lparr>mdata = map2 (\<lambda>(xs, ks) os. map2 (\<lambda>(x, k) y. x + (if k then 0 else y)) (zip xs ks) os)
                          (zip (mdata a) (mmask a)) other,
                mmask = mmask a\<rparr>"
    unfolding ma_iadd_def b by simp
  then show ?thesis
    using shape(1,2) idx len by simp
qed

lemma cut_then_add_pixel:
  assumes m: "length m = length dust" "m \<noteq> []" "\<forall>row\<in>set m. length row = length h0"
      "\<forall>row\<in>set dust. length row = length h0"
    and idx: "c < length m" "p < length h0" and cut: "h0 ! p = 0"
  shows "\<exists>r. ma_iadd (cut_cols h0 (hp_ma m)) dust = Inr r
           \<and> mdata r ! c ! p = UNSEEN + dust ! c ! p \<and> \<not> mmask r ! c ! p"
proof -
  let ?a = "cut_cols h0 (hp_ma m)"
  have rows: "\<forall>row\<in>set (mdata ?a). length row = length h0"
      "\<forall>row\<in>set (mmask ?a). length row = length h0"
    using m(3) by (auto simp: cut_cols_def hp_ma_def)
  have lens: "length (mdata ?a) = length dust" "length (mmask ?a) = length dust"
    using m(1) by (simp_all add: cut_cols_def hp_ma_def)
  have dust: "dust \<noteq> []" using m(1,2) by auto
  have c: "c < length dust" using idx(1) m(1) by simp
  from ma_iadd_pixel [OF lens dust rows m(4) c idx(2)]
  obtain r where r: "ma_iadd ?a dust = Inr r" "mmask r = mmask ?a"
    "mdata r ! c ! p = mdata ?a ! c ! p + (if mmask ?a ! c ! p then 0 else dust ! c ! p)"
    by blast
  have lm: "length (m ! c) = length h0" using m(3) idx(1) by simp
  have "mdata ?a ! c ! p = UNSEEN" "\<not> mmask ?a ! c ! p"
    using idx cut lm by (simp_all add: cut_cols_def hp_ma_def)
  with r show ?thesis by simp
qed

text \<open>
  C5.  The first half of the claim holds by \<open>ma_iadd_pixel\<close>: an element that is not masked
  receives the sum, an element whose mask flag is set keeps its data.  The second half
  does not hold for the pixels the cut has set to \<open>UNSEEN\<close>: the assignment cleared their
  mask flag, so by \<open>cut_then_add_pixel\<close> they receive \<open>UNSEEN\<close> plus the dust value.  Here
  on a map of twelve pixels whose first pixel has no hits, with a dust value that
  cancels the sentinel, so that the sum is the same in exact and in float64 arithmetic:
  after the two cells the pixel holds 0 and is not masked.
\<close>

theorem nb2_sentinel_overwritten_by_dust:
  "nb2_cut_and_add
     [[[1, 1, 1, 1, 1, 1, 1, 1, 1, 1, 1, 1],
       [1, 1, 1, 1, 1, 1, 1, 1, 1, 1, 1, 1],
       [1, 1, 1, 1, 1, 1, 1, 1, 1, 1, 1, 1]]]
     [[0, 1, 1, 1, 1, 1, 1, 1, 1, 1, 1, 1]]
     [[16375 * 10 ^ 26, 2, 2, 2, 2, 2, 2, 2, 2, 2, 2, 2],
      [16375 * 10 ^ 26, 2, 2, 2, 2, 2, 2, 2, 2, 2, 2, 2],
      [16375 * 10 ^ 26, 2, 2, 2, 2, 2, 2, 2, 2, 2, 2, 2]]
   = Inr [\<lparr>mdata = [[0, 3, 3, 3, 3, 3, 3, 3, 3, 3, 3, 3],
                    [0, 3, 3, 3, 3, 3, 3, 3, 3, 3, 3, 3],
                    [0, 3, 3, 3, 3, 3, 3, 3, 3, 3, 3, 3]],
           mmask = [[False, False, False, False, False, False, False, False, False, False, False, False],
                    [False, False, False, False, False, False, False, False, False, False, False, False],
                    [False, False, False, False, False, False, False, False, False, False, False, False]]\<rparr>]"
proof -
  have bad: "\<not> mask_bad 1" by (simp add: mask_bad_def UNSEEN_def)
  show ?thesis
    by (simp add: nb2_cut_and_add_def nb2_cut_def nb2_add_dust_def hp_ma_def bad
        ma_setitem_cols_def setitem_cols_def ncols_def ma_iadd_def broadcast_to_def bdim_to_def
        UNSEEN_def)
qed


section \<open>The notebooks and the world\<close>

lemma as_reals_of_reals: "as_reals (of_reals xs) = Inr xs"
proof -
  have "mapM as_real (map PReal xs) = Inr xs"
    by (induction xs) (simp_all add: as_real_def)
  then show ?thesis by (simp add: as_reals_def of_reals_def)
qed

lemma as_rows_of_rows: "as_rows (of_rows a) = Inr a"
proof -
  have "mapM as_reals (map of_reals a) = Inr a"
    by (induction a) (simp_all add: as_reals_of_reals)
  then show ?thesis by (simp add: as_rows_def of_rows_def)
qed

subsection \<open>The release tree is only read\<close>

lemma preserves_pure: "preserves_release (nb_pure r)"
  by (simp add: preserves_release_def nb_pure_def)

lemma preserves_bind:
  "preserves_release m \<Longrightarrow> (\<And>x. preserves_release (f x)) \<Longrightarrow> preserves_release (nb_bind m f)"
  unfolding preserves_release_def nb_bind_def
proof (intro allI)
  fix w
  assume m: "\<forall>w. release_files (fst (m w)) = release_files w"
    and f: "\<And>x. \<forall>w. release_files (fst (f x w)) = release_files w"
  show "release_files (fst (case m w of (w', Inl e) \<Rightarrow> (w', Inl e) | (w', Inr x) \<Rightarrow> f x w'))
          = release_files w"
  proof (cases "m w")
    case (Pair w' r)
    with m [rule_format, of w] have w': "release_files w' = release_files w" by simp
    show ?thesis
    proof (cases r)
      case (Inl e)
      with Pair w' show ?thesis by simp
    next
      case (Inr x)
      with Pair w' f [of x, rule_format, of w'] show ?thesis by simp
    qed
  qed
qed

lemma preserves_mapM: "(\<And>x. preserves_release (f x)) \<Longrightarrow> preserves_release (nb_mapM f xs)"
  by (induction xs) (simp_all add: preserves_pure preserves_bind)

lemma preserves_case_prod:
  "(\<And>a b. preserves_release (f a b)) \<Longrightarrow> preserves_release (case_prod f x)"
  by (cases x) simp

lemma preserves_call:
  "reads_only lib \<Longrightarrow> name \<in> set read_only_calls
     \<Longrightarrow> preserves_release (call lib name args kwargs)"
  by (simp add: reads_only_def preserves_release_def)

lemma preserves_shell:
  "reads_only lib \<Longrightarrow> take 3 cmd = ''ls '' \<Longrightarrow> preserves_release (nb_shell lib cmd)"
proof -
  assume a: "reads_only lib" and c: "take 3 cmd = ''ls ''"
  have "cmd = ''ls '' @ drop 3 cmd" using c append_take_drop_id [of 3 cmd] by simp
  then obtain dir where "cmd = ''ls '' @ dir" ..
  with a show ?thesis
    by (simp add: reads_only_def preserves_release_def nb_shell_def)
qed

lemmas preserves_intros =
  preserves_pure preserves_bind preserves_mapM preserves_case_prod preserves_call preserves_shell

lemmas notebook_defs =
  py_imports_def read_map_def get_hitmaps_def nb1_print_channel_def nb1_convert_def
  nb1_channels_def nb1_maps_def nb2_plot_def nb3_corrected_cl_def nb3_plot_def
  plot_def item_def item000_def simulator_def simulate_def print_attrs_def nb6_setup_def
  log_axes_def nb6_spectrum_def nb6_compare_def nb6_component_def nb6_variants_def

lemmas call_lists =
  read_only_calls_def reading_calls_def session_calls_def computing_calls_def drawing_calls_def

lemma preserves_nb1: "reads_only lib \<Longrightarrow> preserves_release (nb1 lib)"
  unfolding nb1_def notebook_defs
  by (intro preserves_intros) (simp_all add: nb1_folder_def call_lists)

lemma preserves_nb2: "reads_only lib \<Longrightarrow> preserves_release (nb2 lib)"
  unfolding nb2_def notebook_defs
  by (intro preserves_intros) (simp_all add: nb2_folder_def call_lists)

lemma preserves_nb3: "reads_only lib \<Longrightarrow> preserves_release (nb3 lib)"
  unfolding nb3_def notebook_defs
  by (intro preserves_intros) (simp_all add: call_lists)

lemma preserves_nb6: "reads_only lib \<Longrightarrow> preserves_release (nb6 lib)"
  unfolding nb6_def notebook_defs
  by (intro preserves_intros) (simp_all add: call_lists)

text \<open>
  C7.  The notebooks do nothing to the disk themselves: everything they do to the world
  goes through a library call or a shell escape, and the only calls they make are to
  the functions listed in \<open>read_only_calls\<close>, the only shell escapes are \<open>ls\<close>.  The one
  function among them that opens release files is \<open>hp.read_map\<close>.  So with a library
  whose listed functions leave the files under the release root as they are, whatever
  its other functions do, the files under the release root are the same after a run of
  notebook 1, 2, 3 or 6 as before, whether the run ends normally or with an exception.
\<close>

theorem notebooks_leave_release_files_unchanged:
  assumes "reads_only lib"
  shows "release_files (fst (nb1 lib w)) = release_files w
       \<and> release_files (fst (nb2 lib w)) = release_files w
       \<and> release_files (fst (nb3 lib w)) = release_files w
       \<and> release_files (fst (nb6 lib w)) = release_files w"
  using preserves_nb1 [OF assms] preserves_nb2 [OF assms] preserves_nb3 [OF assms]
    preserves_nb6 [OF assms]
  by (simp add: preserves_release_def)


subsubsection \<open>A run on a disk that holds the release\<close>

text \<open>
  The second stand-in reads only in the sense above although it can write: its
  \<open>hp.write_map\<close>, \<open>os.remove\<close> and \<open>rm\<close> are not among the listed functions.
\<close>

lemma nersc_library_reads_only: "reads_only nersc_library"
  by (simp add: reads_only_def nersc_library_def nersc_call_def nersc_shell_def call_lists
      split: list.splits pyobj.splits option.splits)

lemma disk_nersc [simp]: "disk nersc = nersc_disk"
  by (simp add: nersc_def)

lemma nersc_mask: "nersc_disk nb1_mask_path = Some ''10''"
  by (simp add: nersc_disk_def combined_path_def dust_path_def cmb_paths_def noise_paths_def
      nb1_mask_path_def nb1_folder_def nb2_folder_def release_root_def)

lemma nersc_map:
  "p \<in> set (combined_path # dust_path # cmb_paths @ noise_paths) \<Longrightarrow>
     nersc_disk p = Some ''10/30/40''"
  by (simp add: nersc_disk_def)

text \<open>The names the notebooks compute are the names of the files on this disk.\<close>

lemma nb3_names: "filenames (PInt 512) example_channel = Inr noise_paths"
  by code_simp

lemma sf_combined: "signal_filename nb1_folder ''combined'' 0 example_channel = Inr combined_path"
  by code_simp

lemma sf_dust: "signal_filename nb1_folder ''dust'' 0 example_channel = Inr dust_path"
  by code_simp

lemma sf_cmb_each:
  "signal_filename nb2_folder ''cmb'' 0 example_channel = Inr (cmb_paths ! 0)"
  "signal_filename nb2_folder ''cmb'' 1 example_channel = Inr (cmb_paths ! 1)"
  "signal_filename nb2_folder ''cmb'' 2 example_channel = Inr (cmb_paths ! 2)"
  "signal_filename nb2_folder ''cmb'' 3 example_channel = Inr (cmb_paths ! 3)"
  "signal_filename nb2_folder ''cmb'' 4 example_channel = Inr (cmb_paths ! 4)"
  "signal_filename nb2_folder ''cmb'' 5 example_channel = Inr (cmb_paths ! 5)"
  "signal_filename nb2_folder ''cmb'' 6 example_channel = Inr (cmb_paths ! 6)"
  "signal_filename nb2_folder ''cmb'' 7 example_channel = Inr (cmb_paths ! 7)"
  "signal_filename nb2_folder ''cmb'' 8 example_channel = Inr (cmb_paths ! 8)"
  "signal_filename nb2_folder ''cmb'' 9 example_channel = Inr (cmb_paths ! 9)"
  by code_simp+

lemma decoded_rows: "as_rows (decode_map ''10/30/40'') = Inr [[1, 0], [3, 0], [4, 0]]"
  by code_simp

lemma decoded_mask: "as_bools (decode_mask ''10'') = Inr [True, False]"
  by code_simp

lemma read_release_map:
  "p \<in> set (combined_path # dust_path # cmb_paths @ noise_paths) \<Longrightarrow>
     read_map nersc_library p nersc = (nersc, Inr [[1, 0], [3, 0], [4, 0]])"
  by (simp add: read_map_def nersc_library_def nersc_call_def nersc_map nb_bind_def nb_pure_def
      decoded_rows)

lemma read_release_maps:
  "set ps \<subseteq> set (combined_path # dust_path # cmb_paths @ noise_paths) \<Longrightarrow>
     nb_mapM (read_map nersc_library) ps nersc
       = (nersc, Inr (map (\<lambda>p. [[1, 0], [3, 0], [4, 0]]) ps))"
  by (induction ps) (simp_all add: read_release_map nb_bind_def nb_pure_def)

lemma read_combined:
  "read_map nersc_library combined_path nersc = (nersc, Inr [[1, 0], [3, 0], [4, 0]])"
  by (rule read_release_map) simp

lemma read_dust:
  "read_map nersc_library dust_path nersc = (nersc, Inr [[1, 0], [3, 0], [4, 0]])"
  by (rule read_release_map) simp

lemma read_noise:
  "nb_mapM (read_map nersc_library) noise_paths nersc
     = (nersc, Inr (replicate 5 [[1, 0], [3, 0], [4, 0]]))"
proof -
  have "map (\<lambda>p. [[1, 0], [3, 0], [4, 0 :: real]]) noise_paths = replicate 5 [[1, 0], [3, 0], [4, 0]]"
    by (simp add: noise_paths_def numeral_eq_Suc)
  moreover have "set noise_paths \<subseteq> set (combined_path # dust_path # cmb_paths @ noise_paths)"
    by auto
  ultimately show ?thesis using read_release_maps [of noise_paths] by simp
qed

lemma read_cmb_each:
  "n < 10 \<Longrightarrow>
     read_map nersc_library (cmb_paths ! n) nersc = (nersc, Inr [[1, 0], [3, 0], [4, 0]])"
proof -
  assume "n < 10"
  then have "cmb_paths ! n \<in> set cmb_paths" by (intro nth_mem) (simp add: cmb_paths_def)
  then show ?thesis by (intro read_release_map) simp
qed

lemma read_mask:
  "call nersc_library ''hp.read_map'' [PStr nb1_mask_path] [(''dtype'', PStr ''np.bool'')] nersc
     = (nersc, Inr (decode_mask ''10''))"
  by (simp add: nersc_library_def nersc_call_def nersc_mask)

text \<open>What the stand-in returns, in the form the notebooks use it.\<close>

lemma nersc_other:
  "name \<noteq> ''hp.read_map'' \<Longrightarrow> name \<noteq> ''hp.write_map'' \<Longrightarrow> name \<noteq> ''os.remove'' \<Longrightarrow>
     call nersc_library name args kwargs w = (w, Inr (nersc_result name args))"
  by (simp add: nersc_library_def nersc_call_def)

lemma ls_example:
  "nb_shell nersc_library (CHR ''l'' # CHR ''s'' # CHR '' '' # dir) w = (w, Inr ())"
  by (simp add: nb_shell_def nersc_library_def nersc_shell_def)

lemma channel_attrs:
  "py_getattr example_channel ''telescope'' = Inr (PStr ''SA'')"
  "py_getattr example_channel ''tube'' = Inr (PStr ''ST2'')"
  "py_getattr example_channel ''band'' = Inr (PStr ''MFS1'')"
  "py_getattr example_channel ''tag'' = Inr (PStr ''ST2_MFS1'')"
  "py_getattr example_channel ''beam'' = Inr (PInt 30)"
  "py_getattr example_channel ''center_frequency'' = Inr (PInt 93)"
  by (simp_all add: py_getattr_def example_channel_def)

lemma titled_example: "titled prefix example_channel = Inr (PStr (prefix @ ''ST2_MFS1''))"
  by (simp add: titled_def channel_attrs py_add_def)

lemma py_getitem_simps:
  "py_getitem (PList xs) i = getitem xs i"
  "py_getitem (of_rows a) i = getitem (map of_reals a) i"
  "py_getitem (of_reals r) i = getitem (map PReal r) i"
  by (simp_all add: py_getitem_def of_rows_def of_reals_def)

lemma hitmaps_example:
  "get_hitmaps nersc_library noise example_channel w = (w, Inr [[1, 0], [1, 1]])"
  by (simp add: get_hitmaps_def nb_bind_def nb_pure_def channel_attrs nersc_other nersc_result_def
      unpack2_def py_iter_def as_rows_of_rows)

lemma as_map_example: "as_map example_car_map = Inr [[1, 1]]"
  by (simp add: as_map_def example_car_map_def as_rows_of_rows)

lemma car_map_attrs:
  "py_getattr example_car_map ''shape'' = Inr (PList [PInt 1, PInt 2])"
  "py_getattr example_car_map ''wcs'' = Inr (PStr ''car'')"
  "py_getitem example_car_map 0 = Inr (of_reals [1, 1])"
  by (simp_all add: py_getattr_def py_getitem_def example_car_map_def of_rows_def)

lemma simulator_attrs:
  "py_getattr example_simulator ''tubes''
     = Inr (PDict [(''ST0'', PList [example_channel]), (''LT3'', PList [example_channel])])"
  "py_getattr example_simulator ''pixarea_map'' = Inr example_car_map"
  by (simp_all add: py_getattr_def example_simulator_def)

lemma m_P_example: "m_P [[1, 0], [3, 0], [4, 0]] = Inr [5, 0]"
proof -
  have root: "sqrt 25 = 5" by (rule real_sqrt_unique) simp_all
  have r: "round64 9 = 9" "round64 16 = 16" "round64 25 = 25" "round64 5 = 5"
    using round64_int [of 9] round64_int [of 16] round64_int [of 25] round64_int [of 5]
    by simp_all
  have "m_P [[1, 0], [3, 0], [4, 0]]
      = Inr (map2 (\<lambda>x y. round64 (sqrt (round64 (round64 (x * x) + round64 (y * y)))))
               [3, 0] [4, 0])"
    using four_le_pow2 [of 511] by (intro m_P_value) simp_all
  then show ?thesis by (simp add: r root)
qed

lemmas run_defs =
  nb_bind_def nb_pure_def py_imports_def nersc_other nersc_result_def channel_attrs titled_example
  hitmaps_example as_rows_of_rows as_reals_of_reals py_getitem_simps

text \<open>
  The four notebooks run to their end on this disk: notebook 1 reads the combined map
  and the mask, notebook 2 the ten CMB maps and the dust map, notebook 3 the five noise
  maps and the combined map; notebook 6 reads no release file.
\<close>

lemma nb1_run: "nb1 nersc_library nersc = (nersc, Inr ([5, 0], [5, UNSEEN], [5, UNSEEN]))"
  by (simp add: nb1_def nb1_channels_def nb1_maps_def nb1_print_channel_def nb1_convert_def
      run_defs read_combined sf_combined read_mask decoded_mask m_P_example
      py_iter_def py_add_def ls_example
      m_P_masked_def m_P_survey_def setitem_bool_def broadcast1_def bdim_def stretch_def)

lemma nb2_run:
  "nb2 nersc_library nersc
     = (nersc, Inr (replicate 10 \<lparr>mdata = [[2, UNSEEN], [6, UNSEEN], [8, UNSEEN]],
                                  mmask = replicate 3 [False, False]\<rparr>))"
  by (simp add: nb2_def nb2_plot_def run_defs sf_cmb_each read_cmb_each read_dust sf_dust
      py_iter_def ls_example
      nb2_cut_def nb2_add_dust_def ma_setitem_cols_def ma_iadd_def cut_cols_def setitem_cols_def
      broadcast_to_def bdim_to_def
      broadcast2_def bdim_def ncols_def stretch_def hp_ma_def mask_bad_def UNSEEN_def component_def
      numeral_eq_Suc)

lemma nb3_run:
  "nb3 nersc_library nersc
     = (nersc, Inr (replicate 5 \<lparr>mdata = [[2, 0], [6, 0], [8, 0]],
                                 mmask = replicate 3 [False, False]\<rparr>))"
  by (simp add: nb3_def run_defs nb3_names read_noise read_combined sf_combined
      unpack3_def py_iter_def nb3_corrected_cl_def nb3_plot_def
      sky_fraction_def scalar_divide_def
      broadcast2_def bdim_def ncols_def stretch_def np_mean_def np_square_def divide2_def
      nb3_add_foregrounds_def ma_radd_def hp_ma_def mask_bad_def UNSEEN_def component_def
      numeral_eq_Suc)

lemma nb6_run: "nb6 nersc_library nersc = (nersc, Inr [2 * pi])"
  by (simp add: nb6_def nb6_setup_def nb6_spectrum_def nb6_compare_def nb6_variants_def
      nb6_component_def plot_def item_def item000_def simulator_def simulate_def print_attrs_def
      log_axes_def first_channel_def py_getkey_def unpack6_def
      run_defs as_map_example car_map_attrs simulator_attrs
      unpack2_def py_iter_def standardized_def car_mask_def w2_def setitem_bool2_def divide1_def
      broadcast2_def bdim_def ncols_def stretch_def np_square_def getitem_def as_real_def)

lemma release_files_nersc:
  "release_files nersc combined_path = Some ''10/30/40''"
  "release_files nersc nb1_mask_path = Some ''10''"
  by (simp_all add: release_files_def nersc_map nersc_mask)
     (simp_all add: combined_path_def nb1_mask_path_def nb1_folder_def release_root_def)


theorem notebooks_leave_release_files_unchanged_witness:
  "reads_only (nersc_library :: world library)
   \<and> release_files nersc combined_path = Some ''10/30/40''
   \<and> snd (nb1 nersc_library nersc) = Inr ([5, 0], [5, UNSEEN], [5, UNSEEN])
   \<and> snd (nb2 nersc_library nersc)
       = Inr (replicate 10 \<lparr>mdata = [[2, UNSEEN], [6, UNSEEN], [8, UNSEEN]],
                                mmask = replicate 3 [False, False]\<rparr>)
   \<and> snd (nb3 nersc_library nersc)
       = Inr (replicate 5 \<lparr>mdata = [[2, 0], [6, 0], [8, 0]], mmask = replicate 3 [False, False]\<rparr>)
   \<and> snd (nb6 nersc_library nersc) = Inr [2 * pi]
   \<and> release_files (fst (nb1 nersc_library nersc)) = release_files nersc
   \<and> release_files (fst (nb2 nersc_library nersc)) = release_files nersc
   \<and> release_files (fst (nb3 nersc_library nersc)) = release_files nersc
   \<and> release_files (fst (nb6 nersc_library nersc)) = release_files nersc"
proof -
  have ok: "reads_only (nersc_library :: world library)"
    by (rule nersc_library_reads_only)
  from notebooks_leave_release_files_unchanged [OF ok, of nersc] ok
  show ?thesis
    by (simp add: release_files_nersc nb1_run nb2_run nb3_run nb6_run)
qed

text \<open>
  The same library does change the release when a cell asks it to: a cell that reads
  the combined map and writes it back doubled, or removes it, leaves another file
  behind.  So that the notebooks leave the release as it is rests on what they call.
\<close>

lemma writing_cell_changes_release:
  "release_files
     (fst (nb_bind (read_map nersc_library combined_path)
             (\<lambda>m. call nersc_library ''hp.write_map''
                    [PStr combined_path, of_rows (map (map (\<lambda>x. 2 * x)) m)] []) nersc))
     combined_path = Some ''20/60/80''"
  "release_files (fst (call nersc_library ''os.remove'' [PStr combined_path] [] nersc))
     combined_path = None"
  "release_files (shell nersc_library (''rm '' @ combined_path) nersc) combined_path = None"
proof -
  have root: "take (length release_root) combined_path = release_root"
    by (simp add: combined_path_def nb1_folder_def release_root_def)
  have e: "encode_map [[2, 0], [6, 0], [8, 0]] = ''20/60/80''"
    by (simp add: encode_map_def digit_char_def)
  have w: "call nersc_library ''hp.write_map'' [PStr p, of_rows rows] [] nersc
             = (nersc\<lparr>disk := (disk nersc)(p \<mapsto> encode_map rows)\<rparr>, Inr PNone)" for p rows
    by (simp add: nersc_library_def nersc_call_def as_rows_of_rows)
  show "release_files
     (fst (nb_bind (read_map nersc_library combined_path)
             (\<lambda>m. call nersc_library ''hp.write_map''
                    [PStr combined_path, of_rows (map (map (\<lambda>x. 2 * x)) m)] []) nersc))
     combined_path = Some ''20/60/80''"
    by (simp add: nb_bind_def read_combined w e release_files_def root)
  show "release_files (fst (call nersc_library ''os.remove'' [PStr combined_path] [] nersc))
     combined_path = None"
    by (simp add: nersc_library_def nersc_call_def nersc_map release_files_def root)
  show "release_files (shell nersc_library (''rm '' @ combined_path) nersc) combined_path = None"
    by (simp add: nersc_library_def nersc_shell_def release_files_def root)
qed


subsection \<open>Exceptions of the library reach the top\<close>

lemma propagates_pure: "propagates (nb_pure r)"
  by (simp add: propagates_def nb_pure_def)

lemma propagates_bind:
  assumes m: "propagates m" and f: "\<And>x. propagates (f x)"
  shows "propagates (nb_bind m f)"
  unfolding propagates_def
proof (intro allI)
  fix w raised
  obtain w1 raised1 r1 where run: "m (w, raised) = ((w1, raised1), r1)"
    by (metis prod.exhaust)
  from m [unfolded propagates_def, rule_format, where w = w and raised = raised] run
  have first: "raised1 = raised \<or> (\<exists>e. raised1 = raised @ [e] \<and> r1 = Inl e)" by simp
  show "case nb_bind m f (w, raised) of
          ((w', raised'), r) \<Rightarrow> raised' = raised \<or> (\<exists>e. raised' = raised @ [e] \<and> r = Inl e)"
  proof (cases r1)
    case (Inl e)
    with run first show ?thesis by (simp add: nb_bind_def)
  next
    case (Inr x)
    with first have same: "raised1 = raised" by auto
    obtain w2 raised2 r2 where run2: "f x (w1, raised1) = ((w2, raised2), r2)"
      by (metis prod.exhaust)
    from f [of x, unfolded propagates_def, rule_format, where w = w1 and raised = raised1] run2
    have "raised2 = raised1 \<or> (\<exists>e. raised2 = raised1 @ [e] \<and> r2 = Inl e)" by simp
    with run Inr run2 same show ?thesis by (simp add: nb_bind_def)
  qed
qed

lemma propagates_mapM: "(\<And>x. propagates (f x)) \<Longrightarrow> propagates (nb_mapM f xs)"
  by (induction xs) (simp_all add: propagates_pure propagates_bind)

lemma propagates_case_prod: "(\<And>a b. propagates (f a b)) \<Longrightarrow> propagates (case_prod f x)"
  by (cases x) simp

lemma propagates_call: "propagates (call (recording lib) name args kwargs)"
  by (auto simp: propagates_def recording_def split: prod.splits sum.splits)

lemma propagates_shell: "propagates (nb_shell (recording lib) cmd)"
  by (simp add: propagates_def recording_def nb_shell_def)

lemmas propagates_intros =
  propagates_pure propagates_bind propagates_mapM propagates_case_prod propagates_call
  propagates_shell

lemma shadows_pure: "shadows (nb_pure r) (nb_pure r)"
  by (simp add: shadows_def nb_pure_def)

lemma shadows_bind:
  assumes m: "shadows m m'" and f: "\<And>x. shadows (f x) (f' x)"
  shows "shadows (nb_bind m f) (nb_bind m' f')"
  unfolding shadows_def
proof (intro allI)
  fix w raised
  obtain w1 raised1 r1 where run': "m' (w, raised) = ((w1, raised1), r1)"
    by (metis prod.exhaust)
  with m [unfolded shadows_def, rule_format, where w = w and raised = raised]
  have run: "m w = (w1, r1)" by (simp add: prod_eq_iff)
  show "fst (fst (nb_bind m' f' (w, raised))) = fst (nb_bind m f w)
          \<and> snd (nb_bind m' f' (w, raised)) = snd (nb_bind m f w)"
  proof (cases r1)
    case (Inl e)
    with run run' show ?thesis by (simp add: nb_bind_def)
  next
    case (Inr x)
    with run run' f [of x, unfolded shadows_def, rule_format, where w = w1 and raised = raised1]
    show ?thesis by (simp add: nb_bind_def)
  qed
qed

lemma shadows_mapM: "(\<And>x. shadows (f x) (f' x)) \<Longrightarrow> shadows (nb_mapM f xs) (nb_mapM f' xs)"
  by (induction xs) (simp_all add: shadows_pure shadows_bind)

lemma shadows_case_prod:
  "(\<And>a b. shadows (f a b) (f' a b)) \<Longrightarrow> shadows (case_prod f x) (case_prod f' x)"
  by (cases x) simp

lemma shadows_call: "shadows (call lib name args kwargs) (call (recording lib) name args kwargs)"
  by (auto simp: shadows_def recording_def split: prod.splits sum.splits)

lemma shadows_shell: "shadows (nb_shell lib cmd) (nb_shell (recording lib) cmd)"
  by (simp add: shadows_def recording_def nb_shell_def)

lemmas shadows_intros =
  shadows_pure shadows_bind shadows_mapM shadows_case_prod shadows_call shadows_shell

lemma propagates_nb1: "propagates (nb1 (recording lib))"
  unfolding nb1_def notebook_defs by (intro propagates_intros)

lemma propagates_nb2: "propagates (nb2 (recording lib))"
  unfolding nb2_def notebook_defs by (intro propagates_intros)

lemma propagates_nb3: "propagates (nb3 (recording lib))"
  unfolding nb3_def notebook_defs by (intro propagates_intros)

lemma propagates_nb6: "propagates (nb6 (recording lib))"
  unfolding nb6_def notebook_defs by (intro propagates_intros)

lemma shadows_nb6: "shadows (nb6 lib) (nb6 (recording lib))"
  unfolding nb6_def notebook_defs by (intro shadows_intros)

lemma shadows_nb1: "shadows (nb1 lib) (nb1 (recording lib))"
  unfolding nb1_def notebook_defs by (intro shadows_intros)

lemma shadows_nb2: "shadows (nb2 lib) (nb2 (recording lib))"
  unfolding nb2_def notebook_defs by (intro shadows_intros)

lemma shadows_nb3: "shadows (nb3 lib) (nb3 (recording lib))"
  unfolding nb3_def notebook_defs by (intro shadows_intros)

lemma propagates_run:
  assumes "propagates m'" "shadows m m'"
  shows "(snd (fst (m' (w, []))) = []
          \<or> (\<exists>e. snd (fst (m' (w, []))) = [e] \<and> snd (m w) = Inl e))
         \<and> m w = (fst (fst (m' (w, []))), snd (m' (w, [])))"
proof -
  obtain w' raised r where run: "m' (w, []) = ((w', raised), r)"
    by (metis prod.exhaust)
  from assms(1) [unfolded propagates_def, rule_format, where w = w and raised = "[]"] run
  have "raised = [] \<or> (\<exists>e. raised = [e] \<and> r = Inl e)" by simp
  moreover from assms(2) [unfolded shadows_def, rule_format, where w = w and raised = "[]"] run
  have "m w = (w', r)" by (simp add: prod_eq_iff)
  ultimately show ?thesis using run by simp
qed

text \<open>
  C8.  Run a notebook with the library recording what it raises.  Either the library
  raised nothing, or it raised exactly one exception, and that exception, unchanged, is
  the outcome of the notebook: no call is made after it and no value is put in its
  place.  The recording run and the plain run have the same world and the same outcome.
\<close>

theorem library_exceptions_propagate:
  "((snd (fst (nb1 (recording lib) (w, []))) = []
      \<or> (\<exists>e. snd (fst (nb1 (recording lib) (w, []))) = [e] \<and> snd (nb1 lib w) = Inl e))
     \<and> nb1 lib w = (fst (fst (nb1 (recording lib) (w, []))), snd (nb1 (recording lib) (w, []))))
   \<and> ((snd (fst (nb2 (recording lib) (w, []))) = []
      \<or> (\<exists>e. snd (fst (nb2 (recording lib) (w, []))) = [e] \<and> snd (nb2 lib w) = Inl e))
     \<and> nb2 lib w = (fst (fst (nb2 (recording lib) (w, []))), snd (nb2 (recording lib) (w, []))))
   \<and> ((snd (fst (nb3 (recording lib) (w, []))) = []
      \<or> (\<exists>e. snd (fst (nb3 (recording lib) (w, []))) = [e] \<and> snd (nb3 lib w) = Inl e))
     \<and> nb3 lib w = (fst (fst (nb3 (recording lib) (w, []))), snd (nb3 (recording lib) (w, []))))
   \<and> ((snd (fst (nb6 (recording lib) (w, []))) = []
      \<or> (\<exists>e. snd (fst (nb6 (recording lib) (w, []))) = [e] \<and> snd (nb6 lib w) = Inl e))
     \<and> nb6 lib w = (fst (fst (nb6 (recording lib) (w, []))), snd (nb6 (recording lib) (w, []))))"
  using propagates_run [OF propagates_nb1 shadows_nb1, of lib w]
    propagates_run [OF propagates_nb2 shadows_nb2, of lib w]
    propagates_run [OF propagates_nb3 shadows_nb3, of lib w]
    propagates_run [OF propagates_nb6 shadows_nb6, of lib w]
  by blast



text \<open>
  On a disk without the noise release, notebook 3 ends with the exception of the first
  \<open>hp.read_map\<close>.
\<close>

lemma filenames_example: "filenames (PInt 512) example_channel = Inr
  [''/project/projectdirs/sobs/v4_sims/mbs/202006_noise/noise/0000/simonsobs_noise_uKCMB_ST2_MFS1_nside512_0000_1_of_1.fits'',
   ''/project/projectdirs/sobs/v4_sims/mbs/202006_noise/noise/0000/simonsobs_noise_uKCMB_ST2_MFS1_nside512_0000_1_of_4.fits'',
   ''/project/projectdirs/sobs/v4_sims/mbs/202006_noise/noise/0000/simonsobs_noise_uKCMB_ST2_MFS1_nside512_0000_2_of_4.fits'',
   ''/project/projectdirs/sobs/v4_sims/mbs/202006_noise/noise/0000/simonsobs_noise_uKCMB_ST2_MFS1_nside512_0000_3_of_4.fits'',
   ''/project/projectdirs/sobs/v4_sims/mbs/202006_noise/noise/0000/simonsobs_noise_uKCMB_ST2_MFS1_nside512_0000_4_of_4.fits'']"
  by code_simp

lemma nb3_run_example: "nb3 (recording example_library) (\<lparr>disk = Map.empty\<rparr>, [])
   = ((\<lparr>disk = Map.empty\<rparr>, [Raised ''FileNotFoundError'']), Inl (Raised ''FileNotFoundError''))"
  by (simp add: nb3_def notebook_defs nb_bind_def nb_pure_def recording_def example_library_def
      filenames_example py_getitem_def)


theorem library_exceptions_propagate_witness:
  "nb3 example_library \<lparr>disk = Map.empty\<rparr>
     = (\<lparr>disk = Map.empty\<rparr>, Inl (Raised ''FileNotFoundError''))
   \<and> snd (fst (nb3 (recording example_library) (\<lparr>disk = Map.empty\<rparr>, [])))
     = [Raised ''FileNotFoundError'']"
  using library_exceptions_propagate [of example_library "\<lparr>disk = Map.empty\<rparr>"]
  by (simp add: nb3_run_example)


subsection \<open>The spectra of notebook 3, in the notebook and on their own\<close>

text \<open>
  With a transform that does not touch the world, the cells of notebook 3 that compute
  \<open>sky_fraction\<close> and \<open>cls\<close> return what \<open>cls\<close> returns.
\<close>

lemma nb_mapM_pure:
  "(\<And>x w. f x w = (w, g x)) \<Longrightarrow> nb_mapM f xs w = (w, mapM g xs)"
proof (induction xs)
  case Nil
  then show ?case by (simp add: nb_pure_def)
next
  case (Cons x xs)
  then show ?case
    by (cases "g x"; cases "mapM g xs") (simp_all add: nb_bind_def nb_pure_def)
qed

lemma nb3_corrected_cl_pure:
  assumes "\<And>a w. call lib ''hp.anafast'' [of_rows a] [(''iter'', PInt 0)] w
             = (w, bind (anafast a) (\<lambda>cl. Inr (of_rows cl)))"
  shows "nb3_corrected_cl lib hitmaps sf m w = (w, corrected_cl anafast hitmaps sf m)"
proof (cases "getitem hitmaps 0")
  case (Inl e)
  then show ?thesis by (simp add: nb3_corrected_cl_def corrected_cl_def nb_bind_def nb_pure_def)
next
  case h0: (Inr h0)
  show ?thesis
  proof (cases "broadcast2 (*) m [h0]")
    case (Inl e)
    with h0 show ?thesis
      by (simp add: nb3_corrected_cl_def corrected_cl_def nb_bind_def nb_pure_def)
  next
    case a: (Inr a)
    show ?thesis
    proof (cases "anafast a")
      case (Inl e)
      with h0 a assms show ?thesis
        by (simp add: nb3_corrected_cl_def corrected_cl_def nb_bind_def nb_pure_def)
    next
      case (Inr cl)
      with h0 a assms show ?thesis
        by (simp add: nb3_corrected_cl_def corrected_cl_def nb_bind_def nb_pure_def
            as_rows_of_rows)
    qed
  qed
qed

lemma nb3_cls_is_cls:
  assumes "\<And>a w. call lib ''hp.anafast'' [of_rows a] [(''iter'', PInt 0)] w
             = (w, bind (anafast a) (\<lambda>cl. Inr (of_rows cl)))"
  shows "nb_bind (nb_pure (sky_fraction hitmaps))
           (\<lambda>sf. nb_mapM (nb3_corrected_cl lib hitmaps sf) maps) w
         = (w, cls anafast maps hitmaps)"
proof (cases "sky_fraction hitmaps")
  case (Inl e)
  then show ?thesis by (simp add: nb_bind_def nb_pure_def cls_def)
next
  case (Inr sf)
  have "nb_mapM (nb3_corrected_cl lib hitmaps sf) maps w
        = (w, mapM (corrected_cl anafast hitmaps sf) maps)"
    by (rule nb_mapM_pure) (rule nb3_corrected_cl_pure [OF assms])
  with Inr show ?thesis by (simp add: nb_bind_def nb_pure_def cls_def)
qed

end
